theory Spec2Isabelle
  imports Main "HOL-Library.Word"
begin

section \<open>JavaScript values used by the generation service\<close>

subsection \<open>Strings\<close>

text \<open>
  Strings are lists of 8-bit characters, read as the UTF-16 code units U+0000 to
  U+00FF; a string with a code unit above U+00FF is outside the model.
  \<open>includesStr\<close> is \<open>String.prototype.includes\<close>: the needle occurs as a
  contiguous run of the haystack. \<open>toLowerCase\<close> is the platform function on these
  code units: it maps the capital letters A to Z and, in the Latin-1 block, U+00C0 to
  U+00DE except the multiplication sign U+00D7 to the letter 32 places further, and
  leaves every other code unit as it is.
\<close>

definition startsWith :: "string \<Rightarrow> string \<Rightarrow> bool" where
  "startsWith hay needle = (take (length needle) hay = needle)"

fun includesStr :: "string \<Rightarrow> string \<Rightarrow> bool" where
  "includesStr [] needle = (needle = [])"
| "includesStr (c # cs) needle = (startsWith (c # cs) needle \<or> includesStr cs needle)"

definition lowerChar :: "char \<Rightarrow> char" where
  "lowerChar c =
     (let n = (of_char c :: nat)
      in if (65 \<le> n \<and> n \<le> 90) \<or> (192 \<le> n \<and> n \<le> 222 \<and> n \<noteq> 215)
         then char_of (n + 32) else c)"

definition toLowerCase :: "string \<Rightarrow> string" where
  "toLowerCase s = map lowerChar s"

definition NL :: string where
  "NL = [CHR 0x0A]"

definition DQ :: string where
  "DQ = [CHR 0x22]"

definition SQ :: string where
  "SQ = [CHR 0x27]"

text \<open>A value the code tests for truthiness: \<open>undefined\<close> and the empty string are falsy.\<close>

definition truthy :: "string option \<Rightarrow> bool" where
  "truthy v = (case v of None \<Rightarrow> False | Some x \<Rightarrow> x \<noteq> [])"

text \<open>A value interpolated into a template literal: \<open>undefined\<close> prints as that word.\<close>

definition interpolate :: "string option \<Rightarrow> string" where
  "interpolate v = (case v of None \<Rightarrow> ''undefined'' | Some x \<Rightarrow> x)"

text \<open>A whole number interpolated into a template literal prints in decimal.\<close>

function showNat :: "nat \<Rightarrow> string" where
  "showNat n = (if n < 10 then [char_of (48 + n)] else showNat (n div 10) @ [char_of (48 + n mod 10)])"
  by pat_completeness auto
termination
  by (relation "measure id") auto

declare showNat.simps [simp del]

definition showNumber :: "int \<Rightarrow> string" where
  "showNumber i = (if i < 0 then ''-'' @ showNat (nat (- i)) else showNat (nat i))"

text \<open>\<open>Array.prototype.join\<close> on a list of strings.\<close>

fun join :: "string \<Rightarrow> string list \<Rightarrow> string" where
  "join sep [] = []"
| "join sep [x] = x"
| "join sep (x # y # ys) = x @ sep @ join sep (y # ys)"

subsection \<open>Thrown values and settled promises\<close>

text \<open>
  A thrown value is read by the retry wrapper through two properties only,
  \<open>status\<close> and \<open>message\<close>; either may be absent. \<open>new Error(msg)\<close>, and the
  platform's \<open>TypeError\<close> and \<open>RangeError\<close>, carry a message and no status.
\<close>

record js_error =
  status :: "int option"
  message :: "string option"

definition mkError :: "string \<Rightarrow> js_error" where
  "mkError msg = \<lparr>status = None, message = Some msg\<rparr>"

datatype 'a outcome = Resolved 'a | Rejected js_error

subsection \<open>The world outside the program\<close>

text \<open>
  The generative service is an external collaborator. Its answers are given by an
  oracle indexed by the number of requests made so far, so that the same request can
  be answered differently at different times. Everything the program does to the
  outside is appended to a trace: requests, timer waits, console output, and the
  state updates the handlers issue.
\<close>

text \<open>
  A response schema (\<open>Schema\<close> of the client library): a type, for a string or an
  array an optional description, for an array the schema of its items, for an object
  its properties and the names of the required ones.
\<close>

datatype schema =
  StringType "string option"
| IntegerType
| ArrayType schema "string option"
| ObjectType "(string \<times> schema) list" "string list"

text \<open>
  A request names its model and carries what the job puts into it: for an image the
  prompt, the aspect ratio and the image size; for speech the text and the voice; for
  a script the prompt, the system instruction, the response MIME type and the response
  schema (the sampling temperature, a constant, is left out).
\<close>

datatype request =
  ImageRequest string string string "string option"
| SpeechRequest string string string
| ScriptRequest string string string string schema

datatype event =
  Requested request
| Slept int
| RetryWarned int int
| FallbackWarned "string option"
| AudioLoadingIndexSet "nat option"
| ImageLoadingIndexSet "nat option"
| ProjectUpdated nat
| ConsoleError js_error
| Invoked nat

record world =
  calls :: nat
  trace :: "event list"

definition emit :: "event list \<Rightarrow> world \<Rightarrow> world" where
  "emit es w = w\<lparr>trace := trace w @ es\<rparr>"

text \<open>
  A request goes out through a client built from an API key; the oracle sees the key,
  the number of earlier requests and the request.
\<close>

type_synonym 'r service = "string \<Rightarrow> nat \<Rightarrow> request \<Rightarrow> 'r outcome"

definition send :: "'r service \<Rightarrow> string \<Rightarrow> request \<Rightarrow> world \<Rightarrow> 'r outcome \<times> world" where
  "send svc key req w =
     (svc key (calls w) req, w\<lparr>calls := Suc (calls w), trace := trace w @ [Requested req]\<rparr>)"

text \<open>
  \<^verbatim>\<open>const key = customKey || process.env.API_KEY;
  if (!key) throw new Error("Missing API Key. Please add one in Settings.");\<close>
  The client is represented by its key.
\<close>

definition getAI :: "string option \<Rightarrow> string option \<Rightarrow> js_error + string" where
  "getAI customKey envKey =
     (case (if truthy customKey then customKey else envKey) of
        None \<Rightarrow> Inl (mkError ''Missing API Key. Please add one in Settings.'')
      | Some key \<Rightarrow>
          if key = [] then Inl (mkError ''Missing API Key. Please add one in Settings.'')
          else Inr key)"

section \<open>RetryPolicy: callWithRetry\<close>

text \<open>
  \<^verbatim>\<open>error.status === 429 || error.status === 503 ||
  (error.message && (error.message.includes('429') || ... '503' ... 'overloaded'))\<close>
\<close>

definition isRetryable :: "js_error \<Rightarrow> bool" where
  "isRetryable err =
     (status err = Some 429 \<or> status err = Some 503 \<or>
      (case message err of
         None \<Rightarrow> False
       | Some m \<Rightarrow> includesStr m ''429'' \<or> includesStr m ''503'' \<or> includesStr m ''overloaded''))"

text \<open>
  The transient signature in the words of the retry contract, to be compared with the
  test the code runs: the status is 429 or 503, or the message mentions 429, 503 or
  \<open>overloaded\<close> somewhere.
\<close>

definition transientSignature :: "js_error \<Rightarrow> bool" where
  "transientSignature err =
     (status err = Some 429 \<or> status err = Some 503 \<or>
      (\<exists>m pre post. message err = Some m \<and>
         (m = pre @ ''429'' @ post \<or> m = pre @ ''503'' @ post \<or> m = pre @ ''overloaded'' @ post)))"

text \<open>
  The wrapped operation is a closure with effects: a function on the world. The retry
  budget is a JavaScript number compared with \<open>=== 0\<close> and decremented, so a negative
  budget never reaches zero and the recursion need not end: the result is an option,
  \<open>None\<close> when the wrapper never settles.
\<close>

partial_function (option) callWithRetry ::
  "(world \<Rightarrow> 'a outcome \<times> world) \<Rightarrow> int \<Rightarrow> int \<Rightarrow> world \<Rightarrow> ('a outcome \<times> world) option" where
  "callWithRetry fn retries delay w =
     (case fn w of
        (Resolved v, w1) \<Rightarrow> Some (Resolved v, w1)
      | (Rejected err, w1) \<Rightarrow>
          if retries = 0 then Some (Rejected err, w1)
          else if isRetryable err then
            callWithRetry fn (retries - 1) (delay * 2)
              (emit [RetryWarned delay retries, Slept delay] w1)
          else Some (Rejected err, w1))"

text \<open>Every call site passes the operation only: \<open>retries = 3, delay = 1000\<close>.\<close>

definition withRetry :: "(world \<Rightarrow> 'a outcome \<times> world) \<Rightarrow> world \<Rightarrow> ('a outcome \<times> world) option" where
  "withRetry fn w = callWithRetry fn 3 1000 w"



fun waits :: "event list \<Rightarrow> int list" where
  "waits [] = []"
| "waits (Slept d # es) = d # waits es"
| "waits (e # es) = waits es"

section \<open>AudioContainerCodec: addWavHeader\<close>

subsection \<open>Buffers, data views and typed arrays\<close>

text \<open>
  An \<open>ArrayBuffer\<close> is a list of bytes. The \<open>DataView\<close> setters are called with
  the little-endian flag; they convert their argument modulo the field's width
  (\<open>word_of_int\<close>) and throw a \<open>RangeError\<close> when the field does not fit the
  buffer. Numbers are modelled as integers.
\<close>

type_synonym byte = "8 word"

definition rangeError :: "string \<Rightarrow> js_error" where
  "rangeError msg = mkError msg"

definition bindE :: "'e + 'a \<Rightarrow> ('a \<Rightarrow> 'e + 'b) \<Rightarrow> 'e + 'b" where
  "bindE r f = (case r of Inl e \<Rightarrow> Inl e | Inr x \<Rightarrow> f x)"

definition setUint8 :: "nat \<Rightarrow> int \<Rightarrow> byte list \<Rightarrow> js_error + byte list" where
  "setUint8 off v buf =
     (if off + 1 \<le> length buf then Inr (buf[off := word_of_int v])
      else Inl (rangeError ''Offset is outside the bounds of the DataView''))"

definition setUint16 :: "nat \<Rightarrow> int \<Rightarrow> byte list \<Rightarrow> js_error + byte list" where
  "setUint16 off v buf =
     (if off + 2 \<le> length buf
      then Inr (buf[off := word_of_int v, off + 1 := word_of_int (v div 256)])
      else Inl (rangeError ''Offset is outside the bounds of the DataView''))"

definition setUint32 :: "nat \<Rightarrow> int \<Rightarrow> byte list \<Rightarrow> js_error + byte list" where
  "setUint32 off v buf =
     (if off + 4 \<le> length buf
      then Inr (buf[off := word_of_int v, off + 1 := word_of_int (v div 256),
                    off + 2 := word_of_int (v div 65536), off + 3 := word_of_int (v div 16777216)])
      else Inl (rangeError ''Offset is outside the bounds of the DataView''))"

text \<open>
  \<^verbatim>\<open>for (let i = 0; i < string.length; i++) view.setUint8(offset + i, string.charCodeAt(i))\<close>
\<close>

fun writeString :: "nat \<Rightarrow> string \<Rightarrow> byte list \<Rightarrow> js_error + byte list" where
  "writeString off [] buf = Inr buf"
| "writeString off (c # cs) buf = bindE (setUint8 off (of_char c) buf) (writeString (Suc off) cs)"

text \<open>
  An \<open>Int16Array\<close> is a view of a buffer: the buffer, the byte offset of the first
  element and the number of elements. \<open>new Int16Array(buffer)\<close> views the whole
  buffer and throws a \<open>RangeError\<close> when its byte length is odd. The elements of a
  view are read in the platform's byte order, little-endian on every platform the
  application runs on.
\<close>

record int16array =
  buffer :: "byte list"
  byteOffset :: nat
  alength :: nat

definition wellFormed :: "int16array \<Rightarrow> bool" where
  "wellFormed a = (even (byteOffset a) \<and> byteOffset a + 2 * alength a \<le> length (buffer a))"

definition newInt16Array :: "byte list \<Rightarrow> js_error + int16array" where
  "newInt16Array buf =
     (if odd (length buf)
      then Inl (rangeError ''byte length of Int16Array should be a multiple of 2'')
      else Inr \<lparr>buffer = buf, byteOffset = 0, alength = length buf div 2\<rparr>)"

definition spansBuffer :: "int16array \<Rightarrow> bool" where
  "spansBuffer a = (byteOffset a = 0 \<and> length (buffer a) = 2 * alength a)"

fun decode16 :: "byte list \<Rightarrow> 16 word list" where
  "decode16 (lo # hi # rest) = word_cat hi lo # decode16 rest"
| "decode16 _ = []"

definition elements :: "int16array \<Rightarrow> 16 word list" where
  "elements a = decode16 (take (2 * alength a) (drop (byteOffset a) (buffer a)))"

definition sampleBytes :: "16 word \<Rightarrow> byte list" where
  "sampleBytes s = [ucast s, ucast (drop_bit 8 s)]"

text \<open>
  \<open>target.set(source)\<close> on a \<open>Uint8Array\<close> that views \<open>buf\<close> from byte \<open>off\<close>
  to its end: a \<open>RangeError\<close> when the source is longer than the view.
\<close>

definition setBytes :: "nat \<Rightarrow> byte list \<Rightarrow> byte list \<Rightarrow> js_error + byte list" where
  "setBytes off src buf =
     (if length buf - off < length src then Inl (rangeError ''offset is out of bounds'')
      else Inr (take off buf @ src @ drop (off + length src) buf))"

subsection \<open>The encoder\<close>

definition addWavHeader :: "int16array \<Rightarrow> int \<Rightarrow> js_error + byte list" where
  "addWavHeader pcmData sampleRate =
     (let numChannels = 1;
          bitsPerSample = 16;
          byteRate = sampleRate * numChannels * (bitsPerSample div 8);
          blockAlign = numChannels * (bitsPerSample div 8);
          dataSize = int (alength pcmData) * 2;
          buf0 = replicate (44 + nat dataSize) (0 :: byte)
      in bindE (writeString 0 ''RIFF'' buf0) (\<lambda>b1.
         bindE (setUint32 4 (36 + dataSize) b1) (\<lambda>b2.
         bindE (writeString 8 ''WAVE'' b2) (\<lambda>b3.
         bindE (writeString 12 ''fmt '' b3) (\<lambda>b4.
         bindE (setUint32 16 16 b4) (\<lambda>b5.
         bindE (setUint16 20 1 b5) (\<lambda>b6.
         bindE (setUint16 22 numChannels b6) (\<lambda>b7.
         bindE (setUint32 24 sampleRate b7) (\<lambda>b8.
         bindE (setUint32 28 byteRate b8) (\<lambda>b9.
         bindE (setUint16 32 blockAlign b9) (\<lambda>b10.
         bindE (setUint16 34 bitsPerSample b10) (\<lambda>b11.
         bindE (writeString 36 ''data'' b11) (\<lambda>b12.
         bindE (setUint32 40 dataSize b12) (\<lambda>b13.
         setBytes 44 (buffer pcmData) b13))))))))))))))"

subsection \<open>Reading a container back\<close>

text \<open>
  The reader follows the layout the specification gives: a 44-byte header with the
  four tags, the channel count at byte 22, the sample rate at 24, the byte rate at 28,
  the block alignment at 32 and the bits per sample at 34, all little-endian, and the
  sample bytes from byte 44 to the end.
\<close>

record wav =
  channels :: nat
  rate :: nat
  bytesPerSecond :: nat
  alignment :: nat
  bits :: nat
  declaredSize :: nat
  samples :: "byte list"

definition getUint16 :: "nat \<Rightarrow> byte list \<Rightarrow> nat" where
  "getUint16 off buf = unat (buf ! off) + 256 * unat (buf ! (off + 1))"

definition getUint32 :: "nat \<Rightarrow> byte list \<Rightarrow> nat" where
  "getUint32 off buf =
     unat (buf ! off) + 256 * unat (buf ! (off + 1)) +
     65536 * unat (buf ! (off + 2)) + 16777216 * unat (buf ! (off + 3))"

definition tagAt :: "nat \<Rightarrow> string \<Rightarrow> byte list \<Rightarrow> bool" where
  "tagAt off tag buf = (take (length tag) (drop off buf) = map of_char tag)"

definition parseWav :: "byte list \<Rightarrow> wav option" where
  "parseWav buf =
     (if length buf < 44 then None
      else if \<not> (tagAt 0 ''RIFF'' buf \<and> tagAt 8 ''WAVE'' buf \<and> tagAt 12 ''fmt '' buf \<and>
                  tagAt 36 ''data'' buf)
      then None
      else Some \<lparr>channels = getUint16 22 buf, rate = getUint32 24 buf,
                  bytesPerSecond = getUint32 28 buf, alignment = getUint16 32 buf,
                  bits = getUint16 34 buf, declaredSize = getUint32 40 buf,
                  samples = drop 44 buf\<rparr>)"

text \<open>Reading back what the encoder returned.\<close>

definition readBack :: "js_error + byte list \<Rightarrow> wav option" where
  "readBack r = (case r of Inl e \<Rightarrow> None | Inr buf \<Rightarrow> parseWav buf)"

text \<open>The bytes a container starts with, for a sample rate and a data size.\<close>

definition headerBytes :: "int \<Rightarrow> int \<Rightarrow> byte list" where
  "headerBytes sampleRate dataSize =
     map of_char ''RIFF'' @
     [word_of_int (36 + dataSize), word_of_int ((36 + dataSize) div 256),
      word_of_int ((36 + dataSize) div 65536), word_of_int ((36 + dataSize) div 16777216)] @
     map of_char ''WAVEfmt '' @
     [16, 0, 0, 0, 1, 0, 1, 0] @
     [word_of_int sampleRate, word_of_int (sampleRate div 256),
      word_of_int (sampleRate div 65536), word_of_int (sampleRate div 16777216)] @
     [word_of_int (sampleRate * 2), word_of_int (sampleRate * 2 div 256),
      word_of_int (sampleRate * 2 div 65536), word_of_int (sampleRate * 2 div 16777216)] @
     [2, 0, 16, 0] @
     map of_char ''data'' @
     [word_of_int dataSize, word_of_int (dataSize div 256),
      word_of_int (dataSize div 65536), word_of_int (dataSize div 16777216)]"

section \<open>The data model (types.ts)\<close>

text \<open>
  The string-literal unions of the source (language, role, pacing, voice type, aspect
  ratio, image model) are strings at run time and are modelled as strings.
  \<open>characterNames\<close> is read with \<open>?.\<close>: it may be absent.
\<close>

record Character =
  charId :: string
  name :: string
  role :: string
  description :: string
  refImage :: "string option"

record StoryConfig =
  language :: string
  category :: string
  configTitle :: string
  premise :: string
  setting :: string
  pacing :: string
  plotTwist :: string
  characters :: "Character list"
  sceneCount :: int
  characterCount :: int

record VoiceConfig =
  voiceType :: string
  tone :: string
  accent :: string
  voiceLanguage :: string

record ImageStyleConfig =
  artStyle :: string
  cameraAngle :: string
  lighting :: string
  colorGrade :: string
  characterLook :: string
  clothingStyle :: string

record Scene =
  sceneNumber :: int
  narrative :: string
  imagePrompt :: string
  motionPrompt :: string
  characterNames :: "string list option"
  audioData :: "string option"
  imageUrl :: "string option"

record StoryOutput =
  title :: string
  summary :: string
  scenes :: "Scene list"

record MediaSettings =
  aspectRatio :: string
  imageModel :: string

record Project =
  projectId :: string
  projectTitle :: "string option"
  lastSaved :: "int option"
  createdAt :: int
  config :: StoryConfig
  projectOutput :: "StoryOutput option"
  mediaSettings :: MediaSettings
  imageStyle :: ImageStyleConfig
  voiceConfig :: VoiceConfig
  apiKey :: "string option"

text \<open>
  What the platform provides: base64 decoding and encoding of binary strings,
  \<open>JSON.parse\<close> followed by the unchecked cast to \<open>StoryOutput\<close>, and the
  process-level API key.
\<close>

record platform =
  atob :: "string \<Rightarrow> js_error + string"
  btoa :: "string \<Rightarrow> string"
  jsonParse :: "string \<Rightarrow> js_error + StoryOutput"
  envApiKey :: "string option"

section \<open>ConsistencyPromptBuilder and the image job: generateImage\<close>

definition characterEntry :: "Character \<Rightarrow> string" where
  "characterEntry c =
     NL @ ''--- CHARACTER: '' @ name c @ '' ---'' @ NL @ description c @ NL"

definition characterBlock :: "Character list \<Rightarrow> string" where
  "characterBlock activeCharacters =
     (if length activeCharacters > 0 then
        NL @ ''*** CHARACTER VISUAL REQUIREMENTS (STRICT ADHERENCE REQUIRED) ***'' @ NL @
        ''The following characters are present in the scene. You MUST render them EXACTLY as described. '' @
        NL @ ''If multiple characters are listed, ALL must appear.'' @ NL @
        join NL (map characterEntry activeCharacters) @ NL
      else [])"

definition styleBlock :: "ImageStyleConfig \<Rightarrow> string" where
  "styleBlock style =
     NL @ ''*** GLOBAL ART STYLE & TECHNICAL SPECS ***'' @ NL @ ''- Art Style: '' @
     artStyle style @ NL @ ''- Lighting: '' @ lighting style @ NL @ ''- Color Palette: '' @
     colorGrade style @ NL @ ''- Camera Angle: '' @ cameraAngle style @ NL @
     ''- Character Look: '' @ characterLook style @ NL @ ''- Clothing Style: '' @
     clothingStyle style @ NL @
     ''- Quality: 8k, highly detailed, photorealistic, cinematic composition.'' @ NL"

definition sceneBlock :: "string \<Rightarrow> string" where
  "sceneBlock basePrompt = NL @ ''*** SCENE CONTENT ***'' @ NL @ basePrompt @ NL"

definition finalPrompt :: "string \<Rightarrow> ImageStyleConfig \<Rightarrow> Character list \<Rightarrow> string" where
  "finalPrompt basePrompt style activeCharacters =
     NL @ ''You are an expert image generation prompt engineer.'' @ NL @
     ''Generate an image based on the following rigid specifications.'' @ NL @ NL @
     styleBlock style @ NL @ characterBlock activeCharacters @ NL @ sceneBlock basePrompt @
     NL @ NL @ ''INSTRUCTION: '' @ NL @
     ''1. Prioritize the GLOBAL ART STYLE. The entire image must unify under '' @ DQ @
     artStyle style @ DQ @ ''.'' @ NL @
     ''2. Render characters EXACTLY as defined in the CHARACTER VISUAL REQUIREMENTS. Do not blend their features.'' @
     NL @ ''3. Ensure the scene content actions are depicted clearly.'' @ NL"

text \<open>
  The answer to an image request: candidates, each with the parts of its content; a
  part may carry inline data (mime type and base64 data). A candidate without content
  makes \<open>cand.content.parts\<close> throw a \<open>TypeError\<close>.
\<close>

datatype part = Part "(string \<times> string) option"

type_synonym candidate = "part list option"

type_synonym image_response = "candidate list option"

fun firstInline :: "part list \<Rightarrow> string option" where
  "firstInline [] = None"
| "firstInline (Part None # ps) = firstInline ps"
| "firstInline (Part (Some (mimeType, dat)) # ps) =
     Some (''data:'' @ mimeType @ '';base64,'' @ dat)"

fun scanCandidates :: "candidate list \<Rightarrow> string outcome" where
  "scanCandidates [] = Rejected (mkError ''No image data returned.'')"
| "scanCandidates (None # cs) =
     Rejected (mkError (''Cannot read properties of undefined (reading '' @ SQ @ ''parts'' @ SQ @ '')''))"
| "scanCandidates (Some ps # cs) =
     (case firstInline ps of Some url \<Rightarrow> Resolved url | None \<Rightarrow> scanCandidates cs)"

definition runGeneration ::
  "image_response service \<Rightarrow> string \<Rightarrow> string \<Rightarrow> string \<Rightarrow> string \<Rightarrow> string option \<Rightarrow> world \<Rightarrow>
   string outcome \<times> world" where
  "runGeneration svc key prompt model ratio imageSize w =
     (case send svc key (ImageRequest model prompt ratio imageSize) w of
        (Rejected e, w1) \<Rightarrow> (Rejected e, w1)
      | (Resolved response, w1) \<Rightarrow>
          (scanCandidates (case response of None \<Rightarrow> [] | Some cs \<Rightarrow> cs), w1))"

text \<open>The operation that \<open>generateImage\<close> hands to the retry wrapper.\<close>

definition generateImageAttempt ::
  "platform \<Rightarrow> image_response service \<Rightarrow> string \<Rightarrow> MediaSettings \<Rightarrow> ImageStyleConfig \<Rightarrow>
   string option \<Rightarrow> Character list \<Rightarrow> world \<Rightarrow> string outcome \<times> world" where
  "generateImageAttempt plat svc basePrompt settings style key activeCharacters w =
     (case getAI key (envApiKey plat) of
        Inl e \<Rightarrow> (Rejected e, w)
      | Inr ai \<Rightarrow>
          let prompt = finalPrompt basePrompt style activeCharacters in
          (case runGeneration svc ai prompt ''gemini-3-pro-image-preview''
                  (aspectRatio settings) (Some ''1K'') w of
             (Resolved url, w1) \<Rightarrow> (Resolved url, w1)
           | (Rejected e, w1) \<Rightarrow>
               runGeneration svc ai prompt ''gemini-2.5-flash-image'' (aspectRatio settings) None
                 (emit [FallbackWarned (message e)] w1)))"

definition generateImage ::
  "platform \<Rightarrow> image_response service \<Rightarrow> string \<Rightarrow> MediaSettings \<Rightarrow> ImageStyleConfig \<Rightarrow>
   string option \<Rightarrow> Character list \<Rightarrow> world \<Rightarrow> (string outcome \<times> world) option" where
  "generateImage plat svc basePrompt settings style key activeCharacters w =
     withRetry (generateImageAttempt plat svc basePrompt settings style key activeCharacters) w"

text \<open>
  The two requests of an attempt, and what a tier answers to the n-th request: the
  error of the service, or what the scan of the candidates gives. \<open>attemptsShape\<close>
  recognises the events of a call of \<open>generateImage\<close>: attempts, each a request to
  the first tier alone or followed by the warning and the request to the second tier,
  with a retry warning and a wait between two attempts.
\<close>

definition proRequest :: "string \<Rightarrow> MediaSettings \<Rightarrow> request" where
  "proRequest prompt settings =
     ImageRequest ''gemini-3-pro-image-preview'' prompt (aspectRatio settings) (Some ''1K'')"

definition flashRequest :: "string \<Rightarrow> MediaSettings \<Rightarrow> request" where
  "flashRequest prompt settings =
     ImageRequest ''gemini-2.5-flash-image'' prompt (aspectRatio settings) None"

definition tierOutcome :: "image_response service \<Rightarrow> string \<Rightarrow> nat \<Rightarrow> request \<Rightarrow> string outcome" where
  "tierOutcome svc ai n req =
     (case svc ai n req of
        Rejected e \<Rightarrow> Rejected e
      | Resolved response \<Rightarrow> scanCandidates (case response of None \<Rightarrow> [] | Some cs \<Rightarrow> cs))"

inductive attemptsShape :: "request \<Rightarrow> request \<Rightarrow> event list \<Rightarrow> bool" for p f where
  firstTier: "attemptsShape p f [Requested p]"
| bothTiers: "attemptsShape p f [Requested p, FallbackWarned m, Requested f]"
| retried: "attemptsShape p f rest \<Longrightarrow>
     attemptsShape p f (Requested p # FallbackWarned m # Requested f # RetryWarned d r # Slept d # rest)"

code_pred attemptsShape .

text \<open>
  The characters active in a scene (the filter of \<open>handleGenerateImage\<close> and
  \<open>handleGenerateAllImages\<close>).
\<close>

definition nameMatches :: "Character \<Rightarrow> string \<Rightarrow> bool" where
  "nameMatches c n =
     (includesStr (toLowerCase n) (toLowerCase (name c)) \<or>
      includesStr (toLowerCase (name c)) (toLowerCase n))"

definition isActive :: "Scene \<Rightarrow> Character \<Rightarrow> bool" where
  "isActive scene c =
     (case characterNames scene of None \<Rightarrow> False | Some ns \<Rightarrow> list_ex (nameMatches c) ns)"

definition activeChars :: "Character list \<Rightarrow> Scene \<Rightarrow> Character list" where
  "activeChars cs scene = filter (isActive scene) cs"

text \<open>
  The prompt of the requests that the image job of a scene sends: the handlers pass the
  scene's image prompt, the project's style and the active characters.
\<close>

definition scenePrompt :: "Project \<Rightarrow> Scene \<Rightarrow> string" where
  "scenePrompt p scene =
     finalPrompt (imagePrompt scene) (imageStyle p) (activeChars (characters (config p)) scene)"

section \<open>The audio job: generateSpeech\<close>

text \<open>
  The service module exists in several versions in the repository; the one modelled
  is the latest, with the character-aware image prompt. The versions agree on the
  retry wrapper, on the encoder and on the decoding steps of \<open>generateSpeech\<close>;
  they differ in the table of voices and in the text of the error for a missing payload.
\<close>

definition voiceNameOf :: "string \<Rightarrow> string" where
  "voiceNameOf vt =
     (if vt = ''man_deep'' then ''Charon''
      else if vt = ''man_soft'' then ''Puck''
      else if vt = ''man_drama'' then ''Fenrir''
      else if vt = ''woman'' then ''Kore''
      else if vt = ''child'' then ''Puck''
      else ''Charon'')"

definition chunkSize :: nat where
  "chunkSize = 8192"

definition subarray :: "byte list \<Rightarrow> nat \<Rightarrow> nat \<Rightarrow> byte list" where
  "subarray xs a b = take (b - a) (drop a xs)"

definition fromCharCodes :: "byte list \<Rightarrow> string" where
  "fromCharCodes bs = map (\<lambda>b. char_of (unat b)) bs"

text \<open>
  \<^verbatim>\<open>for (let i = 0; i < wavLen; i += chunkSize) {
    const chunk = wavBytes.subarray(i, Math.min(i + chunkSize, wavLen));
    binary += String.fromCharCode.apply(null, Array.from(chunk)); }\<close>
\<close>

function binaryLoop :: "byte list \<Rightarrow> nat \<Rightarrow> string \<Rightarrow> string" where
  "binaryLoop wavBytes i binary =
     (if i < length wavBytes
      then binaryLoop wavBytes (i + chunkSize)
             (binary @ fromCharCodes (subarray wavBytes i (min (i + chunkSize) (length wavBytes))))
      else binary)"
  by pat_completeness auto
termination
  by (relation "measure (\<lambda>(wavBytes, i, binary). length wavBytes - i)") (auto simp: chunkSize_def)

declare binaryLoop.simps [simp del]

text \<open>From the base64 payload of the answer to the base64 of the container.\<close>

definition recode :: "platform \<Rightarrow> string \<Rightarrow> js_error + string" where
  "recode plat base64Audio =
     bindE (atob plat base64Audio) (\<lambda>binaryString.
       let bytes = map of_char binaryString :: byte list in
       bindE (newInt16Array bytes) (\<lambda>pcmData.
       bindE (addWavHeader pcmData 24000) (\<lambda>wavBuffer.
       Inr (btoa plat (binaryLoop wavBuffer 0 [])))))"

text \<open>
  The answer to a speech request is represented by the value found at
  \<open>candidates?.[0]?.content?.parts?.[0]?.inlineData?.data\<close>, absent when any link
  of the chain is.
\<close>

definition generateSpeechAttempt ::
  "platform \<Rightarrow> string option service \<Rightarrow> string \<Rightarrow> string \<Rightarrow> string option \<Rightarrow> world \<Rightarrow>
   string outcome \<times> world" where
  "generateSpeechAttempt plat svc txt vt key w =
     (case getAI key (envApiKey plat) of
        Inl e \<Rightarrow> (Rejected e, w)
      | Inr ai \<Rightarrow>
          (case send svc ai (SpeechRequest ''gemini-2.5-flash-preview-tts'' txt (voiceNameOf vt)) w of
             (Rejected e, w1) \<Rightarrow> (Rejected e, w1)
           | (Resolved base64Audio, w1) \<Rightarrow>
               (case base64Audio of
                  None \<Rightarrow> (Rejected (mkError ''No audio''), w1)
                | Some b \<Rightarrow>
                    if b = [] then (Rejected (mkError ''No audio''), w1)
                    else (case recode plat b of
                            Inl e \<Rightarrow> (Rejected e, w1)
                          | Inr wavBase64 \<Rightarrow> (Resolved wavBase64, w1)))))"

definition generateSpeech ::
  "platform \<Rightarrow> string option service \<Rightarrow> string \<Rightarrow> string \<Rightarrow> string option \<Rightarrow> world \<Rightarrow>
   (string outcome \<times> world) option" where
  "generateSpeech plat svc txt vt key w = withRetry (generateSpeechAttempt plat svc txt vt key) w"

section \<open>ScriptGenerationJob: generateStory\<close>

definition dialectSystemInstruction :: "StoryConfig \<Rightarrow> string" where
  "dialectSystemInstruction cfg =
     (if language cfg = ''ar''
      then ''You are an expert Arabic storyteller. Write narration in the requested dialect.''
      else ''Write in '' @ language cfg @ ''.'')"

definition characterProfiles :: "StoryConfig \<Rightarrow> string" where
  "characterProfiles cfg =
     join NL (map (\<lambda>c. ''- Name: '' @ name c @ '' ('' @ role c @ '')'' @ NL @
                        ''  Visual Signature: '' @ description c) (characters cfg))"

definition storyPrompt :: "StoryConfig \<Rightarrow> ImageStyleConfig \<Rightarrow> string" where
  "storyPrompt cfg style =
     NL @ ''        STORY SETTINGS:'' @ NL @ ''        - Genre: '' @ category cfg @ NL @
     ''        - Premise: '' @ premise cfg @ NL @ ''        - Setting: '' @
     setting cfg @ NL @ ''        - Pacing: '' @ pacing cfg @ NL @ NL @
     ''        VISUAL STYLE PREFERENCES:'' @ NL @ ''        - Art Style: '' @ artStyle style @
     NL @ ''        - Preferred Camera Angle: '' @ cameraAngle style @ NL @
     ''        - Lighting: '' @ lighting style @ NL @ ''        - Color Palette: '' @
     colorGrade style @ NL @ NL @
     ''        CHARACTER PROFILES (Reference these for context):'' @ NL @ ''        '' @
     characterProfiles cfg @ NL @ NL @ ''        INSTRUCTIONS:'' @ NL @
     ''        1. **SEPARATION OF CONCERNS**:'' @ NL @
     ''           - **Narrative**: Story text for audio. Conversational, dialect-aware.'' @
     NL @ ''           - **ImagePrompt**: ENGLISH ONLY.'' @ NL @
     ''             - **MANDATORY**: Start every image prompt with '' @ DQ @ artStyle style @
     '' style, '' @ lighting style @ '' lighting'' @ DQ @ ''.'' @ NL @
     ''             - Describe the scene'' @ SQ @ ''s action and composition.'' @ NL @
     ''             - Use Character Names (e.g., '' @ DQ @ ''John is running'' @ DQ @ '').'' @
     NL @
     ''             - **DO NOT** paste long visual descriptions of characters here. The system injects them later.'' @
     NL @
     ''           - **MotionPrompt**: ENGLISH ONLY. Provide HIGHLY DETAILED technical camera movement instructions suitable for AI video generators (e.g., Veo, Sora). '' @
     NL @ ''             - Must align with pacing '' @ SQ @ pacing cfg @ SQ @ ''.'' @ NL @
     ''             - Must consider the preferred angle '' @ SQ @ cameraAngle style @ SQ @
     ''. '' @ NL @ ''             - Examples: '' @ DQ @ ''Slow pan right'' @ DQ @ '', '' @
     DQ @ ''Tracking shot'' @ DQ @ '', '' @ DQ @ ''Push in'' @ DQ @ '', '' @ DQ @
     ''Static camera with moving elements'' @ DQ @ ''.'' @ NL @ NL @
     ''        Generate exactly '' @ showNumber (sceneCount cfg) @ '' scenes.'' @ NL @
     ''      ''"

definition outputSchema :: schema where
  "outputSchema =
     ObjectType
       [(''title'', StringType None),
        (''summary'', StringType None),
        (''scenes'',
         ArrayType
           (ObjectType
              [(''sceneNumber'', IntegerType),
               (''narrative'', StringType (Some ''The story text for narration.'')),
               (''characterNames'',
                ArrayType (StringType None) (Some ''Names of characters present in this scene.'')),
               (''imagePrompt'',
                StringType (Some ''A standalone visual description. Describe the action and setting. Use Character Names.'')),
               (''motionPrompt'',
                StringType (Some ''Technical instructions for camera movement and character action.''))]
              [''sceneNumber'', ''narrative'', ''imagePrompt'', ''motionPrompt'', ''characterNames''])
           None)]
       [''title'', ''summary'', ''scenes'']"

definition scriptRequest :: "StoryConfig \<Rightarrow> ImageStyleConfig \<Rightarrow> request" where
  "scriptRequest cfg style =
     ScriptRequest ''gemini-3-flash-preview'' (storyPrompt cfg style) (dialectSystemInstruction cfg)
       ''application/json'' outputSchema"

text \<open>Reading a schema: a property of an object, the items of an array, the required names.\<close>

fun propertyOf :: "string \<Rightarrow> schema \<Rightarrow> schema option" where
  "propertyOf k (ObjectType ps rs) = map_of ps k"
| "propertyOf k s = None"

fun itemsOf :: "schema \<Rightarrow> schema option" where
  "itemsOf (ArrayType s d) = Some s"
| "itemsOf s = None"

fun requiredOf :: "schema \<Rightarrow> string list" where
  "requiredOf (ObjectType ps rs) = rs"
| "requiredOf s = []"

text \<open>
  The answer to a script request is represented by its \<open>text\<close>, possibly absent.
  \<^verbatim>\<open>if (!response.text) throw new Error("No text returned from Gemini.");
  return JSON.parse(response.text) as StoryOutput;\<close>
\<close>

definition generateStoryAttempt ::
  "platform \<Rightarrow> string option service \<Rightarrow> StoryConfig \<Rightarrow> VoiceConfig \<Rightarrow> ImageStyleConfig \<Rightarrow>
   string option \<Rightarrow> world \<Rightarrow> StoryOutput outcome \<times> world" where
  "generateStoryAttempt plat svc cfg voice style key w =
     (case getAI key (envApiKey plat) of
        Inl e \<Rightarrow> (Rejected e, w)
      | Inr ai \<Rightarrow>
          (case send svc ai (scriptRequest cfg style) w of
             (Rejected e, w1) \<Rightarrow> (Rejected e, w1)
           | (Resolved responseText, w1) \<Rightarrow>
               (case responseText of
                  None \<Rightarrow> (Rejected (mkError ''No text returned from Gemini.''), w1)
                | Some t \<Rightarrow>
                    if t = [] then (Rejected (mkError ''No text returned from Gemini.''), w1)
                    else (case jsonParse plat t of
                            Inl e \<Rightarrow> (Rejected e, w1)
                          | Inr story \<Rightarrow> (Resolved story, w1)))))"

definition generateStory ::
  "platform \<Rightarrow> string option service \<Rightarrow> StoryConfig \<Rightarrow> VoiceConfig \<Rightarrow> ImageStyleConfig \<Rightarrow>
   string option \<Rightarrow> world \<Rightarrow> (StoryOutput outcome \<times> world) option" where
  "generateStory plat svc cfg voice style key w =
     withRetry (generateStoryAttempt plat svc cfg voice style key) w"

text \<open>
  What the specification asks of a script: the requested number of scenes, numbered
  1, 2, ..., each with its fields populated (the texts not empty, the character names
  present).
\<close>

definition populated :: "Scene \<Rightarrow> bool" where
  "populated scene =
     (narrative scene \<noteq> [] \<and> imagePrompt scene \<noteq> [] \<and> motionPrompt scene \<noteq> [] \<and>
      characterNames scene \<noteq> None)"

definition validScript :: "StoryConfig \<Rightarrow> StoryOutput \<Rightarrow> bool" where
  "validScript cfg story =
     (int (length (scenes story)) = sceneCount cfg \<and>
      map sceneNumber (scenes story) = map int [1 ..< Suc (length (scenes story))] \<and>
      list_all populated (scenes story))"

section \<open>Project state and the scene handlers (App)\<close>

record app_state =
  project :: Project
  audioLoadingIndex :: "nat option"
  imageLoadingIndex :: "nat option"
  generatingAllAudio :: bool
  generatingAllImages :: bool
  error :: "string option"

text \<open>
  A handler either finishes with a new state, or waits for ever on a job that never
  settles, or leaves the data model: \<open>newScenes[i] = v\<close> past the end of the array
  leaves holes, and spreading an absent scene gives an object without the text fields,
  neither of which is a \<open>Scene[]\<close>. Within the array the assignment is a list
  update, and at its end it appends.
\<close>

datatype 'a run = Done 'a | Unsettled | IllTyped

definition assignAt :: "'a list \<Rightarrow> nat \<Rightarrow> 'a \<Rightarrow> 'a list option" where
  "assignAt xs i v =
     (if i < length xs then Some (xs[i := v])
      else if i = length xs then Some (xs @ [v])
      else None)"

text \<open>
  The functional updates passed to \<open>setProject\<close>. Those of the single-scene handlers
  write the scene read before the job started, with its new slot:
  \<^verbatim>\<open>newScenes[sceneIndex] = { ...scene, audioData: base64Wav }\<close>
\<close>

definition mergeSceneAudio :: "Scene \<Rightarrow> nat \<Rightarrow> string \<Rightarrow> Project \<Rightarrow> Project option" where
  "mergeSceneAudio scene sceneIndex base64Wav p =
     (case projectOutput p of
        None \<Rightarrow> Some p
      | Some out \<Rightarrow>
          (case assignAt (scenes out) sceneIndex (scene\<lparr>audioData := Some base64Wav\<rparr>) of
             None \<Rightarrow> None
           | Some newScenes \<Rightarrow> Some (p\<lparr>projectOutput := Some (out\<lparr>scenes := newScenes\<rparr>)\<rparr>)))"

definition mergeSceneImage :: "Scene \<Rightarrow> nat \<Rightarrow> string \<Rightarrow> Project \<Rightarrow> Project option" where
  "mergeSceneImage scene sceneIndex base64Img p =
     (case projectOutput p of
        None \<Rightarrow> Some p
      | Some out \<Rightarrow>
          (case assignAt (scenes out) sceneIndex (scene\<lparr>imageUrl := Some base64Img\<rparr>) of
             None \<Rightarrow> None
           | Some newScenes \<Rightarrow> Some (p\<lparr>projectOutput := Some (out\<lparr>scenes := newScenes\<rparr>)\<rparr>)))"

text \<open>
  Those of the batch handlers write the scene of the state they are applied to:
  \<^verbatim>\<open>newScenes[i] = { ...newScenes[i], audioData: base64Wav }\<close>
\<close>

definition mergeBatchAudio :: "nat \<Rightarrow> string \<Rightarrow> Project \<Rightarrow> Project option" where
  "mergeBatchAudio i base64Wav p =
     (case projectOutput p of
        None \<Rightarrow> Some p
      | Some out \<Rightarrow>
          if i < length (scenes out)
          then Some (p\<lparr>projectOutput :=
                 Some (out\<lparr>scenes := (scenes out)[i := (scenes out ! i)\<lparr>audioData := Some base64Wav\<rparr>]\<rparr>)\<rparr>)
          else None)"

definition mergeBatchImage :: "nat \<Rightarrow> string \<Rightarrow> Project \<Rightarrow> Project option" where
  "mergeBatchImage i base64Img p =
     (case projectOutput p of
        None \<Rightarrow> Some p
      | Some out \<Rightarrow>
          if i < length (scenes out)
          then Some (p\<lparr>projectOutput :=
                 Some (out\<lparr>scenes := (scenes out)[i := (scenes out ! i)\<lparr>imageUrl := Some base64Img\<rparr>]\<rparr>)\<rparr>)
          else None)"

definition undefinedScene :: "string \<Rightarrow> js_error" where
  "undefinedScene field =
     mkError (''Cannot read properties of undefined (reading '' @ SQ @ field @ SQ @ '')'')"

text \<open>
  A single-scene handler reads \<open>project\<close> from its closure: the state when it was
  called. While it awaits its job other handlers may update the state; \<open>during\<close> is
  what they did to it. The functional update is applied to the state they left.
\<close>

definition handleGenerateAudio ::
  "platform \<Rightarrow> string option service \<Rightarrow> (app_state \<Rightarrow> app_state) \<Rightarrow> nat \<Rightarrow> app_state \<Rightarrow> world \<Rightarrow>
   (app_state \<times> world) run" where
  "handleGenerateAudio plat svc during sceneIndex st w =
     (let captured = project st in
      case projectOutput captured of
        None \<Rightarrow> Done (st, w)
      | Some out \<Rightarrow>
          let st1 = st\<lparr>audioLoadingIndex := Some sceneIndex\<rparr>;
              w1 = emit [AudioLoadingIndexSet (Some sceneIndex)] w
          in if length (scenes out) \<le> sceneIndex
             then Done (st1\<lparr>error := Some (''Audio failed: '' @ interpolate (message (undefinedScene ''narrative''))),
                           audioLoadingIndex := None\<rparr>,
                        emit [ConsoleError (undefinedScene ''narrative''), AudioLoadingIndexSet None] w1)
             else
               let scene = scenes out ! sceneIndex in
               (case generateSpeech plat svc (narrative scene) (voiceType (voiceConfig captured))
                       (apiKey captured) w1 of
                  None \<Rightarrow> Unsettled
                | Some (Resolved base64Wav, w2) \<Rightarrow>
                    let st2 = during st1 in
                    (case mergeSceneAudio scene sceneIndex base64Wav (project st2) of
                       None \<Rightarrow> IllTyped
                     | Some p \<Rightarrow>
                         Done (st2\<lparr>project := p, audioLoadingIndex := None\<rparr>,
                               emit [ProjectUpdated sceneIndex, AudioLoadingIndexSet None] w2))
                | Some (Rejected err, w2) \<Rightarrow>
                    Done ((during st1)\<lparr>error := Some (''Audio failed: '' @ interpolate (message err)),
                                        audioLoadingIndex := None\<rparr>,
                          emit [ConsoleError err, AudioLoadingIndexSet None] w2)))"

definition handleGenerateImage ::
  "platform \<Rightarrow> image_response service \<Rightarrow> (app_state \<Rightarrow> app_state) \<Rightarrow> nat \<Rightarrow> app_state \<Rightarrow> world \<Rightarrow>
   (app_state \<times> world) run" where
  "handleGenerateImage plat svc during sceneIndex st w =
     (let captured = project st in
      case projectOutput captured of
        None \<Rightarrow> Done (st, w)
      | Some out \<Rightarrow>
          let st1 = st\<lparr>imageLoadingIndex := Some sceneIndex\<rparr>;
              w1 = emit [ImageLoadingIndexSet (Some sceneIndex)] w
          in if length (scenes out) \<le> sceneIndex
             then
               let err = undefinedScene
                     (if characters (config captured) = [] then ''imagePrompt'' else ''characterNames'')
               in Done (st1\<lparr>error := Some (''Image failed: '' @ interpolate (message err)),
                            imageLoadingIndex := None\<rparr>,
                        emit [ConsoleError err, ImageLoadingIndexSet None] w1)
             else
               let scene = scenes out ! sceneIndex;
                   active = activeChars (characters (config captured)) scene
               in
               (case generateImage plat svc (imagePrompt scene) (mediaSettings captured)
                       (imageStyle captured) (apiKey captured) active w1 of
                  None \<Rightarrow> Unsettled
                | Some (Resolved base64Img, w2) \<Rightarrow>
                    let st2 = during st1 in
                    (case mergeSceneImage scene sceneIndex base64Img (project st2) of
                       None \<Rightarrow> IllTyped
                     | Some p \<Rightarrow>
                         Done (st2\<lparr>project := p, imageLoadingIndex := None\<rparr>,
                               emit [ProjectUpdated sceneIndex, ImageLoadingIndexSet None] w2))
                | Some (Rejected err, w2) \<Rightarrow>
                    Done ((during st1)\<lparr>error := Some (''Image failed: '' @ interpolate (message err)),
                                        imageLoadingIndex := None\<rparr>,
                          emit [ConsoleError err, ImageLoadingIndexSet None] w2)))"

text \<open>
  The batch handlers: \<^verbatim>\<open>for (let i = 0; i < project.output.scenes.length; i++)\<close>
  over the scenes of the captured project, each turn inside its own \<open>try\<close>.
  While the job of scene \<open>i\<close> is awaited other handlers may update the state;
  \<open>during i\<close> is what they did to it. The functional update of the turn is applied
  to the state they left.
\<close>

function audioLoop ::
  "platform \<Rightarrow> string option service \<Rightarrow> (nat \<Rightarrow> app_state \<Rightarrow> app_state) \<Rightarrow> Project \<Rightarrow>
   Scene list \<Rightarrow> nat \<Rightarrow> app_state \<Rightarrow> world \<Rightarrow> (app_state \<times> world) run" where
  "audioLoop plat svc during captured scs i st w =
     (if i < length scs then
        (let scene = scs ! i;
             st1 = st\<lparr>audioLoadingIndex := Some i\<rparr>;
             w1 = emit [AudioLoadingIndexSet (Some i)] w
         in case generateSpeech plat svc (narrative scene) (voiceType (voiceConfig captured))
                   (apiKey captured) w1 of
              None \<Rightarrow> Unsettled
            | Some (Resolved base64Wav, w2) \<Rightarrow>
                let st2 = during i st1 in
                (case mergeBatchAudio i base64Wav (project st2) of
                   None \<Rightarrow> IllTyped
                 | Some p \<Rightarrow>
                     audioLoop plat svc during captured scs (Suc i) (st2\<lparr>project := p\<rparr>)
                       (emit [ProjectUpdated i] w2))
            | Some (Rejected err, w2) \<Rightarrow>
                audioLoop plat svc during captured scs (Suc i) (during i st1)
                  (emit [ConsoleError err] w2))
      else Done (st, w))"
  by pat_completeness auto
termination
  by (relation "measure (\<lambda>(plat, svc, during, captured, scs, i, st, w). length scs - i)") auto

declare audioLoop.simps [simp del]

definition handleGenerateAllAudio ::
  "platform \<Rightarrow> string option service \<Rightarrow> (nat \<Rightarrow> app_state \<Rightarrow> app_state) \<Rightarrow> app_state \<Rightarrow> world \<Rightarrow>
   (app_state \<times> world) run" where
  "handleGenerateAllAudio plat svc during st w =
     (let captured = project st in
      case projectOutput captured of
        None \<Rightarrow> Done (st, w)
      | Some out \<Rightarrow>
          (case audioLoop plat svc during captured (scenes out) 0
                  (st\<lparr>generatingAllAudio := True, error := None\<rparr>) w of
             Done (st1, w1) \<Rightarrow>
               Done (st1\<lparr>audioLoadingIndex := None, generatingAllAudio := False\<rparr>,
                     emit [AudioLoadingIndexSet None] w1)
           | Unsettled \<Rightarrow> Unsettled
           | IllTyped \<Rightarrow> IllTyped))"

function imageLoop ::
  "platform \<Rightarrow> image_response service \<Rightarrow> (nat \<Rightarrow> app_state \<Rightarrow> app_state) \<Rightarrow> Project \<Rightarrow>
   Scene list \<Rightarrow> nat \<Rightarrow> app_state \<Rightarrow> world \<Rightarrow> (app_state \<times> world) run" where
  "imageLoop plat svc during captured scs i st w =
     (if i < length scs then
        (let scene = scs ! i;
             st1 = st\<lparr>imageLoadingIndex := Some i\<rparr>;
             w1 = emit [ImageLoadingIndexSet (Some i)] w;
             active = activeChars (characters (config captured)) scene
         in case generateImage plat svc (imagePrompt scene) (mediaSettings captured)
                   (imageStyle captured) (apiKey captured) active w1 of
              None \<Rightarrow> Unsettled
            | Some (Resolved base64Img, w2) \<Rightarrow>
                let st2 = during i st1 in
                (case mergeBatchImage i base64Img (project st2) of
                   None \<Rightarrow> IllTyped
                 | Some p \<Rightarrow>
                     imageLoop plat svc during captured scs (Suc i) (st2\<lparr>project := p\<rparr>)
                       (emit [ProjectUpdated i] w2))
            | Some (Rejected err, w2) \<Rightarrow>
                imageLoop plat svc during captured scs (Suc i) (during i st1)
                  (emit [ConsoleError err] w2))
      else Done (st, w))"
  by pat_completeness auto
termination
  by (relation "measure (\<lambda>(plat, svc, during, captured, scs, i, st, w). length scs - i)") auto

declare imageLoop.simps [simp del]

definition handleGenerateAllImages ::
  "platform \<Rightarrow> image_response service \<Rightarrow> (nat \<Rightarrow> app_state \<Rightarrow> app_state) \<Rightarrow> app_state \<Rightarrow> world \<Rightarrow>
   (app_state \<times> world) run" where
  "handleGenerateAllImages plat svc during st w =
     (let captured = project st in
      case projectOutput captured of
        None \<Rightarrow> Done (st, w)
      | Some out \<Rightarrow>
          (case imageLoop plat svc during captured (scenes out) 0
                  (st\<lparr>generatingAllImages := True, error := None\<rparr>) w of
             Done (st1, w1) \<Rightarrow>
               Done (st1\<lparr>imageLoadingIndex := None, generatingAllImages := False\<rparr>,
                     emit [ImageLoadingIndexSet None] w1)
           | Unsettled \<Rightarrow> Unsettled
           | IllTyped \<Rightarrow> IllTyped))"

text \<open>
  Two updates of other handlers, as they act on the state when they are applied:
  the one \<open>handleImageUpload\<close> issues when the file has been read,
  \<^verbatim>\<open>newScenes[sceneIndex] = { ...newScenes[sceneIndex], imageUrl: base64 }\<close>
  (within the array; the update is the one of the image batch), and the one
  \<open>generateScript\<close> issues when the script has arrived,
  \<^verbatim>\<open>setProject(p => ({ ...p, output }))\<close>.
\<close>

definition imageUploaded :: "nat \<Rightarrow> string \<Rightarrow> app_state \<Rightarrow> app_state" where
  "imageUploaded sceneIndex base64 st =
     (case mergeBatchImage sceneIndex base64 (project st) of
        None \<Rightarrow> st
      | Some p \<Rightarrow> st\<lparr>project := p\<rparr>)"

definition scriptArrived :: "StoryOutput \<Rightarrow> app_state \<Rightarrow> app_state" where
  "scriptArrived story st = st\<lparr>project := (project st)\<lparr>projectOutput := Some story\<rparr>\<rparr>"

text \<open>
  What the handlers leave behind. \<open>handlerEvent\<close> tells the events of the handlers
  from those of the jobs, and \<open>settled\<close> is the event that closes the turn of a
  scene in a batch: the update of the project or the logged error. \<open>withAudio\<close> and
  \<open>withImage\<close> put the result of a job into the slot of a scene, and
  \<open>updateScene\<close> is the state in which one scene of the story, if there is a
  story, is replaced by a function of it. \<open>sceneList\<close> is the scenes of a project,
  \<open>slots\<close> the two media slots of a scene, and \<open>finalScenes\<close> and
  \<open>finalSlots\<close> the scenes a handler ends with and their slots.
\<close>

definition sceneList :: "Project \<Rightarrow> Scene list" where
  "sceneList p = (case projectOutput p of None \<Rightarrow> [] | Some out \<Rightarrow> scenes out)"

definition slots :: "Scene \<Rightarrow> string option \<times> string option" where
  "slots scene = (audioData scene, imageUrl scene)"

definition projectSlots :: "Project \<Rightarrow> (string option \<times> string option) list" where
  "projectSlots p = map slots (sceneList p)"

definition finalSlots :: "(app_state \<times> world) run \<Rightarrow> (string option \<times> string option) list" where
  "finalSlots r = (case r of Done (st, w) \<Rightarrow> projectSlots (project st) | _ \<Rightarrow> [])"

definition finalScenes :: "(app_state \<times> world) run \<Rightarrow> Scene list" where
  "finalScenes r = (case r of Done (st, w) \<Rightarrow> sceneList (project st) | _ \<Rightarrow> [])"

fun handlerEvent :: "event \<Rightarrow> bool" where
  "handlerEvent (AudioLoadingIndexSet i) = True"
| "handlerEvent (ImageLoadingIndexSet i) = True"
| "handlerEvent (ProjectUpdated i) = True"
| "handlerEvent (ConsoleError e) = True"
| "handlerEvent e = False"

fun settled :: "nat \<Rightarrow> string outcome \<Rightarrow> event" where
  "settled i (Resolved v) = ProjectUpdated i"
| "settled i (Rejected e) = ConsoleError e"

fun withAudio :: "string outcome \<Rightarrow> Scene \<Rightarrow> Scene" where
  "withAudio (Resolved v) scene = scene\<lparr>audioData := Some v\<rparr>"
| "withAudio (Rejected e) scene = scene"

fun withImage :: "string outcome \<Rightarrow> Scene \<Rightarrow> Scene" where
  "withImage (Resolved v) scene = scene\<lparr>imageUrl := Some v\<rparr>"
| "withImage (Rejected e) scene = scene"

definition updateScene :: "nat \<Rightarrow> (Scene \<Rightarrow> Scene) \<Rightarrow> app_state \<Rightarrow> app_state" where
  "updateScene i f st =
     st\<lparr>project := (project st)\<lparr>projectOutput :=
          map_option (\<lambda>out. out\<lparr>scenes := (scenes out)[i := f (scenes out ! i)]\<rparr>)
            (projectOutput (project st))\<rparr>\<rparr>"

section \<open>Values used in the examples\<close>





definition fourSamples :: int16array where
  "fourSamples = \<lparr>buffer = [1, 2, 3, 4], byteOffset = 0, alength = 2\<rparr>"

definition laterView :: int16array where
  "laterView = \<lparr>buffer = [1, 2, 3, 4], byteOffset = 2, alength = 1\<rparr>"

definition oneSample :: int16array where
  "oneSample = \<lparr>buffer = [1, 2], byteOffset = 0, alength = 1\<rparr>"

text \<open>
  A platform for the examples: its \<open>atob\<close> knows two strings, with their true
  decodings (three bytes and four bytes), its \<open>btoa\<close> knows the container of
  the four bytes, and its \<open>JSON.parse\<close> knows the text of \<open>exampleStory\<close>.
\<close>

definition exampleStory :: StoryOutput where
  "exampleStory =
     \<lparr>title = ''T'', summary = ''S'',
      scenes = [\<lparr>sceneNumber = 1, narrative = ''Lina walks.'', imagePrompt = ''Lina in the rain'',
                 motionPrompt = ''Slow pan right'', characterNames = Some [''Lina''],
                 audioData = None, imageUrl = None\<rparr>]\<rparr>"

definition wavBase64 :: string where
  "wavBase64 = ''UklGRigAAABXQVZFZm10IBAAAAABAAEAwF0AAIC7AAACABAAZGF0YQQAAAABAgME''"

text \<open>The JSON text of \<open>exampleStory\<close>.\<close>

definition exampleStoryText :: string where
  "exampleStoryText =
     ''{'' @ DQ @ ''title'' @ DQ @ '':'' @ DQ @ ''T'' @ DQ @ '','' @ DQ @ ''summary'' @
     DQ @ '':'' @ DQ @ ''S'' @ DQ @ '','' @ DQ @ ''scenes'' @ DQ @ '':[{'' @ DQ @
     ''sceneNumber'' @ DQ @ '':1,'' @ DQ @ ''narrative'' @ DQ @ '':'' @ DQ @
     ''Lina walks.'' @ DQ @ '','' @ DQ @ ''imagePrompt'' @ DQ @ '':'' @ DQ @
     ''Lina in the rain'' @ DQ @ '','' @ DQ @ ''motionPrompt'' @ DQ @ '':'' @ DQ @
     ''Slow pan right'' @ DQ @ '','' @ DQ @ ''characterNames'' @ DQ @ '':['' @ DQ @
     ''Lina'' @ DQ @ '']}]}''"

definition examplePlatform :: platform where
  "examplePlatform =
     \<lparr>atob = (\<lambda>s. if s = ''AQID'' then Inr [CHR 0x01, CHR 0x02, CHR 0x03]
                   else if s = ''AQIDBA=='' then Inr [CHR 0x01, CHR 0x02, CHR 0x03, CHR 0x04]
                   else Inl (mkError ''The string to be decoded is not correctly encoded.'')),
      btoa = (\<lambda>s. if s = fromCharCodes (headerBytes 24000 4 @ [1, 2, 3, 4])
                   then wavBase64
                   else []),
      jsonParse = (\<lambda>s. if s = exampleStoryText then Inr exampleStory
                        else Inl (mkError ''Unexpected token'')),
      envApiKey = None\<rparr>"

definition oneSceneScript :: "string option service" where
  "oneSceneScript key n req = Resolved (Some exampleStoryText)"

text \<open>A script service whose answer has no text.\<close>

definition noTextScript :: "string option service" where
  "noTextScript key n req = Resolved None"

text \<open>
  A second answer to a script request: one scene, numbered 7, with an empty narrative
  and no character names; and a platform whose \<open>JSON.parse\<close> knows its text.
\<close>

definition sparseStory :: StoryOutput where
  "sparseStory =
     \<lparr>title = ''T'', summary = ''S'',
      scenes = [\<lparr>sceneNumber = 7, narrative = [], imagePrompt = ''A pier'',
                 motionPrompt = ''Static camera'', characterNames = None,
                 audioData = None, imageUrl = None\<rparr>]\<rparr>"

definition sparseStoryText :: string where
  "sparseStoryText =
     ''{'' @ DQ @ ''title'' @ DQ @ '':'' @ DQ @ ''T'' @ DQ @ '','' @ DQ @ ''summary'' @
     DQ @ '':'' @ DQ @ ''S'' @ DQ @ '','' @ DQ @ ''scenes'' @ DQ @ '':[{'' @ DQ @
     ''sceneNumber'' @ DQ @ '':7,'' @ DQ @ ''narrative'' @ DQ @ '':'' @ DQ @ DQ @ '','' @
     DQ @ ''imagePrompt'' @ DQ @ '':'' @ DQ @ ''A pier'' @ DQ @ '','' @ DQ @
     ''motionPrompt'' @ DQ @ '':'' @ DQ @ ''Static camera'' @ DQ @ ''}]}''"

definition sparsePlatform :: platform where
  "sparsePlatform =
     examplePlatform\<lparr>jsonParse := (\<lambda>s. if s = sparseStoryText then Inr sparseStory
                                            else Inl (mkError ''Unexpected token''))\<rparr>"

definition sparseScript :: "string option service" where
  "sparseScript key n req = Resolved (Some sparseStoryText)"

definition oddSpeech :: "string option service" where
  "oddSpeech key n req = Resolved (Some ''AQID'')"

definition exampleSettings :: MediaSettings where
  "exampleSettings = \<lparr>aspectRatio = ''16:9'', imageModel = ''gemini-3-pro-image-preview''\<rparr>"

definition exampleStyle :: ImageStyleConfig where
  "exampleStyle =
     \<lparr>artStyle = ''Cinematic Realistic'', cameraAngle = ''Wide Shot'',
      lighting = ''Cinematic Volumetric'', colorGrade = ''Vibrant'',
      characterLook = ''Detailed Realistic'', clothingStyle = ''Modern Casual''\<rparr>"

definition pngAnswer :: image_response where
  "pngAnswer = Some [Some [Part None, Part (Some (''image/png'', ''AAAA''))]]"

text \<open>
  Three image services: one that answers every request with an image; one whose first
  tier is down; and one whose first tier is down and whose second tier is rate-limited
  at the second request only.
\<close>

definition imageReady :: "image_response service" where
  "imageReady key n req = Resolved pngAnswer"

definition proDown :: "image_response service" where
  "proDown key n req =
     (case req of
        ImageRequest model prompt ratio sz \<Rightarrow>
          if model = ''gemini-3-pro-image-preview''
          then Rejected \<lparr>status = Some 500, message = Some ''Internal error''\<rparr>
          else Resolved pngAnswer
      | _ \<Rightarrow> Rejected (mkError ''unsupported''))"

definition flashBusyOnce :: "image_response service" where
  "flashBusyOnce key n req =
     (case req of
        ImageRequest model prompt ratio sz \<Rightarrow>
          if model = ''gemini-3-pro-image-preview''
          then Rejected \<lparr>status = Some 500, message = Some ''Internal error''\<rparr>
          else if n = 1 then Rejected \<lparr>status = Some 429, message = Some ''Too Many Requests''\<rparr>
          else Resolved pngAnswer
      | _ \<Rightarrow> Rejected (mkError ''unsupported''))"

text \<open>An image service that answers the first request it gets and refuses every later one.\<close>

definition onlyFirstAnswered :: "image_response service" where
  "onlyFirstAnswered key n req =
     (if n = 0 then Resolved pngAnswer
      else Rejected \<lparr>status = Some 400, message = Some ''Bad request''\<rparr>)"

definition lina :: Character where
  "lina = \<lparr>charId = ''c1'', name = ''Lina'', role = ''protagonist'',
           description = ''A girl with a red scarf'', refImage = None\<rparr>"

definition voss :: Character where
  "voss = \<lparr>charId = ''c2'', name = ''Dr. Voss'', role = ''antagonist'',
           description = ''A tall man in a grey coat'', refImage = None\<rparr>"

definition exampleConfig :: StoryConfig where
  "exampleConfig =
     \<lparr>language = ''en'', category = ''mystery'', configTitle = [], premise = ''A chase'',
      setting = ''A harbour'', pacing = ''balanced'', plotTwist = ''mild'',
      characters = [lina, voss], sceneCount = 3, characterCount = 2\<rparr>"

definition exampleVoice :: VoiceConfig where
  "exampleVoice = \<lparr>voiceType = ''woman'', tone = ''calm'', accent = ''neutral'', voiceLanguage = ''en''\<rparr>"

definition vossScene :: Scene where
  "vossScene =
     \<lparr>sceneNumber = 1, narrative = ''He waits.'', imagePrompt = ''Voss on the pier'',
      motionPrompt = ''Push in'', characterNames = Some [''voss''],
      audioData = None, imageUrl = None\<rparr>"


definition linaScene :: Scene where
  "linaScene =
     \<lparr>sceneNumber = 2, narrative = ''She runs.'', imagePrompt = ''Lina in the rain'',
      motionPrompt = ''Tracking shot'', characterNames = Some [''Lina''],
      audioData = None, imageUrl = None\<rparr>"

definition exampleProject :: Project where
  "exampleProject =
     \<lparr>projectId = ''1'', projectTitle = None, lastSaved = None, createdAt = 0,
      config = exampleConfig,
      projectOutput = Some \<lparr>title = ''T'', summary = ''S'', scenes = [vossScene, linaScene]\<rparr>,
      mediaSettings = exampleSettings, imageStyle = exampleStyle, voiceConfig = exampleVoice,
      apiKey = Some ''k''\<rparr>"

definition exampleState :: app_state where
  "exampleState =
     \<lparr>project = exampleProject, audioLoadingIndex = None, imageLoadingIndex = None,
      generatingAllAudio = False, generatingAllImages = False, error = None\<rparr>"

text \<open>
  A speech service that answers with four bytes of audio, and one that fails for the
  text of the first scene. \<open>imageArrives\<close> is what the image job of the first scene,
  started from the same state, does to the state when it completes, and
  \<open>audioCommitted\<close> what the audio batch does to it when it commits the audio of
  the first scene.
\<close>

definition fourByteSpeech :: "string option service" where
  "fourByteSpeech key n req = Resolved (Some ''AQIDBA=='')"

definition firstSceneFails :: "string option service" where
  "firstSceneFails key n req =
     (case req of
        SpeechRequest model txt voice \<Rightarrow>
          if txt = ''He waits.'' then Rejected \<lparr>status = Some 400, message = Some ''Bad request''\<rparr>
          else Resolved (Some ''AQIDBA=='')
      | _ \<Rightarrow> Rejected (mkError ''unsupported''))"

definition imageArrives :: "app_state \<Rightarrow> app_state" where
  "imageArrives st =
     (case mergeSceneImage vossScene 0 ''data:image/png;base64,AAAA'' (project st) of
        None \<Rightarrow> st
      | Some p \<Rightarrow> st\<lparr>project := p\<rparr>)"

definition audioCommitted :: "app_state \<Rightarrow> app_state" where
  "audioCommitted st =
     (case mergeBatchAudio 0 wavBase64 (project st) of
        None \<Rightarrow> st
      | Some p \<Rightarrow> st\<lparr>project := p\<rparr>)"

text \<open>
  What other handlers do while a batch runs: while the job of the first scene is
  awaited an image is uploaded for the second scene; and while the job of the second
  scene is awaited an image is uploaded for the first.
\<close>

definition uploadForSecond :: "nat \<Rightarrow> app_state \<Rightarrow> app_state" where
  "uploadForSecond j st = (if j = 0 then imageUploaded 1 ''data:image/jpeg;base64,BBBB'' st else st)"

definition uploadForFirst :: "nat \<Rightarrow> app_state \<Rightarrow> app_state" where
  "uploadForFirst j st = (if j = 1 then imageUploaded 0 ''data:image/jpeg;base64,BBBB'' st else st)"

definition emptyWorld :: world where
  "emptyWorld = \<lparr>calls = 0, trace = []\<rparr>"

section \<open>Properties of strings\<close>

lemma startsWith_iff: "startsWith hay needle \<longleftrightarrow> (\<exists>post. hay = needle @ post)"
proof
  assume "startsWith hay needle"
  then have "hay = needle @ drop (length needle) hay"
    by (metis append_take_drop_id startsWith_def)
  then show "\<exists>post. hay = needle @ post" ..
next
  assume "\<exists>post. hay = needle @ post"
  then show "startsWith hay needle" by (auto simp: startsWith_def)
qed

lemma includesStr_iff: "includesStr hay needle \<longleftrightarrow> (\<exists>pre post. hay = pre @ needle @ post)"
proof (induction hay)
  case Nil
  show ?case by auto
next
  case (Cons c cs)
  show ?case
  proof
    assume "includesStr (c # cs) needle"
    then consider "startsWith (c # cs) needle" | "includesStr cs needle" by auto
    then show "\<exists>pre post. c # cs = pre @ needle @ post"
    proof cases
      case 1
      then obtain post where "c # cs = needle @ post" by (auto simp: startsWith_iff)
      then have "c # cs = [] @ needle @ post" by simp
      then show ?thesis by blast
    next
      case 2
      then obtain pre post where "cs = pre @ needle @ post" using Cons.IH by blast
      then have "c # cs = (c # pre) @ needle @ post" by simp
      then show ?thesis by blast
    qed
  next
    assume "\<exists>pre post. c # cs = pre @ needle @ post"
    then obtain pre post where e: "c # cs = pre @ needle @ post" by blast
    show "includesStr (c # cs) needle"
    proof (cases pre)
      case Nil
      with e have "startsWith (c # cs) needle" by (auto simp: startsWith_iff)
      then show ?thesis by simp
    next
      case (Cons a pre')
      with e have "cs = pre' @ needle @ post" by simp
      then have "includesStr cs needle" using Cons.IH by blast
      then show ?thesis by simp
    qed
  qed
qed

section \<open>Properties of the retry policy\<close>

lemma callWithRetry_resolved:
  "fn w = (Resolved v, w1) \<Longrightarrow> callWithRetry fn retries delay w = Some (Resolved v, w1)"
  by (subst callWithRetry.simps) simp

lemma callWithRetry_exhausted:
  "fn w = (Rejected err, w1) \<Longrightarrow> callWithRetry fn 0 delay w = Some (Rejected err, w1)"
  by (subst callWithRetry.simps) simp

lemma callWithRetry_fatal:
  "fn w = (Rejected err, w1) \<Longrightarrow> \<not> isRetryable err \<Longrightarrow>
   callWithRetry fn retries delay w = Some (Rejected err, w1)"
  by (subst callWithRetry.simps) simp

lemma callWithRetry_again:
  "fn w = (Rejected err, w1) \<Longrightarrow> isRetryable err \<Longrightarrow> retries \<noteq> 0 \<Longrightarrow>
   callWithRetry fn retries delay w =
     callWithRetry fn (retries - 1) (delay * 2) (emit [RetryWarned delay retries, Slept delay] w1)"
  by (subst callWithRetry.simps) simp




lemma isRetryable_iff: "isRetryable err \<longleftrightarrow> transientSignature err"
  by (cases "message err") (auto simp: isRetryable_def transientSignature_def includesStr_iff)




lemma bad_request_no_signature:
  "\<not> transientSignature \<lparr>status = Some 400, message = Some ''Bad request''\<rparr>"
  unfolding isRetryable_iff [symmetric] by (simp add: isRetryable_def startsWith_def)




section \<open>Properties of the audio container\<close>

lemma header_writes:
  "bindE (writeString 0 ''RIFF'' (replicate 44 0 @ ys)) (\<lambda>b1.
         bindE (setUint32 4 (36 + d) b1) (\<lambda>b2.
         bindE (writeString 8 ''WAVE'' b2) (\<lambda>b3.
         bindE (writeString 12 ''fmt '' b3) (\<lambda>b4.
         bindE (setUint32 16 16 b4) (\<lambda>b5.
         bindE (setUint16 20 1 b5) (\<lambda>b6.
         bindE (setUint16 22 1 b6) (\<lambda>b7.
         bindE (setUint32 24 sr b7) (\<lambda>b8.
         bindE (setUint32 28 (sr * 2) b8) (\<lambda>b9.
         bindE (setUint16 32 2 b9) (\<lambda>b10.
         bindE (setUint16 34 16 b10) (\<lambda>b11.
         bindE (writeString 36 ''data'' b11) (\<lambda>b12.
         bindE (setUint32 40 d b12) k)))))))))))) = k (headerBytes sr d @ ys)"
  by (simp add: bindE_def setUint8_def setUint16_def setUint32_def headerBytes_def numeral_eq_Suc)

lemma length_headerBytes: "length (headerBytes sr d) = 44"
  by (simp add: headerBytes_def)

lemma addWavHeader_eq:
  "addWavHeader a sr =
     setBytes 44 (buffer a) (headerBytes sr (int (alength a) * 2) @ replicate (2 * alength a) 0)"
proof -
  have r: "replicate (44 + nat (int (alength a) * 2)) (0 :: byte) =
           replicate 44 0 @ replicate (2 * alength a) 0"
    by (simp add: replicate_add [symmetric] nat_mult_distrib mult.commute)
  show ?thesis
    unfolding addWavHeader_def Let_def r
    using header_writes [of "replicate (2 * alength a) 0" "int (alength a) * 2" sr "setBytes 44 (buffer a)"]
    by simp
qed

lemma addWavHeader_spans:
  "spansBuffer a \<Longrightarrow>
   addWavHeader a sr = Inr (headerBytes sr (int (alength a) * 2) @ buffer a)"
  by (simp add: addWavHeader_eq setBytes_def spansBuffer_def length_headerBytes)

lemma addWavHeader_throws:
  "length (buffer a) \<noteq> 2 * alength a \<Longrightarrow> wellFormed a \<Longrightarrow>
   addWavHeader a sr = Inl (rangeError ''offset is out of bounds'')"
  by (auto simp add: addWavHeader_eq setBytes_def wellFormed_def length_headerBytes)

lemma ucast_word_cat_lo: "ucast (word_cat (hi :: byte) (lo :: byte) :: 16 word) = lo"
  by (simp add: bit_eq_iff bit_simps)

lemma ucast_word_cat_hi: "ucast (drop_bit 8 (word_cat (hi :: byte) (lo :: byte) :: 16 word)) = hi"
  by (simp add: bit_eq_iff bit_simps)

lemma sampleBytes_decode16:
  "even (length bs) \<Longrightarrow> concat (map sampleBytes (decode16 bs)) = bs"
  by (induction bs rule: decode16.induct)
     (auto simp: sampleBytes_def ucast_word_cat_lo ucast_word_cat_hi)

lemma elements_spans:
  "spansBuffer a \<Longrightarrow> concat (map sampleBytes (elements a)) = buffer a"
  by (simp add: elements_def spansBuffer_def sampleBytes_decode16)

lemma length_decode16: "length (decode16 bs) = length bs div 2"
  by (induction bs rule: decode16.induct) simp_all

lemma unat_byte_of_int: "unat (word_of_int v :: byte) = nat (v mod 256)"
  by (simp add: unat_eq_nat_uint uint_word_of_int)

lemma le16_split: "(x :: int) mod 65536 = x mod 256 + 256 * (x div 256 mod 256)"
proof -
  have "x mod (256 * 256) = 256 * (x div 256 mod 256) + x mod 256"
    by (rule zmod_zmult2_eq) simp
  then show ?thesis by (simp only: mult.commute add.commute) simp
qed

lemma le32_split:
  "(v :: int) mod 4294967296 =
     v mod 256 + 256 * (v div 256 mod 256) + 65536 * (v div 65536 mod 256) +
     16777216 * (v div 16777216 mod 256)"
proof -
  have a: "v mod (65536 * 65536) = 65536 * (v div 65536 mod 65536) + v mod 65536"
    by (rule zmod_zmult2_eq) simp
  have d: "v div 65536 div 256 = v div (65536 * 256)"
    by (rule zdiv_zmult2_eq [symmetric]) simp
  have e: "(65536 :: int) * 65536 = 4294967296" "(65536 :: int) * 256 = 16777216" by simp_all
  show ?thesis
    unfolding a [unfolded e] le16_split [of v] le16_split [of "v div 65536"] d [unfolded e]
    by (simp only: distrib_left mult.assoc [symmetric] e add.assoc add.commute add.left_commute)
qed

lemma nat_le32:
  "0 \<le> a \<Longrightarrow> 0 \<le> b \<Longrightarrow> 0 \<le> c \<Longrightarrow> 0 \<le> d \<Longrightarrow>
   nat (a + 256 * b + 65536 * c + 16777216 * d) =
   nat a + 256 * nat b + 65536 * nat c + 16777216 * nat d"
  by (simp add: nat_add_distrib nat_mult_distrib)

lemma le32_value:
  "unat (word_of_int v :: byte) + 256 * unat (word_of_int (v div 256) :: byte) +
   65536 * unat (word_of_int (v div 65536) :: byte) +
   16777216 * unat (word_of_int (v div 16777216) :: byte) = nat (v mod 4294967296)"
proof -
  have "nat (v mod 4294967296) =
        nat (v mod 256 + 256 * (v div 256 mod 256) + 65536 * (v div 65536 mod 256) +
             16777216 * (v div 16777216 mod 256))"
    by (rule arg_cong [OF le32_split])
  also have "\<dots> = nat (v mod 256) + 256 * nat (v div 256 mod 256) +
                  65536 * nat (v div 65536 mod 256) + 16777216 * nat (v div 16777216 mod 256)"
    by (rule nat_le32) simp_all
  finally have e: "nat (v mod 4294967296) =
        nat (v mod 256) + 256 * nat (v div 256 mod 256) +
        65536 * nat (v div 65536 mod 256) + 16777216 * nat (v div 16777216 mod 256)" .
  show ?thesis unfolding unat_byte_of_int e by (rule refl)
qed

lemma parseWav_header:
  "parseWav (headerBytes sr d @ bs) =
     Some \<lparr>channels = 1, rate = nat (sr mod 4294967296),
            bytesPerSecond = nat (sr * 2 mod 4294967296), alignment = 2, bits = 16,
            declaredSize = nat (d mod 4294967296), samples = bs\<rparr>"
proof -
  have tags: "tagAt 0 ''RIFF'' (headerBytes sr d @ bs)" "tagAt 8 ''WAVE'' (headerBytes sr d @ bs)"
    "tagAt 12 ''fmt '' (headerBytes sr d @ bs)" "tagAt 36 ''data'' (headerBytes sr d @ bs)"
    by (simp_all add: tagAt_def headerBytes_def)
  have f1: "getUint16 22 (headerBytes sr d @ bs) = 1" "getUint16 32 (headerBytes sr d @ bs) = 2"
    "getUint16 34 (headerBytes sr d @ bs) = 16"
    by (simp_all add: getUint16_def headerBytes_def)
  have f2: "getUint32 24 (headerBytes sr d @ bs) = nat (sr mod 4294967296)"
    "getUint32 28 (headerBytes sr d @ bs) = nat (sr * 2 mod 4294967296)"
    "getUint32 40 (headerBytes sr d @ bs) = nat (d mod 4294967296)"
    using le32_value [of sr] le32_value [of "sr * 2"] le32_value [of d]
    by (simp_all add: getUint32_def headerBytes_def)
  show ?thesis
    by (simp add: parseWav_def tags f1 f2 length_headerBytes)
qed

text \<open>
  C2, as amended. For an \<open>Int16Array\<close> that views the whole of its buffer and a
  whole sample rate from 0 up to 2147483647, the encoder returns a buffer of
  \<open>44 + 2 * n\<close> bytes; its bytes from 44 on are the little-endian bytes of the
  samples; and reading it back gives one channel, the sample rate, a byte rate of twice
  the sample rate, a block alignment of 2, 16 bits per sample and the sample bytes.
\<close>

theorem addWavHeader_roundtrip:
  assumes "spansBuffer a" and "0 \<le> sampleRate" and "sampleRate < 2147483648"
  shows "\<exists>buf. addWavHeader a sampleRate = Inr buf \<and>
           length buf = 44 + 2 * alength a \<and>
           length (elements a) = alength a \<and>
           drop 44 buf = concat (map sampleBytes (elements a)) \<and>
           parseWav buf =
             Some \<lparr>channels = 1, rate = nat sampleRate, bytesPerSecond = nat (sampleRate * 2),
                    alignment = 2, bits = 16,
                    declaredSize = (2 * alength a) mod 4294967296,
                    samples = concat (map sampleBytes (elements a))\<rparr>"
proof -
  let ?buf = "headerBytes sampleRate (int (alength a) * 2) @ buffer a"
  have enc: "addWavHeader a sampleRate = Inr ?buf"
    by (rule addWavHeader_spans [OF assms(1)])
  have len: "length ?buf = 44 + 2 * alength a"
    using assms(1) by (simp add: length_headerBytes spansBuffer_def)
  have n: "length (elements a) = alength a"
    using assms(1) by (simp add: elements_def spansBuffer_def length_decode16)
  have pay: "drop 44 ?buf = concat (map sampleBytes (elements a))"
    by (simp add: length_headerBytes elements_spans [OF assms(1)])
  have m1: "sampleRate mod 4294967296 = sampleRate" "sampleRate * 2 mod 4294967296 = sampleRate * 2"
    using assms(2) assms(3) by simp_all
  have m2: "nat (int (alength a) * 2 mod 4294967296) = (2 * alength a) mod 4294967296"
    by (simp add: nat_mod_distrib nat_mult_distrib mult.commute)
  have par: "parseWav ?buf =
     Some \<lparr>channels = 1, rate = nat sampleRate, bytesPerSecond = nat (sampleRate * 2),
            alignment = 2, bits = 16, declaredSize = (2 * alength a) mod 4294967296,
            samples = concat (map sampleBytes (elements a))\<rparr>"
    by (simp only: parseWav_header m1 m2 elements_spans [OF assms(1)])
  show ?thesis using enc len n pay par by blast
qed

theorem addWavHeader_roundtrip_witness:
  "spansBuffer fourSamples \<and>
   map_sum id length (addWavHeader fourSamples 24000) = Inr 48 \<and>
   map_sum id (drop 44) (addWavHeader fourSamples 24000) = Inr [1, 2, 3, 4] \<and>
   map_option rate (readBack (addWavHeader fourSamples 24000)) = Some 24000 \<and>
   map_option bytesPerSecond (readBack (addWavHeader fourSamples 24000)) = Some 48000"
proof -
  have s: "spansBuffer fourSamples" by (simp add: fourSamples_def spansBuffer_def)
  have e: "concat (map sampleBytes (elements fourSamples)) = [1, 2, 3, 4]"
    by (simp add: elements_spans [OF s]) (simp add: fourSamples_def)
  have n: "alength fourSamples = 2" by (simp add: fourSamples_def)
  from addWavHeader_roundtrip [OF s, of 24000] obtain buf where
    "addWavHeader fourSamples 24000 = Inr buf" "length buf = 44 + 2 * alength fourSamples"
    "drop 44 buf = concat (map sampleBytes (elements fourSamples))"
    "map_option rate (parseWav buf) = Some 24000"
    "map_option bytesPerSecond (parseWav buf) = Some 48000"
    by auto
  then show ?thesis using s e n by (simp add: readBack_def)
qed

text \<open>
  C2 as stated fails in two ways. A view that starts two bytes into a four-byte buffer
  is an \<open>Int16Array\<close> of one sample, and the encoder throws on it: it copies the
  whole underlying buffer, which does not fit. And at the sample rate 2147483648 the
  header declares the byte rate 0, not twice the sample rate.
\<close>

theorem addWavHeader_every_input_counterexample:
  "wellFormed laterView \<and>
   addWavHeader laterView 24000 = Inl (rangeError ''offset is out of bounds'') \<and>
   spansBuffer oneSample \<and>
   map_option bytesPerSecond (readBack (addWavHeader oneSample 2147483648)) = Some 0 \<and>
   (2147483648 :: int) * 2 \<noteq> 0"
proof -
  have a: "wellFormed laterView" by (simp add: laterView_def wellFormed_def)
  have b: "addWavHeader laterView 24000 = Inl (rangeError ''offset is out of bounds'')"
    by (rule addWavHeader_throws [OF _ a]) (simp add: laterView_def)
  have c: "spansBuffer oneSample" by (simp add: oneSample_def spansBuffer_def)
  have d0: "addWavHeader oneSample 2147483648 =
            Inr (headerBytes 2147483648 (int (alength oneSample) * 2) @ buffer oneSample)"
    by (rule addWavHeader_spans [OF c])
  have d: "map_option bytesPerSecond (readBack (addWavHeader oneSample 2147483648)) = Some 0"
    unfolding d0 by (simp add: readBack_def parseWav_header)
  have e: "(2147483648 :: int) * 2 \<noteq> 0" by simp
  show ?thesis by (intro conjI a b c d e)
qed

section \<open>The retry wrapper with a whole budget\<close>

lemma callWithRetry_settles: "\<exists>r. callWithRetry fn (int n) d w = Some r"
proof (induction n arbitrary: d w)
  case 0
  show ?case by (subst callWithRetry.simps) (simp split: prod.split outcome.split)
next
  case (Suc n)
  have "int (Suc n) - 1 = int n" by simp
  then show ?case using Suc.IH
    by (subst callWithRetry.simps) (simp split: prod.split outcome.split)
qed

lemma callWithRetry_last:
  "callWithRetry fn (int n) d w = Some (r, w') \<Longrightarrow> \<exists>w0. fn w0 = (r, w')"
proof (induction n arbitrary: d w)
  case 0
  then show ?case
    by (subst (asm) callWithRetry.simps) (auto split: prod.splits outcome.splits)
next
  case (Suc n)
  have e: "int (Suc n) - 1 = int n" by simp
  from Suc.prems show ?case
    apply (subst (asm) callWithRetry.simps)
    apply (auto split: prod.splits outcome.splits if_splits simp: e dest: Suc.IH)
    done
qed

lemma withRetry_settles: "\<exists>r w'. withRetry fn w = Some (r, w')"
  using callWithRetry_settles [of fn 3 1000 w] by (simp add: withRetry_def)

lemma withRetry_last: "withRetry fn w = Some (r, w') \<Longrightarrow> \<exists>w0. fn w0 = (r, w')"
  using callWithRetry_last [of fn 3 1000 w r w'] by (simp add: withRetry_def)

lemma withRetry_resolved: "fn w = (Resolved v, w1) \<Longrightarrow> withRetry fn w = Some (Resolved v, w1)"
  by (simp add: withRetry_def callWithRetry_resolved)

lemma withRetry_fatal:
  "fn w = (Rejected e, w1) \<Longrightarrow> \<not> isRetryable e \<Longrightarrow> withRetry fn w = Some (Rejected e, w1)"
  by (simp add: withRetry_def callWithRetry_fatal)

section \<open>Properties of the audio job\<close>

lemma binaryLoop_eq:
  "binaryLoop wavBytes i binary = binary @ fromCharCodes (drop i wavBytes)"
proof (induction wavBytes i binary rule: binaryLoop.induct)
  case (1 wavBytes i binary)
  show ?case
  proof (cases "i < length wavBytes")
    case True
    have c: "0 < chunkSize" by (simp add: chunkSize_def)
    have "take (min (i + chunkSize) (length wavBytes) - i) (drop i wavBytes) @ drop (i + chunkSize) wavBytes
          = drop i wavBytes"
    proof (cases "i + chunkSize \<le> length wavBytes")
      case True
      then have "min (i + chunkSize) (length wavBytes) - i = chunkSize" by simp
      moreover have "drop (i + chunkSize) wavBytes = drop chunkSize (drop i wavBytes)"
        by (simp add: add.commute)
      ultimately show ?thesis by (simp only: append_take_drop_id)
    next
      case False
      then show ?thesis by simp
    qed
    then have "fromCharCodes (subarray wavBytes i (min (i + chunkSize) (length wavBytes))) @
               fromCharCodes (drop (i + chunkSize) wavBytes) = fromCharCodes (drop i wavBytes)"
      unfolding fromCharCodes_def subarray_def map_append [symmetric] by simp
    then show ?thesis
      using True "1.IH" [OF True] by (subst binaryLoop.simps) simp
  next
    case False
    then show ?thesis by (subst binaryLoop.simps) (simp add: fromCharCodes_def)
  qed
qed

lemma rangeError_not_retryable:
  "\<not> isRetryable (rangeError ''byte length of Int16Array should be a multiple of 2'')"
  by (simp add: isRetryable_def rangeError_def mkError_def startsWith_def)

lemma recode_eq:
  "atob plat b = Inr bin \<Longrightarrow>
   recode plat b =
     (if odd (length bin) then Inl (rangeError ''byte length of Int16Array should be a multiple of 2'')
      else Inr (btoa plat (fromCharCodes (headerBytes 24000 (int (length bin)) @ map of_char bin))))"
proof (cases "odd (length bin)")
  case True
  assume "atob plat b = Inr bin"
  then show ?thesis using True by (simp add: recode_def bindE_def newInt16Array_def)
next
  case False
  assume a: "atob plat b = Inr bin"
  let ?pcm = "\<lparr>buffer = map of_char bin :: byte list, byteOffset = 0, alength = length bin div 2\<rparr>"
  have sp: "spansBuffer ?pcm" using False by (simp add: spansBuffer_def)
  have n: "int (alength ?pcm) * 2 = int (length bin)" using False by (simp add: mult.commute) presburger
  have "addWavHeader ?pcm 24000 = Inr (headerBytes 24000 (int (length bin)) @ map of_char bin)"
    using addWavHeader_spans [OF sp, of 24000] unfolding n by simp
  then show ?thesis using False a
    by (simp add: recode_def bindE_def newInt16Array_def binaryLoop_eq)
qed

lemma generateSpeech_eq:
  assumes "getAI key (envApiKey plat) = Inr ai"
    and "svc ai (calls w) (SpeechRequest ''gemini-2.5-flash-preview-tts'' txt (voiceNameOf vt)) =
           Resolved (Some b)"
    and "b \<noteq> []"
    and "atob plat b = Inr bin"
  shows "generateSpeech plat svc txt vt key w =
           Some (if odd (length bin)
                 then Rejected (rangeError ''byte length of Int16Array should be a multiple of 2'')
                 else Resolved (btoa plat (fromCharCodes
                        (headerBytes 24000 (int (length bin)) @ map of_char bin))),
                 w\<lparr>calls := Suc (calls w),
                   trace := trace w @ [Requested (SpeechRequest ''gemini-2.5-flash-preview-tts'' txt
                                                     (voiceNameOf vt))]\<rparr>)"
proof -
  let ?w1 = "w\<lparr>calls := Suc (calls w),
                trace := trace w @ [Requested (SpeechRequest ''gemini-2.5-flash-preview-tts'' txt
                                                  (voiceNameOf vt))]\<rparr>"
  let ?fn = "generateSpeechAttempt plat svc txt vt key"
  show ?thesis
  proof (cases "odd (length bin)")
    case True
    have "?fn w = (Rejected (rangeError ''byte length of Int16Array should be a multiple of 2''), ?w1)"
      using assms True by (simp add: generateSpeechAttempt_def send_def recode_eq)
    then show ?thesis using True
      by (simp add: generateSpeech_def withRetry_fatal [of ?fn] rangeError_not_retryable)
  next
    case False
    have "?fn w = (Resolved (btoa plat (fromCharCodes
                        (headerBytes 24000 (int (length bin)) @ map of_char bin))), ?w1)"
      using assms False by (simp add: generateSpeechAttempt_def send_def recode_eq)
    then show ?thesis using False
      by (simp add: generateSpeech_def withRetry_resolved [of ?fn])
  qed
qed

lemma generateSpeech_resolved_even:
  assumes "getAI key (envApiKey plat) = Inr ai"
    and "generateSpeech plat svc txt vt key w = Some (Resolved v, w')"
  shows "\<exists>n b bin.
           svc ai n (SpeechRequest ''gemini-2.5-flash-preview-tts'' txt (voiceNameOf vt)) =
             Resolved (Some b) \<and>
           atob plat b = Inr bin \<and> even (length bin) \<and>
           v = btoa plat (fromCharCodes (headerBytes 24000 (int (length bin)) @ map of_char bin))"
proof -
  from assms(2) obtain w0 where a: "generateSpeechAttempt plat svc txt vt key w0 = (Resolved v, w')"
    unfolding generateSpeech_def by (blast dest: withRetry_last)
  let ?req = "SpeechRequest ''gemini-2.5-flash-preview-tts'' txt (voiceNameOf vt)"
  from a assms(1) obtain b where b: "svc ai (calls w0) ?req = Resolved (Some b)" "b \<noteq> []"
    and r: "recode plat b = Inr v"
    by (auto simp add: generateSpeechAttempt_def send_def
        split: outcome.splits option.splits if_splits sum.splits)
  from r obtain bin where bin: "atob plat b = Inr bin"
    by (cases "atob plat b") (simp_all add: recode_def bindE_def)
  from r have "even (length bin) \<and>
      v = btoa plat (fromCharCodes (headerBytes 24000 (int (length bin)) @ map of_char bin))"
    by (simp add: recode_eq [OF bin] split: if_splits)
  with b(1) bin show ?thesis by blast
qed

text \<open>
  C10. With an API key available, \<open>generateSpeech\<close> returns a container only for
  a payload of even length. Let the service answer the speech request with inline data
  that the platform decodes to a binary string. If its length is odd,
  \<open>generateSpeech\<close> fails with the \<open>RangeError\<close> of the \<open>Int16Array\<close>
  constructor (the message is the engine's; the retry wrapper does not retry it), after
  the one request and without a wait. If it is even, \<open>generateSpeech\<close> returns the
  base64 of the container: the 44-byte header followed by the decoded bytes. And
  whenever \<open>generateSpeech\<close> returns a value, after however many attempts, it is
  the base64 of the container of an answer that decodes to an even number of bytes.
\<close>

theorem generateSpeech_even_only:
  assumes "getAI key (envApiKey plat) = Inr ai"
  shows "(svc ai (calls w) (SpeechRequest ''gemini-2.5-flash-preview-tts'' txt (voiceNameOf vt)) =
            Resolved (Some b) \<and> b \<noteq> [] \<and> atob plat b = Inr bin \<longrightarrow>
          generateSpeech plat svc txt vt key w =
            Some (if odd (length bin)
                  then Rejected (rangeError ''byte length of Int16Array should be a multiple of 2'')
                  else Resolved (btoa plat (fromCharCodes
                         (headerBytes 24000 (int (length bin)) @ map of_char bin))),
                  w\<lparr>calls := Suc (calls w),
                    trace := trace w @ [Requested (SpeechRequest ''gemini-2.5-flash-preview-tts'' txt
                                                      (voiceNameOf vt))]\<rparr>)) \<and>
         (generateSpeech plat svc txt vt key w = Some (Resolved v, w') \<longrightarrow>
          (\<exists>n b' bin'.
             svc ai n (SpeechRequest ''gemini-2.5-flash-preview-tts'' txt (voiceNameOf vt)) =
               Resolved (Some b') \<and>
             atob plat b' = Inr bin' \<and> even (length bin') \<and>
             v = btoa plat (fromCharCodes (headerBytes 24000 (int (length bin')) @ map of_char bin'))))"
  using generateSpeech_eq [OF assms] generateSpeech_resolved_even [OF assms] by blast

theorem generateSpeech_even_only_witness:
  "generateSpeech examplePlatform oddSpeech ''Hello'' ''woman'' (Some ''k'') emptyWorld =
     Some (Rejected (rangeError ''byte length of Int16Array should be a multiple of 2''),
           \<lparr>calls = 1,
            trace = [Requested (SpeechRequest ''gemini-2.5-flash-preview-tts'' ''Hello'' ''Kore'')]\<rparr>)"
  using generateSpeech_even_only [of "Some ''k''" examplePlatform "''k''" oddSpeech emptyWorld
          "''Hello''" "''woman''" "''AQID''" "[CHR 0x01, CHR 0x02, CHR 0x03]"]
  by (simp add: getAI_def truthy_def examplePlatform_def oddSpeech_def emptyWorld_def voiceNameOf_def)

section \<open>Properties of the image job\<close>

lemma runGeneration_eq:
  "runGeneration svc ai prompt model ratio sz w =
     (tierOutcome svc ai (calls w) (ImageRequest model prompt ratio sz),
      w\<lparr>calls := Suc (calls w), trace := trace w @ [Requested (ImageRequest model prompt ratio sz)]\<rparr>)"
  by (simp add: runGeneration_def send_def tierOutcome_def split: outcome.split)

lemma generateImageAttempt_eq:
  assumes "getAI key (envApiKey plat) = Inr ai"
  shows "generateImageAttempt plat svc basePrompt settings style key active w =
     (let prompt = finalPrompt basePrompt style active in
      case tierOutcome svc ai (calls w) (proRequest prompt settings) of
        Resolved url \<Rightarrow>
          (Resolved url, w\<lparr>calls := calls w + 1, trace := trace w @ [Requested (proRequest prompt settings)]\<rparr>)
      | Rejected e1 \<Rightarrow>
          (tierOutcome svc ai (Suc (calls w)) (flashRequest prompt settings),
           w\<lparr>calls := calls w + 2,
             trace := trace w @ [Requested (proRequest prompt settings), FallbackWarned (message e1),
                                 Requested (flashRequest prompt settings)]\<rparr>))"
  using assms
  by (simp add: generateImageAttempt_def runGeneration_eq proRequest_def flashRequest_def emit_def
      Let_def split: outcome.split)

lemma generateImageAttempt_no_key:
  "getAI key (envApiKey plat) = Inl e \<Longrightarrow>
   generateImageAttempt plat svc basePrompt settings style key active w = (Rejected e, w)"
  by (simp add: generateImageAttempt_def)

lemma missing_key_not_retryable:
  "\<not> isRetryable (mkError ''Missing API Key. Please add one in Settings.'')"
  by (simp add: isRetryable_def mkError_def startsWith_def)

lemma generateImage_shape_aux:
  assumes key: "getAI key (envApiKey plat) = Inr ai"
  shows "\<exists>r w' es. callWithRetry (generateImageAttempt plat svc basePrompt settings style key active)
                      (int n) d w = Some (r, w') \<and>
           trace w' = trace w @ es \<and>
           attemptsShape (proRequest (finalPrompt basePrompt style active) settings)
                         (flashRequest (finalPrompt basePrompt style active) settings) es"
proof (induction n arbitrary: d w)
  case 0
  let ?fn = "generateImageAttempt plat svc basePrompt settings style key active"
  obtain r w1 where f: "?fn w = (r, w1)" by (cases "?fn w")
  have s: "callWithRetry ?fn (int 0) d w = Some (r, w1)"
    using f by (cases r) (simp_all add: callWithRetry_resolved callWithRetry_exhausted)
  from f have "\<exists>es. trace w1 = trace w @ es \<and>
      attemptsShape (proRequest (finalPrompt basePrompt style active) settings)
                    (flashRequest (finalPrompt basePrompt style active) settings) es"
    by (auto simp add: generateImageAttempt_eq [OF key] Let_def split: outcome.splits
        intro: attemptsShape.intros)
  with s show ?case by blast
next
  case (Suc n)
  let ?fn = "generateImageAttempt plat svc basePrompt settings style key active"
  let ?p = "proRequest (finalPrompt basePrompt style active) settings"
  let ?f = "flashRequest (finalPrompt basePrompt style active) settings"
  show ?case
  proof (cases "tierOutcome svc ai (calls w) ?p")
    case (Resolved url)
    then have f: "?fn w = (Resolved url, w\<lparr>calls := calls w + 1, trace := trace w @ [Requested ?p]\<rparr>)"
      by (simp add: generateImageAttempt_eq [OF key] Let_def)
    show ?thesis
      using callWithRetry_resolved [of ?fn, OF f] attemptsShape.firstTier [of ?p ?f] by auto
  next
    case (Rejected e1)
    let ?w1 = "w\<lparr>calls := calls w + 2,
                   trace := trace w @ [Requested ?p, FallbackWarned (message e1), Requested ?f]\<rparr>"
    from Rejected have f: "?fn w = (tierOutcome svc ai (Suc (calls w)) ?f, ?w1)"
      by (simp add: generateImageAttempt_eq [OF key] Let_def)
    show ?thesis
    proof (cases "tierOutcome svc ai (Suc (calls w)) ?f")
      case (Resolved url)
      with f have f': "?fn w = (Resolved url, ?w1)" by simp
      show ?thesis
        using callWithRetry_resolved [of ?fn, OF f'] attemptsShape.bothTiers [of ?p ?f "message e1"]
        by auto
    next
      case r2: (Rejected e2)
      with f have f': "?fn w = (Rejected e2, ?w1)" by simp
      show ?thesis
      proof (cases "isRetryable e2")
        case False
        show ?thesis
          using callWithRetry_fatal [of ?fn, OF f' False]
            attemptsShape.bothTiers [of ?p ?f "message e1"]
          by auto
      next
        case True
        have nz: "int (Suc n) \<noteq> 0" by simp
        have e: "int (Suc n) - 1 = int n" by simp
        let ?w2 = "emit [RetryWarned d (int (Suc n)), Slept d] ?w1"
        from Suc.IH [of "d * 2" ?w2] obtain r w' es where
          ih: "callWithRetry ?fn (int n) (d * 2) ?w2 = Some (r, w')" "trace w' = trace ?w2 @ es"
              "attemptsShape ?p ?f es"
          by blast
        have "callWithRetry ?fn (int (Suc n)) d w = Some (r, w')"
          using callWithRetry_again [of ?fn, OF f' True nz] ih(1) by (simp only: e)
        moreover have "trace w' = trace w @ (Requested ?p # FallbackWarned (message e1) # Requested ?f #
                          RetryWarned d (int (Suc n)) # Slept d # es)"
          using ih(2) by (simp add: emit_def)
        moreover have "attemptsShape ?p ?f (Requested ?p # FallbackWarned (message e1) # Requested ?f #
                          RetryWarned d (int (Suc n)) # Slept d # es)"
          by (rule attemptsShape.retried [OF ih(3)])
        ultimately show ?thesis by blast
      qed
    qed
  qed
qed

lemma generateImage_shape:
  assumes "getAI key (envApiKey plat) = Inr ai"
  shows "\<exists>r w' es. generateImage plat svc basePrompt settings style key active w = Some (r, w') \<and>
           trace w' = trace w @ es \<and>
           attemptsShape (proRequest (finalPrompt basePrompt style active) settings)
                         (flashRequest (finalPrompt basePrompt style active) settings) es"
  using generateImage_shape_aux [OF assms, of svc basePrompt settings style active 3 1000 w]
  by (simp add: generateImage_def withRetry_def)


lemma attemptsShape_first: "attemptsShape p f es \<Longrightarrow> \<exists>rest. es = Requested p # rest"
  by (induction rule: attemptsShape.induct) auto

text \<open>
  C4, as amended. When an API key is available: an attempt sends the assembled
  prompt to the high-quality tier first; if that tier answers with an image, the
  attempt returns it after that one request; if that tier fails for any reason, the
  attempt warns, sends the same prompt once to the lower tier and settles as the lower
  tier does. A call of \<open>generateImage\<close> always settles, and when it fails, both
  tiers have failed in its last attempt, the lower one with the error that is surfaced.
\<close>

theorem tier_fallback:
  assumes "getAI key (envApiKey plat) = Inr ai"
  shows "(tierOutcome svc ai (calls w) (proRequest (finalPrompt basePrompt style active) settings) =
            Resolved url \<longrightarrow>
          generateImageAttempt plat svc basePrompt settings style key active w =
            (Resolved url,
             w\<lparr>calls := calls w + 1,
               trace := trace w @ [Requested (proRequest (finalPrompt basePrompt style active) settings)]\<rparr>)) \<and>
         (tierOutcome svc ai (calls w) (proRequest (finalPrompt basePrompt style active) settings) =
            Rejected e1 \<longrightarrow>
          generateImageAttempt plat svc basePrompt settings style key active w =
            (tierOutcome svc ai (Suc (calls w)) (flashRequest (finalPrompt basePrompt style active) settings),
             w\<lparr>calls := calls w + 2,
               trace := trace w @
                 [Requested (proRequest (finalPrompt basePrompt style active) settings),
                  FallbackWarned (message e1),
                  Requested (flashRequest (finalPrompt basePrompt style active) settings)]\<rparr>)) \<and>
         (\<exists>r w'. generateImage plat svc basePrompt settings style key active w = Some (r, w')) \<and>
         (generateImage plat svc basePrompt settings style key active w = Some (Rejected e, w') \<longrightarrow>
          (\<exists>w0 e0.
             tierOutcome svc ai (calls w0) (proRequest (finalPrompt basePrompt style active) settings) =
               Rejected e0 \<and>
             tierOutcome svc ai (Suc (calls w0)) (flashRequest (finalPrompt basePrompt style active) settings) =
               Rejected e \<and>
             w' = w0\<lparr>calls := calls w0 + 2,
                     trace := trace w0 @
                       [Requested (proRequest (finalPrompt basePrompt style active) settings),
                        FallbackWarned (message e0),
                        Requested (flashRequest (finalPrompt basePrompt style active) settings)]\<rparr>))"
proof (intro conjI impI)
  assume "tierOutcome svc ai (calls w) (proRequest (finalPrompt basePrompt style active) settings) = Resolved url"
  then show "generateImageAttempt plat svc basePrompt settings style key active w =
            (Resolved url,
             w\<lparr>calls := calls w + 1,
               trace := trace w @ [Requested (proRequest (finalPrompt basePrompt style active) settings)]\<rparr>)"
    by (simp add: generateImageAttempt_eq [OF assms] Let_def)
next
  assume "tierOutcome svc ai (calls w) (proRequest (finalPrompt basePrompt style active) settings) = Rejected e1"
  then show "generateImageAttempt plat svc basePrompt settings style key active w =
            (tierOutcome svc ai (Suc (calls w)) (flashRequest (finalPrompt basePrompt style active) settings),
             w\<lparr>calls := calls w + 2,
               trace := trace w @
                 [Requested (proRequest (finalPrompt basePrompt style active) settings),
                  FallbackWarned (message e1),
                  Requested (flashRequest (finalPrompt basePrompt style active) settings)]\<rparr>)"
    by (simp add: generateImageAttempt_eq [OF assms] Let_def)
next
  show "\<exists>r w'. generateImage plat svc basePrompt settings style key active w = Some (r, w')"
    unfolding generateImage_def by (rule withRetry_settles)
next
  assume "generateImage plat svc basePrompt settings style key active w = Some (Rejected e, w')"
  then obtain w0 where
    l: "generateImageAttempt plat svc basePrompt settings style key active w0 = (Rejected e, w')"
    unfolding generateImage_def by (blast dest: withRetry_last)
  show "\<exists>w0 e0.
             tierOutcome svc ai (calls w0) (proRequest (finalPrompt basePrompt style active) settings) =
               Rejected e0 \<and>
             tierOutcome svc ai (Suc (calls w0)) (flashRequest (finalPrompt basePrompt style active) settings) =
               Rejected e \<and>
             w' = w0\<lparr>calls := calls w0 + 2,
                     trace := trace w0 @
                       [Requested (proRequest (finalPrompt basePrompt style active) settings),
                        FallbackWarned (message e0),
                        Requested (flashRequest (finalPrompt basePrompt style active) settings)]\<rparr>"
  proof (cases "tierOutcome svc ai (calls w0) (proRequest (finalPrompt basePrompt style active) settings)")
    case (Resolved url)
    with l show ?thesis by (simp add: generateImageAttempt_eq [OF assms] Let_def)
  next
    case (Rejected e0)
    with l show ?thesis by (auto simp add: generateImageAttempt_eq [OF assms] Let_def)
  qed
qed

lemma example_key: "getAI (Some ''k'') (envApiKey examplePlatform) = Inr ''k''"
  by (simp add: getAI_def truthy_def)

lemma example_no_key: "getAI None (envApiKey examplePlatform) =
    Inl (mkError ''Missing API Key. Please add one in Settings.'')"
  by (simp add: getAI_def truthy_def examplePlatform_def)

lemma pngAnswer_scan: "scanCandidates (case pngAnswer of None \<Rightarrow> [] | Some cs \<Rightarrow> cs) =
    Resolved ''data:image/png;base64,AAAA''"
  by (simp add: pngAnswer_def)

lemma proDown_pro: "tierOutcome proDown ai n (proRequest prompt settings) =
    Rejected \<lparr>status = Some 500, message = Some ''Internal error''\<rparr>"
  by (simp add: tierOutcome_def proDown_def proRequest_def)

lemma proDown_flash: "tierOutcome proDown ai n (flashRequest prompt settings) =
    Resolved ''data:image/png;base64,AAAA''"
  by (simp add: tierOutcome_def proDown_def flashRequest_def pngAnswer_scan)

theorem tier_fallback_witness:
  "generateImageAttempt examplePlatform proDown ''Lina in the rain'' exampleSettings exampleStyle
       (Some ''k'') [] emptyWorld =
     (Resolved ''data:image/png;base64,AAAA'',
      \<lparr>calls = 2,
       trace = [Requested (proRequest (finalPrompt ''Lina in the rain'' exampleStyle []) exampleSettings),
                FallbackWarned (Some ''Internal error''),
                Requested (flashRequest (finalPrompt ''Lina in the rain'' exampleStyle []) exampleSettings)]\<rparr>)"
  using tier_fallback [OF example_key, of proDown emptyWorld "''Lina in the rain''" exampleStyle "[]"
      exampleSettings _ "\<lparr>status = Some 500, message = Some ''Internal error''\<rparr>"]
  by (simp add: proDown_pro proDown_flash emptyWorld_def)

text \<open>
  C4 as stated fails when no API key is available: the request fails before either
  tier is attempted, although the service would have answered the first tier's request
  with an image.
\<close>

theorem tier_fallback_counterexample:
  "generateImage examplePlatform imageReady ''Lina in the rain'' exampleSettings exampleStyle None []
       emptyWorld =
     Some (Rejected (mkError ''Missing API Key. Please add one in Settings.''), emptyWorld) \<and>
   trace emptyWorld = [] \<and>
   tierOutcome imageReady ''k'' 0
       (proRequest (finalPrompt ''Lina in the rain'' exampleStyle []) exampleSettings) =
     Resolved ''data:image/png;base64,AAAA''"
proof -
  have a: "generateImageAttempt examplePlatform imageReady ''Lina in the rain'' exampleSettings exampleStyle None []
       emptyWorld = (Rejected (mkError ''Missing API Key. Please add one in Settings.''), emptyWorld)"
    by (rule generateImageAttempt_no_key [OF example_no_key])
  have b: "generateImage examplePlatform imageReady ''Lina in the rain'' exampleSettings exampleStyle None []
       emptyWorld =
     Some (Rejected (mkError ''Missing API Key. Please add one in Settings.''), emptyWorld)"
    unfolding generateImage_def
    by (rule withRetry_fatal
          [of "generateImageAttempt examplePlatform imageReady ''Lina in the rain'' exampleSettings
                 exampleStyle None []", OF a missing_key_not_retryable])
  have c: "trace emptyWorld = []" by (simp add: emptyWorld_def)
  have d: "tierOutcome imageReady ''k'' 0
       (proRequest (finalPrompt ''Lina in the rain'' exampleStyle []) exampleSettings) =
     Resolved ''data:image/png;base64,AAAA''"
    by (simp add: tierOutcome_def imageReady_def pngAnswer_scan)
  show ?thesis by (intro conjI b c d)
qed

lemma getAI_error:
  "getAI key env = Inl e \<Longrightarrow> e = mkError ''Missing API Key. Please add one in Settings.''"
  by (auto simp add: getAI_def split: option.splits if_splits)

lemma generateImage_no_key:
  assumes "getAI key (envApiKey plat) = Inl e"
  shows "generateImage plat svc basePrompt settings style key active w = Some (Rejected e, w)"
proof -
  have n: "\<not> isRetryable e" using getAI_error [OF assms] missing_key_not_retryable by simp
  show ?thesis
    unfolding generateImage_def
    by (rule withRetry_fatal
          [of "generateImageAttempt plat svc basePrompt settings style key active",
           OF generateImageAttempt_no_key [OF assms] n])
qed

lemma generateImage_retried:
  assumes key: "getAI key (envApiKey plat) = Inr ai"
    and pro: "tierOutcome svc ai (calls w) (proRequest (finalPrompt basePrompt style active) settings) =
                Rejected e1"
    and flash: "tierOutcome svc ai (Suc (calls w)) (flashRequest (finalPrompt basePrompt style active) settings) =
                Rejected e2"
    and tr: "isRetryable e2"
  shows "\<exists>r w' rest. generateImage plat svc basePrompt settings style key active w = Some (r, w') \<and>
           trace w' = trace w @
             [Requested (proRequest (finalPrompt basePrompt style active) settings),
              FallbackWarned (message e1),
              Requested (flashRequest (finalPrompt basePrompt style active) settings),
              RetryWarned 1000 3, Slept 1000,
              Requested (proRequest (finalPrompt basePrompt style active) settings)] @ rest"
proof -
  let ?fn = "generateImageAttempt plat svc basePrompt settings style key active"
  let ?p = "proRequest (finalPrompt basePrompt style active) settings"
  let ?f = "flashRequest (finalPrompt basePrompt style active) settings"
  let ?w1 = "w\<lparr>calls := calls w + 2,
                 trace := trace w @ [Requested ?p, FallbackWarned (message e1), Requested ?f]\<rparr>"
  let ?w2 = "emit [RetryWarned 1000 3, Slept 1000] ?w1"
  have a: "?fn w = (Rejected e2, ?w1)"
    using pro flash by (simp add: generateImageAttempt_eq [OF key] Let_def)
  have nz: "(3 :: int) \<noteq> 0" by simp
  have again: "callWithRetry ?fn 3 1000 w = callWithRetry ?fn (3 - 1) (1000 * 2) ?w2"
    by (rule callWithRetry_again [of ?fn, OF a tr nz])
  have two: "(3 :: int) - 1 = int 2" by simp
  from generateImage_shape_aux [OF key, of svc basePrompt settings style active 2 "1000 * 2" ?w2]
  obtain r w' es where
    s: "callWithRetry ?fn (int 2) (1000 * 2) ?w2 = Some (r, w')" "trace w' = trace ?w2 @ es"
       "attemptsShape ?p ?f es"
    by blast
  from attemptsShape_first [OF s(3)] obtain rest where es: "es = Requested ?p # rest" by blast
  have g: "generateImage plat svc basePrompt settings style key active w = Some (r, w')"
    unfolding generateImage_def withRetry_def again two by (rule s(1))
  have t: "trace w' = trace w @
             [Requested ?p, FallbackWarned (message e1), Requested ?f,
              RetryWarned 1000 3, Slept 1000, Requested ?p] @ rest"
    using s(2) es by (simp add: emit_def)
  from g t show ?thesis by blast
qed

text \<open>
  C5, as amended. The retry wrapper is outside the tier fallback. With no API key the
  call fails with the configuration error, with no request and no wait. With a key,
  the events of a call of \<open>generateImage\<close> are a sequence of attempts, each a request
  to the high tier, alone or followed by the fallback warning and the request to the low
  tier, with a retry warning and a wait only between a request to the low tier and the
  next attempt's request to the high tier. When the high tier answers with an image the
  call returns it after that one request. When the high tier fails, with any error, the
  low tier is asked at once: if it answers with an image the call returns it after the
  two requests and without a wait; if it fails with an error that does not bear the
  transient signature the call fails with that error after the two requests; and if it
  fails with an error that bears the signature, the wrapper warns, waits the initial
  delay, and the next attempt starts again with a request to the high tier.
\<close>

theorem retry_wraps_fallback:
  "(getAI key (envApiKey plat) = Inl e0 \<longrightarrow>
      generateImage plat svc basePrompt settings style key active w = Some (Rejected e0, w)) \<and>
   (getAI key (envApiKey plat) = Inr ai \<longrightarrow>
      (\<exists>r w' es. generateImage plat svc basePrompt settings style key active w = Some (r, w') \<and>
          trace w' = trace w @ es \<and>
          attemptsShape (proRequest (finalPrompt basePrompt style active) settings)
                        (flashRequest (finalPrompt basePrompt style active) settings) es) \<and>
      (tierOutcome svc ai (calls w) (proRequest (finalPrompt basePrompt style active) settings) =
         Resolved url \<longrightarrow>
       generateImage plat svc basePrompt settings style key active w =
         Some (Resolved url,
               w\<lparr>calls := calls w + 1,
                 trace := trace w @
                   [Requested (proRequest (finalPrompt basePrompt style active) settings)]\<rparr>)) \<and>
      (tierOutcome svc ai (calls w) (proRequest (finalPrompt basePrompt style active) settings) =
         Rejected e1 \<and>
       tierOutcome svc ai (Suc (calls w)) (flashRequest (finalPrompt basePrompt style active) settings) =
         Resolved url \<longrightarrow>
       generateImage plat svc basePrompt settings style key active w =
         Some (Resolved url,
               w\<lparr>calls := calls w + 2,
                 trace := trace w @
                   [Requested (proRequest (finalPrompt basePrompt style active) settings),
                    FallbackWarned (message e1),
                    Requested (flashRequest (finalPrompt basePrompt style active) settings)]\<rparr>)) \<and>
      (tierOutcome svc ai (calls w) (proRequest (finalPrompt basePrompt style active) settings) =
         Rejected e1 \<and>
       tierOutcome svc ai (Suc (calls w)) (flashRequest (finalPrompt basePrompt style active) settings) =
         Rejected e2 \<and> \<not> transientSignature e2 \<longrightarrow>
       generateImage plat svc basePrompt settings style key active w =
         Some (Rejected e2,
               w\<lparr>calls := calls w + 2,
                 trace := trace w @
                   [Requested (proRequest (finalPrompt basePrompt style active) settings),
                    FallbackWarned (message e1),
                    Requested (flashRequest (finalPrompt basePrompt style active) settings)]\<rparr>)) \<and>
      (tierOutcome svc ai (calls w) (proRequest (finalPrompt basePrompt style active) settings) =
         Rejected e1 \<and>
       tierOutcome svc ai (Suc (calls w)) (flashRequest (finalPrompt basePrompt style active) settings) =
         Rejected e2 \<and> transientSignature e2 \<longrightarrow>
       (\<exists>r w' rest. generateImage plat svc basePrompt settings style key active w = Some (r, w') \<and>
          trace w' = trace w @
            [Requested (proRequest (finalPrompt basePrompt style active) settings),
             FallbackWarned (message e1),
             Requested (flashRequest (finalPrompt basePrompt style active) settings),
             RetryWarned 1000 3, Slept 1000,
             Requested (proRequest (finalPrompt basePrompt style active) settings)] @ rest)))"
proof (intro conjI impI)
  assume "getAI key (envApiKey plat) = Inl e0"
  then show "generateImage plat svc basePrompt settings style key active w = Some (Rejected e0, w)"
    by (rule generateImage_no_key)
next
  assume key: "getAI key (envApiKey plat) = Inr ai"
  show "\<exists>r w' es. generateImage plat svc basePrompt settings style key active w = Some (r, w') \<and>
          trace w' = trace w @ es \<and>
          attemptsShape (proRequest (finalPrompt basePrompt style active) settings)
                        (flashRequest (finalPrompt basePrompt style active) settings) es"
    by (rule generateImage_shape [OF key])
next
  let ?fn = "generateImageAttempt plat svc basePrompt settings style key active"
  assume key: "getAI key (envApiKey plat) = Inr ai"
    and "tierOutcome svc ai (calls w) (proRequest (finalPrompt basePrompt style active) settings) =
         Resolved url"
  then have "?fn w = (Resolved url,
               w\<lparr>calls := calls w + 1,
                 trace := trace w @
                   [Requested (proRequest (finalPrompt basePrompt style active) settings)]\<rparr>)"
    by (simp add: generateImageAttempt_eq [OF key] Let_def)
  then show "generateImage plat svc basePrompt settings style key active w =
         Some (Resolved url,
               w\<lparr>calls := calls w + 1,
                 trace := trace w @
                   [Requested (proRequest (finalPrompt basePrompt style active) settings)]\<rparr>)"
    unfolding generateImage_def by (rule withRetry_resolved [of ?fn])
next
  let ?fn = "generateImageAttempt plat svc basePrompt settings style key active"
  assume key: "getAI key (envApiKey plat) = Inr ai"
    and "tierOutcome svc ai (calls w) (proRequest (finalPrompt basePrompt style active) settings) =
         Rejected e1 \<and>
       tierOutcome svc ai (Suc (calls w)) (flashRequest (finalPrompt basePrompt style active) settings) =
         Resolved url"
  then have "?fn w = (Resolved url,
               w\<lparr>calls := calls w + 2,
                 trace := trace w @
                   [Requested (proRequest (finalPrompt basePrompt style active) settings),
                    FallbackWarned (message e1),
                    Requested (flashRequest (finalPrompt basePrompt style active) settings)]\<rparr>)"
    by (simp add: generateImageAttempt_eq [OF key] Let_def)
  then show "generateImage plat svc basePrompt settings style key active w =
         Some (Resolved url,
               w\<lparr>calls := calls w + 2,
                 trace := trace w @
                   [Requested (proRequest (finalPrompt basePrompt style active) settings),
                    FallbackWarned (message e1),
                    Requested (flashRequest (finalPrompt basePrompt style active) settings)]\<rparr>)"
    unfolding generateImage_def by (rule withRetry_resolved [of ?fn])
next
  let ?fn = "generateImageAttempt plat svc basePrompt settings style key active"
  assume key: "getAI key (envApiKey plat) = Inr ai"
    and h: "tierOutcome svc ai (calls w) (proRequest (finalPrompt basePrompt style active) settings) =
         Rejected e1 \<and>
       tierOutcome svc ai (Suc (calls w)) (flashRequest (finalPrompt basePrompt style active) settings) =
         Rejected e2 \<and> \<not> transientSignature e2"
  then have a: "?fn w = (Rejected e2,
               w\<lparr>calls := calls w + 2,
                 trace := trace w @
                   [Requested (proRequest (finalPrompt basePrompt style active) settings),
                    FallbackWarned (message e1),
                    Requested (flashRequest (finalPrompt basePrompt style active) settings)]\<rparr>)"
    by (simp add: generateImageAttempt_eq [OF key] Let_def)
  from h have n: "\<not> isRetryable e2" by (simp add: isRetryable_iff)
  show "generateImage plat svc basePrompt settings style key active w =
         Some (Rejected e2,
               w\<lparr>calls := calls w + 2,
                 trace := trace w @
                   [Requested (proRequest (finalPrompt basePrompt style active) settings),
                    FallbackWarned (message e1),
                    Requested (flashRequest (finalPrompt basePrompt style active) settings)]\<rparr>)"
    unfolding generateImage_def by (rule withRetry_fatal [of ?fn, OF a n])
next
  assume key: "getAI key (envApiKey plat) = Inr ai"
    and h: "tierOutcome svc ai (calls w) (proRequest (finalPrompt basePrompt style active) settings) =
         Rejected e1 \<and>
       tierOutcome svc ai (Suc (calls w)) (flashRequest (finalPrompt basePrompt style active) settings) =
         Rejected e2 \<and> transientSignature e2"
  from h have t: "isRetryable e2" by (simp add: isRetryable_iff)
  from h show "\<exists>r w' rest. generateImage plat svc basePrompt settings style key active w = Some (r, w') \<and>
          trace w' = trace w @
            [Requested (proRequest (finalPrompt basePrompt style active) settings),
             FallbackWarned (message e1),
             Requested (flashRequest (finalPrompt basePrompt style active) settings),
             RetryWarned 1000 3, Slept 1000,
             Requested (proRequest (finalPrompt basePrompt style active) settings)] @ rest"
    using generateImage_retried [OF key _ _ t] by blast
qed

lemma flashBusyOnce_pro: "tierOutcome flashBusyOnce ai n (proRequest prompt settings) =
    Rejected \<lparr>status = Some 500, message = Some ''Internal error''\<rparr>"
  by (simp add: tierOutcome_def flashBusyOnce_def proRequest_def)

lemma flashBusyOnce_flash: "tierOutcome flashBusyOnce ai n (flashRequest prompt settings) =
    (if n = 1 then Rejected \<lparr>status = Some 429, message = Some ''Too Many Requests''\<rparr>
     else Resolved ''data:image/png;base64,AAAA'')"
  by (simp add: tierOutcome_def flashBusyOnce_def flashRequest_def pngAnswer_scan)

lemma too_many_requests_signature:
  "transientSignature \<lparr>status = Some 429, message = Some ''Too Many Requests''\<rparr>"
  by (simp add: transientSignature_def)

theorem retry_wraps_fallback_witness:
  "generateImage examplePlatform proDown ''Lina in the rain'' exampleSettings exampleStyle
       (Some ''k'') [] emptyWorld =
     Some (Resolved ''data:image/png;base64,AAAA'',
      \<lparr>calls = 2,
       trace = [Requested (proRequest (finalPrompt ''Lina in the rain'' exampleStyle []) exampleSettings),
                FallbackWarned (Some ''Internal error''),
                Requested (flashRequest (finalPrompt ''Lina in the rain'' exampleStyle []) exampleSettings)]\<rparr>) \<and>
   (\<exists>r w' rest.
      generateImage examplePlatform flashBusyOnce ''Lina in the rain'' exampleSettings exampleStyle
        (Some ''k'') [] emptyWorld = Some (r, w') \<and>
      trace w' =
        [Requested (proRequest (finalPrompt ''Lina in the rain'' exampleStyle []) exampleSettings),
         FallbackWarned (Some ''Internal error''),
         Requested (flashRequest (finalPrompt ''Lina in the rain'' exampleStyle []) exampleSettings),
         RetryWarned 1000 3, Slept 1000,
         Requested (proRequest (finalPrompt ''Lina in the rain'' exampleStyle []) exampleSettings)] @ rest) \<and>
   generateImage examplePlatform imageReady ''Lina in the rain'' exampleSettings exampleStyle None []
       emptyWorld =
     Some (Rejected (mkError ''Missing API Key. Please add one in Settings.''), emptyWorld) \<and>
   generateImage examplePlatform imageReady ''Lina in the rain'' exampleSettings exampleStyle
        (Some ''k'') [] emptyWorld =
      Some (Resolved ''data:image/png;base64,AAAA'',
       \<lparr>calls = 1,
        trace = [Requested (proRequest (finalPrompt ''Lina in the rain'' exampleStyle []) exampleSettings)]\<rparr>) \<and>
   generateImage examplePlatform onlyFirstAnswered ''Lina in the rain'' exampleSettings exampleStyle
        (Some ''k'') [] \<lparr>calls = 1, trace = []\<rparr> =
      Some (Rejected \<lparr>status = Some 400, message = Some ''Bad request''\<rparr>,
       \<lparr>calls = 3,
        trace = [Requested (proRequest (finalPrompt ''Lina in the rain'' exampleStyle []) exampleSettings),
                 FallbackWarned (Some ''Bad request''),
                 Requested (flashRequest (finalPrompt ''Lina in the rain'' exampleStyle []) exampleSettings)]\<rparr>)"
proof (intro conjI)
  show "generateImage examplePlatform proDown ''Lina in the rain'' exampleSettings exampleStyle
       (Some ''k'') [] emptyWorld =
     Some (Resolved ''data:image/png;base64,AAAA'',
      \<lparr>calls = 2,
       trace = [Requested (proRequest (finalPrompt ''Lina in the rain'' exampleStyle []) exampleSettings),
                FallbackWarned (Some ''Internal error''),
                Requested (flashRequest (finalPrompt ''Lina in the rain'' exampleStyle []) exampleSettings)]\<rparr>)"
    using retry_wraps_fallback [of "Some ''k''" examplePlatform _ proDown "''Lina in the rain''"
        exampleSettings exampleStyle "[]" emptyWorld "''k''" "''data:image/png;base64,AAAA''"
        "\<lparr>status = Some 500, message = Some ''Internal error''\<rparr>"]
    by (simp add: example_key proDown_pro proDown_flash emptyWorld_def)
  show "\<exists>r w' rest.
      generateImage examplePlatform flashBusyOnce ''Lina in the rain'' exampleSettings exampleStyle
        (Some ''k'') [] emptyWorld = Some (r, w') \<and>
      trace w' =
        [Requested (proRequest (finalPrompt ''Lina in the rain'' exampleStyle []) exampleSettings),
         FallbackWarned (Some ''Internal error''),
         Requested (flashRequest (finalPrompt ''Lina in the rain'' exampleStyle []) exampleSettings),
         RetryWarned 1000 3, Slept 1000,
         Requested (proRequest (finalPrompt ''Lina in the rain'' exampleStyle []) exampleSettings)] @ rest"
    using retry_wraps_fallback [of "Some ''k''" examplePlatform _ flashBusyOnce "''Lina in the rain''"
        exampleSettings exampleStyle "[]" emptyWorld "''k''" _
        "\<lparr>status = Some 500, message = Some ''Internal error''\<rparr>"
        "\<lparr>status = Some 429, message = Some ''Too Many Requests''\<rparr>"]
      too_many_requests_signature
    by (simp add: example_key flashBusyOnce_pro flashBusyOnce_flash emptyWorld_def)
  show "generateImage examplePlatform imageReady ''Lina in the rain'' exampleSettings exampleStyle None []
       emptyWorld =
     Some (Rejected (mkError ''Missing API Key. Please add one in Settings.''), emptyWorld)"
    using retry_wraps_fallback [of None examplePlatform
        "mkError ''Missing API Key. Please add one in Settings.''" imageReady "''Lina in the rain''"
        exampleSettings exampleStyle "[]" emptyWorld]
    by (simp add: example_no_key)
  show "generateImage examplePlatform imageReady ''Lina in the rain'' exampleSettings exampleStyle
         (Some ''k'') [] emptyWorld =
       Some (Resolved ''data:image/png;base64,AAAA'',
        \<lparr>calls = 1,
         trace = [Requested (proRequest (finalPrompt ''Lina in the rain'' exampleStyle []) exampleSettings)]\<rparr>)"
    using retry_wraps_fallback [of "Some ''k''" examplePlatform "mkError []" imageReady "''Lina in the rain''"
          exampleSettings exampleStyle "[]" emptyWorld "''k''" "''data:image/png;base64,AAAA''"
          "mkError []" "mkError []"]
    by (simp add: example_key tierOutcome_def imageReady_def pngAnswer_scan emptyWorld_def)
  show "generateImage examplePlatform onlyFirstAnswered ''Lina in the rain'' exampleSettings exampleStyle
         (Some ''k'') [] \<lparr>calls = 1, trace = []\<rparr> =
       Some (Rejected \<lparr>status = Some 400, message = Some ''Bad request''\<rparr>,
        \<lparr>calls = 3,
         trace = [Requested (proRequest (finalPrompt ''Lina in the rain'' exampleStyle []) exampleSettings),
                  FallbackWarned (Some ''Bad request''),
                  Requested (flashRequest (finalPrompt ''Lina in the rain'' exampleStyle []) exampleSettings)]\<rparr>)"
    using retry_wraps_fallback [of "Some ''k''" examplePlatform "mkError []" onlyFirstAnswered "''Lina in the rain''"
          exampleSettings exampleStyle "[]" "\<lparr>calls = 1, trace = []\<rparr>" "''k''" "''data:image/png;base64,AAAA''"
          "\<lparr>status = Some 400, message = Some ''Bad request''\<rparr>"
          "\<lparr>status = Some 400, message = Some ''Bad request''\<rparr>"]
      bad_request_no_signature
    by (simp add: example_key tierOutcome_def onlyFirstAnswered_def)
qed

text \<open>
  C5 as stated fails: the retry wrapper is outside the tier fallback. With a first tier
  that is down and a second tier that is rate-limited once, the first attempt spans
  both tiers, and after the wait the retry starts again at the first tier.
\<close>

theorem retry_wraps_fallback_counterexample:
  "generateImage examplePlatform flashBusyOnce ''Lina in the rain'' exampleSettings exampleStyle
       (Some ''k'') [] emptyWorld =
     Some (Resolved ''data:image/png;base64,AAAA'',
      \<lparr>calls = 4,
       trace = [Requested (proRequest (finalPrompt ''Lina in the rain'' exampleStyle []) exampleSettings),
                FallbackWarned (Some ''Internal error''),
                Requested (flashRequest (finalPrompt ''Lina in the rain'' exampleStyle []) exampleSettings),
                RetryWarned 1000 3, Slept 1000,
                Requested (proRequest (finalPrompt ''Lina in the rain'' exampleStyle []) exampleSettings),
                FallbackWarned (Some ''Internal error''),
                Requested (flashRequest (finalPrompt ''Lina in the rain'' exampleStyle []) exampleSettings)]\<rparr>)"
proof -
  let ?fn = "generateImageAttempt examplePlatform flashBusyOnce ''Lina in the rain'' exampleSettings
               exampleStyle (Some ''k'') []"
  let ?p = "Requested (proRequest (finalPrompt ''Lina in the rain'' exampleStyle []) exampleSettings)"
  let ?f = "Requested (flashRequest (finalPrompt ''Lina in the rain'' exampleStyle []) exampleSettings)"
  let ?w1 = "\<lparr>calls = 2, trace = [?p, FallbackWarned (Some ''Internal error''), ?f]\<rparr>"
  let ?w2 = "\<lparr>calls = 2, trace = [?p, FallbackWarned (Some ''Internal error''), ?f,
                                   RetryWarned 1000 3, Slept 1000]\<rparr>"
  let ?w3 = "\<lparr>calls = 4, trace = [?p, FallbackWarned (Some ''Internal error''), ?f,
                                   RetryWarned 1000 3, Slept 1000,
                                   ?p, FallbackWarned (Some ''Internal error''), ?f]\<rparr>"
  have a1: "?fn emptyWorld = (Rejected \<lparr>status = Some 429, message = Some ''Too Many Requests''\<rparr>, ?w1)"
    by (simp add: generateImageAttempt_eq [OF example_key] Let_def flashBusyOnce_pro
        flashBusyOnce_flash emptyWorld_def)
  have r: "isRetryable \<lparr>status = Some 429, message = Some ''Too Many Requests''\<rparr>"
    by (simp add: isRetryable_def)
  have e: "emit [RetryWarned 1000 3, Slept 1000] ?w1 = ?w2" by (simp add: emit_def)
  have a2: "?fn ?w2 = (Resolved ''data:image/png;base64,AAAA'', ?w3)"
    by (simp add: generateImageAttempt_eq [OF example_key] Let_def flashBusyOnce_pro
        flashBusyOnce_flash)
  have "callWithRetry ?fn 3 1000 emptyWorld = callWithRetry ?fn (3 - 1) (1000 * 2) ?w2"
    using callWithRetry_again [of ?fn, OF a1 r, of 3 1000] by (simp only: e)
  also have "\<dots> = Some (Resolved ''data:image/png;base64,AAAA'', ?w3)"
    by (rule callWithRetry_resolved [of ?fn, OF a2])
  finally show ?thesis by (simp add: generateImage_def withRetry_def)
qed

section \<open>Properties of the prompt builder\<close>







section \<open>Properties of the script job\<close>

lemma no_text_not_retryable: "\<not> isRetryable (mkError ''No text returned from Gemini.'')"
  by (simp add: isRetryable_def mkError_def startsWith_def)

lemma generateStoryAttempt_eq:
  assumes "getAI key (envApiKey plat) = Inr ai"
  shows "generateStoryAttempt plat svc cfg voice style key w =
     ((case svc ai (calls w) (scriptRequest cfg style) of
         Rejected e \<Rightarrow> Rejected e
       | Resolved responseText \<Rightarrow>
           if truthy responseText
           then (case jsonParse plat (interpolate responseText) of
                   Inl e \<Rightarrow> Rejected e | Inr story \<Rightarrow> Resolved story)
           else Rejected (mkError ''No text returned from Gemini.'')),
      w\<lparr>calls := Suc (calls w),
        trace := trace w @ [Requested (scriptRequest cfg style)]\<rparr>)"
  using assms
  by (simp add: generateStoryAttempt_def send_def truthy_def interpolate_def
      split: outcome.split option.split sum.split)

lemma ends_with_refl: "\<exists>pre. t = pre @ t"
  by (rule exI [of _ "[]"]) simp

lemma ends_with_step: "\<exists>pre. s = pre @ t \<Longrightarrow> \<exists>pre. a @ s = pre @ t"
  by (metis append_assoc)

lemma storyPrompt_count:
  "\<exists>pre. storyPrompt cfg style =
     pre @ ''        Generate exactly '' @ showNumber (sceneCount cfg) @ '' scenes.'' @ NL @ ''      ''"
  unfolding storyPrompt_def by (rule ends_with_refl | rule ends_with_step)+

lemma generateStory_no_key:
  assumes "getAI key (envApiKey plat) = Inl e"
  shows "generateStory plat svc cfg voice style key w = Some (Rejected e, w)"
proof -
  have n: "\<not> isRetryable e" using getAI_error [OF assms] missing_key_not_retryable by simp
  have a: "generateStoryAttempt plat svc cfg voice style key w = (Rejected e, w)"
    using assms by (simp add: generateStoryAttempt_def)
  show ?thesis
    unfolding generateStory_def
    by (rule withRetry_fatal [of "generateStoryAttempt plat svc cfg voice style key", OF a n])
qed

text \<open>
  C9, as amended. With no API key \<open>generateStory\<close> fails with the configuration
  error. With a key: when the answer to the script request has a text that parses,
  \<open>generateStory\<close> returns the parsed story as it is, after the one request; when the
  answer has no text, it fails. Every story it returns is the parse of the text of an
  answer of the service. The request carries the prompt, which ends by asking for
  exactly \<open>sceneCount\<close> scenes, and the response schema, which requires the five
  fields of a scene; nothing checks the answer against either.
\<close>

theorem generateStory_returns_parse:
  "(getAI key (envApiKey plat) = Inl e0 \<longrightarrow>
      generateStory plat svc cfg voice style key w = Some (Rejected e0, w)) \<and>
   (getAI key (envApiKey plat) = Inr ai \<longrightarrow>
      (svc ai (calls w) (scriptRequest cfg style) = Resolved (Some t) \<and> t \<noteq> [] \<and>
       jsonParse plat t = Inr story \<longrightarrow>
         generateStory plat svc cfg voice style key w =
           Some (Resolved story,
                 w\<lparr>calls := Suc (calls w),
                   trace := trace w @ [Requested (scriptRequest cfg style)]\<rparr>)) \<and>
      (svc ai (calls w) (scriptRequest cfg style) = Resolved txt \<and> \<not> truthy txt \<longrightarrow>
         generateStory plat svc cfg voice style key w =
           Some (Rejected (mkError ''No text returned from Gemini.''),
                 w\<lparr>calls := Suc (calls w),
                   trace := trace w @ [Requested (scriptRequest cfg style)]\<rparr>)) \<and>
      (generateStory plat svc cfg voice style key w = Some (Resolved story', w') \<longrightarrow>
         (\<exists>n t'. svc ai n (scriptRequest cfg style) = Resolved (Some t') \<and> t' \<noteq> [] \<and>
                 jsonParse plat t' = Inr story'))) \<and>
   scriptRequest cfg style =
     ScriptRequest ''gemini-3-flash-preview'' (storyPrompt cfg style) (dialectSystemInstruction cfg)
       ''application/json'' outputSchema \<and>
   (\<exists>pre. storyPrompt cfg style =
      pre @ ''        Generate exactly '' @ showNumber (sceneCount cfg) @ '' scenes.'' @ NL @ ''      '') \<and>
   map_option requiredOf (Option.bind (propertyOf ''scenes'' outputSchema) itemsOf) =
     Some [''sceneNumber'', ''narrative'', ''imagePrompt'', ''motionPrompt'', ''characterNames'']"
proof (intro conjI impI)
  let ?fn = "generateStoryAttempt plat svc cfg voice style key"
  let ?w1 = "w\<lparr>calls := Suc (calls w), trace := trace w @ [Requested (scriptRequest cfg style)]\<rparr>"
  {
    assume "getAI key (envApiKey plat) = Inl e0"
    then show "generateStory plat svc cfg voice style key w = Some (Rejected e0, w)"
      by (rule generateStory_no_key)
  }
  {
    assume key: "getAI key (envApiKey plat) = Inr ai"
      and "svc ai (calls w) (scriptRequest cfg style) = Resolved (Some t) \<and> t \<noteq> [] \<and>
          jsonParse plat t = Inr story"
    then have "?fn w = (Resolved story, ?w1)"
      by (simp add: generateStoryAttempt_eq [OF key] truthy_def interpolate_def)
    then show "generateStory plat svc cfg voice style key w = Some (Resolved story, ?w1)"
      unfolding generateStory_def by (rule withRetry_resolved [of ?fn])
  }
  {
    assume key: "getAI key (envApiKey plat) = Inr ai"
      and "svc ai (calls w) (scriptRequest cfg style) = Resolved txt \<and> \<not> truthy txt"
    then have "?fn w = (Rejected (mkError ''No text returned from Gemini.''), ?w1)"
      by (simp add: generateStoryAttempt_eq [OF key])
    then show "generateStory plat svc cfg voice style key w =
        Some (Rejected (mkError ''No text returned from Gemini.''), ?w1)"
      unfolding generateStory_def by (rule withRetry_fatal [of ?fn, OF _ no_text_not_retryable])
  }
  {
    assume key: "getAI key (envApiKey plat) = Inr ai"
      and "generateStory plat svc cfg voice style key w = Some (Resolved story', w')"
    then obtain w0 where "?fn w0 = (Resolved story', w')"
      unfolding generateStory_def by (blast dest: withRetry_last)
    then show "\<exists>n t'. svc ai n (scriptRequest cfg style) = Resolved (Some t') \<and> t' \<noteq> [] \<and>
                    jsonParse plat t' = Inr story'"
      by (auto simp add: generateStoryAttempt_eq [OF key] truthy_def interpolate_def
          split: outcome.splits option.splits sum.splits if_splits)
  }
  show "scriptRequest cfg style =
     ScriptRequest ''gemini-3-flash-preview'' (storyPrompt cfg style) (dialectSystemInstruction cfg)
       ''application/json'' outputSchema"
    by (simp add: scriptRequest_def)
  show "\<exists>pre. storyPrompt cfg style =
            pre @ ''        Generate exactly '' @ showNumber (sceneCount cfg) @ '' scenes.'' @ NL @ ''      ''"
    by (rule storyPrompt_count)
  show "map_option requiredOf (Option.bind (propertyOf ''scenes'' outputSchema) itemsOf) =
     Some [''sceneNumber'', ''narrative'', ''imagePrompt'', ''motionPrompt'', ''characterNames'']"
    by (simp add: outputSchema_def)
qed

lemma exampleStoryText_nonempty: "exampleStoryText \<noteq> []"
  by (simp add: exampleStoryText_def)

lemma example_parse: "jsonParse examplePlatform exampleStoryText = Inr exampleStory"
  by (simp add: examplePlatform_def)

theorem generateStory_returns_parse_witness:
  "generateStory examplePlatform oneSceneScript exampleConfig exampleVoice exampleStyle (Some ''k'')
       emptyWorld =
     Some (Resolved exampleStory,
           \<lparr>calls = 1, trace = [Requested (scriptRequest exampleConfig exampleStyle)]\<rparr>) \<and>
   generateStory examplePlatform oneSceneScript exampleConfig exampleVoice exampleStyle None
       emptyWorld =
     Some (Rejected (mkError ''Missing API Key. Please add one in Settings.''), emptyWorld) \<and>
   generateStory examplePlatform noTextScript exampleConfig exampleVoice exampleStyle (Some ''k'')
        emptyWorld =
      Some (Rejected (mkError ''No text returned from Gemini.''),
            \<lparr>calls = 1, trace = [Requested (scriptRequest exampleConfig exampleStyle)]\<rparr>)"
proof (intro conjI)
  show "generateStory examplePlatform oneSceneScript exampleConfig exampleVoice exampleStyle (Some ''k'')
       emptyWorld =
     Some (Resolved exampleStory,
           \<lparr>calls = 1, trace = [Requested (scriptRequest exampleConfig exampleStyle)]\<rparr>)"
    using generateStory_returns_parse [of "Some ''k''" examplePlatform "mkError []" oneSceneScript
        exampleConfig exampleVoice exampleStyle emptyWorld "''k''" exampleStoryText exampleStory
        "Some exampleStoryText" exampleStory emptyWorld]
    by (simp add: example_key oneSceneScript_def example_parse exampleStoryText_nonempty
        emptyWorld_def)
  show "generateStory examplePlatform oneSceneScript exampleConfig exampleVoice exampleStyle None
       emptyWorld =
     Some (Rejected (mkError ''Missing API Key. Please add one in Settings.''), emptyWorld)"
    using generateStory_returns_parse [of None examplePlatform
        "mkError ''Missing API Key. Please add one in Settings.''" oneSceneScript exampleConfig
        exampleVoice exampleStyle emptyWorld "''k''" exampleStoryText exampleStory
        "Some exampleStoryText" exampleStory emptyWorld]
    by (simp add: example_no_key)
  show "generateStory examplePlatform noTextScript exampleConfig exampleVoice exampleStyle (Some ''k'')
         emptyWorld =
       Some (Rejected (mkError ''No text returned from Gemini.''),
             \<lparr>calls = 1, trace = [Requested (scriptRequest exampleConfig exampleStyle)]\<rparr>)"
    using generateStory_returns_parse [of "Some ''k''" examplePlatform "mkError []" noTextScript
          exampleConfig exampleVoice exampleStyle emptyWorld "''k''" exampleStoryText exampleStory
          None exampleStory emptyWorld]
    by (simp add: example_key noTextScript_def truthy_def emptyWorld_def)
qed

text \<open>
  C9 as stated fails: asked for three scenes, the service answers with the text of a
  story of one scene, numbered 7, with an empty narrative and no character names, and
  that story is returned as the script.
\<close>

lemma sparse_key: "getAI (Some ''k'') (envApiKey sparsePlatform) = Inr ''k''"
  by (simp add: getAI_def truthy_def)

lemma sparseStoryText_nonempty: "sparseStoryText \<noteq> []"
  by (simp add: sparseStoryText_def)

theorem generateStory_unchecked_counterexample:
  "generateStory sparsePlatform sparseScript exampleConfig exampleVoice exampleStyle (Some ''k'')
       emptyWorld =
     Some (Resolved sparseStory,
           \<lparr>calls = 1, trace = [Requested (scriptRequest exampleConfig exampleStyle)]\<rparr>) \<and>
   sceneCount exampleConfig = 3 \<and> length (scenes sparseStory) = 1 \<and>
   map sceneNumber (scenes sparseStory) = [7] \<and>
   map narrative (scenes sparseStory) = [[]] \<and>
   map characterNames (scenes sparseStory) = [None] \<and>
   \<not> validScript exampleConfig sparseStory"
proof -
  let ?fn = "generateStoryAttempt sparsePlatform sparseScript exampleConfig exampleVoice exampleStyle
               (Some ''k'')"
  have "?fn emptyWorld = (Resolved sparseStory,
           \<lparr>calls = 1, trace = [Requested (scriptRequest exampleConfig exampleStyle)]\<rparr>)"
    by (simp add: generateStoryAttempt_eq [OF sparse_key] sparseScript_def truthy_def
        interpolate_def sparseStoryText_nonempty emptyWorld_def)
       (simp add: sparsePlatform_def)
  then have a: "generateStory sparsePlatform sparseScript exampleConfig exampleVoice exampleStyle
      (Some ''k'') emptyWorld =
     Some (Resolved sparseStory,
           \<lparr>calls = 1, trace = [Requested (scriptRequest exampleConfig exampleStyle)]\<rparr>)"
    unfolding generateStory_def by (rule withRetry_resolved [of ?fn])
  have b: "sceneCount exampleConfig = 3" by (simp add: exampleConfig_def)
  have c: "length (scenes sparseStory) = 1" by (simp add: sparseStory_def)
  have d: "map sceneNumber (scenes sparseStory) = [7]" by (simp add: sparseStory_def)
  have e: "map narrative (scenes sparseStory) = [[]]" by (simp add: sparseStory_def)
  have f: "map characterNames (scenes sparseStory) = [None]" by (simp add: sparseStory_def)
  have g: "\<not> validScript exampleConfig sparseStory" by (simp add: validScript_def b c)
  show ?thesis by (intro conjI a b c d e f g)
qed

section \<open>Properties of the handlers\<close>

lemma callWithRetry_step:
  "fn w = (r0, w1) \<Longrightarrow> callWithRetry fn retries d w = Some (r, w') \<Longrightarrow>
   (r, w') = (r0, w1) \<or>
   (\<exists>err. r0 = Rejected err \<and> retries \<noteq> 0 \<and> isRetryable err \<and>
      callWithRetry fn (retries - 1) (d * 2) (emit [RetryWarned d retries, Slept d] w1) = Some (r, w'))"
  by (subst (asm) callWithRetry.simps) (simp split: outcome.splits if_splits)

lemma callWithRetry_events:
  assumes fn: "\<And>w r w1. fn w = (r, w1) \<Longrightarrow> \<exists>es. trace w1 = trace w @ es \<and> (\<forall>e\<in>set es. \<not> handlerEvent e)"
  shows "callWithRetry fn (int n) d w = Some (r, w') \<Longrightarrow>
         \<exists>es. trace w' = trace w @ es \<and> (\<forall>e\<in>set es. \<not> handlerEvent e)"
proof (induction n arbitrary: d w)
  case 0
  obtain r0 w1 where f: "fn w = (r0, w1)" by (cases "fn w")
  from callWithRetry_step [OF f "0.prems"] have "(r, w') = (r0, w1)" by simp
  then have "fn w = (r, w')" using f by simp
  then show ?case by (rule fn)
next
  case (Suc n)
  obtain r0 w1 where f: "fn w = (r0, w1)" by (cases "fn w")
  from fn [OF f] obtain es where es: "trace w1 = trace w @ es" "\<forall>e\<in>set es. \<not> handlerEvent e"
    by blast
  from callWithRetry_step [OF f Suc.prems]
  show ?case
  proof
    assume "(r, w') = (r0, w1)"
    then have "fn w = (r, w')" using f by simp
    then show ?thesis by (rule fn)
  next
    let ?w2 = "emit [RetryWarned d (int (Suc n)), Slept d] w1"
    assume "\<exists>err. r0 = Rejected err \<and> int (Suc n) \<noteq> 0 \<and> isRetryable err \<and>
      callWithRetry fn (int (Suc n) - 1) (d * 2) ?w2 = Some (r, w')"
    then have "callWithRetry fn (int (Suc n) - 1) (d * 2) ?w2 = Some (r, w')" by blast
    moreover have "int (Suc n) - 1 = int n" by simp
    ultimately have "callWithRetry fn (int n) (d * 2) ?w2 = Some (r, w')" by (simp only:)
    from Suc.IH [OF this] obtain es' where
      es': "trace w' = trace ?w2 @ es'" "\<forall>e\<in>set es'. \<not> handlerEvent e" by blast
    have "trace w' = trace w @ (es @ [RetryWarned d (int (Suc n)), Slept d] @ es')"
      using es'(1) es(1) by (simp add: emit_def)
    moreover have "\<forall>e\<in>set (es @ [RetryWarned d (int (Suc n)), Slept d] @ es'). \<not> handlerEvent e"
      using es(2) es'(2) by auto
    ultimately show ?thesis by blast
  qed
qed

lemma withRetry_events:
  assumes "\<And>w r w1. fn w = (r, w1) \<Longrightarrow> \<exists>es. trace w1 = trace w @ es \<and> (\<forall>e\<in>set es. \<not> handlerEvent e)"
    and "withRetry fn w = Some (r, w')"
  shows "\<exists>es. trace w' = trace w @ es \<and> (\<forall>e\<in>set es. \<not> handlerEvent e)"
proof -
  have "callWithRetry fn (int 3) 1000 w = callWithRetry fn 3 1000 w" by simp
  with assms(2) have c: "callWithRetry fn (int 3) 1000 w = Some (r, w')" by (simp only: withRetry_def)
  show ?thesis by (rule callWithRetry_events [of fn 3 1000 w r w', OF assms(1) c])
qed

lemma generateSpeechAttempt_events:
  "generateSpeechAttempt plat svc txt vt key w = (r, w1) \<Longrightarrow>
   \<exists>es. trace w1 = trace w @ es \<and> (\<forall>e\<in>set es. \<not> handlerEvent e)"
proof -
  assume a: "generateSpeechAttempt plat svc txt vt key w = (r, w1)"
  have "snd (generateSpeechAttempt plat svc txt vt key w) = w \<or>
        snd (generateSpeechAttempt plat svc txt vt key w) =
          w\<lparr>calls := Suc (calls w),
            trace := trace w @ [Requested (SpeechRequest ''gemini-2.5-flash-preview-tts'' txt (voiceNameOf vt))]\<rparr>"
    by (simp add: generateSpeechAttempt_def send_def
        split: sum.split outcome.split option.split)
  with a have "w1 = w \<or> w1 = w\<lparr>calls := Suc (calls w),
            trace := trace w @ [Requested (SpeechRequest ''gemini-2.5-flash-preview-tts'' txt (voiceNameOf vt))]\<rparr>"
    by simp
  then show ?thesis
  proof
    assume "w1 = w"
    then have "trace w1 = trace w @ []" by simp
    then show ?thesis by (metis empty_iff empty_set)
  next
    assume "w1 = w\<lparr>calls := Suc (calls w),
            trace := trace w @ [Requested (SpeechRequest ''gemini-2.5-flash-preview-tts'' txt (voiceNameOf vt))]\<rparr>"
    then have "trace w1 = trace w @ [Requested (SpeechRequest ''gemini-2.5-flash-preview-tts'' txt (voiceNameOf vt))]"
      by simp
    moreover have "\<forall>e\<in>set [Requested (SpeechRequest ''gemini-2.5-flash-preview-tts'' txt (voiceNameOf vt))].
                     \<not> handlerEvent e" by simp
    ultimately show ?thesis by blast
  qed
qed

lemma generateSpeech_events:
  "generateSpeech plat svc txt vt key w = Some (r, w') \<Longrightarrow>
   \<exists>es. trace w' = trace w @ es \<and> (\<forall>e\<in>set es. \<not> handlerEvent e)"
  unfolding generateSpeech_def
  by (rule withRetry_events [of "generateSpeechAttempt plat svc txt vt key"])
     (rule generateSpeechAttempt_events)

lemma generateImageAttempt_events:
  "generateImageAttempt plat svc basePrompt settings style key active w = (r, w1) \<Longrightarrow>
   \<exists>es. trace w1 = trace w @ es \<and> (\<forall>e\<in>set es. \<not> handlerEvent e)"
proof (cases "getAI key (envApiKey plat)")
  case (Inl e)
  assume "generateImageAttempt plat svc basePrompt settings style key active w = (r, w1)"
  with Inl have "trace w1 = trace w @ []" by (simp add: generateImageAttempt_def)
  then show ?thesis by (metis empty_iff empty_set)
next
  case (Inr ai)
  assume a: "generateImageAttempt plat svc basePrompt settings style key active w = (r, w1)"
  let ?p = "Requested (proRequest (finalPrompt basePrompt style active) settings)"
  let ?f = "Requested (flashRequest (finalPrompt basePrompt style active) settings)"
  show ?thesis
  proof (cases "tierOutcome svc ai (calls w) (proRequest (finalPrompt basePrompt style active) settings)")
    case (Resolved url)
    with a have "trace w1 = trace w @ [?p]"
      by (simp add: generateImageAttempt_eq [OF Inr] Let_def) auto
    moreover have "\<forall>e\<in>set [?p]. \<not> handlerEvent e" by simp
    ultimately show ?thesis by blast
  next
    case (Rejected e1)
    with a have "trace w1 = trace w @ [?p, FallbackWarned (message e1), ?f]"
      by (simp add: generateImageAttempt_eq [OF Inr] Let_def) auto
    moreover have "\<forall>e\<in>set [?p, FallbackWarned (message e1), ?f]. \<not> handlerEvent e" by simp
    ultimately show ?thesis by blast
  qed
qed

lemma generateImage_events:
  "generateImage plat svc basePrompt settings style key active w = Some (r, w') \<Longrightarrow>
   \<exists>es. trace w' = trace w @ es \<and> (\<forall>e\<in>set es. \<not> handlerEvent e)"
  unfolding generateImage_def
  by (rule withRetry_events [of "generateImageAttempt plat svc basePrompt settings style key active"])
     (rule generateImageAttempt_events)

lemma generateSpeech_settles:
  "\<exists>r w'. generateSpeech plat svc txt vt key w = Some (r, w')"
  unfolding generateSpeech_def by (rule withRetry_settles)

lemma generateImage_settles:
  "\<exists>r w'. generateImage plat svc basePrompt settings style key active w = Some (r, w')"
  unfolding generateImage_def by (rule withRetry_settles)

lemma generateSpeech_rejected:
  assumes "getAI key (envApiKey plat) = Inr ai"
    and "svc ai (calls w) (SpeechRequest ''gemini-2.5-flash-preview-tts'' txt (voiceNameOf vt)) = Rejected e"
    and "\<not> isRetryable e"
  shows "generateSpeech plat svc txt vt key w =
           Some (Rejected e,
                 w\<lparr>calls := Suc (calls w),
                   trace := trace w @ [Requested (SpeechRequest ''gemini-2.5-flash-preview-tts'' txt
                                                     (voiceNameOf vt))]\<rparr>)"
proof -
  let ?fn = "generateSpeechAttempt plat svc txt vt key"
  have "?fn w = (Rejected e, w\<lparr>calls := Suc (calls w),
                   trace := trace w @ [Requested (SpeechRequest ''gemini-2.5-flash-preview-tts'' txt
                                                     (voiceNameOf vt))]\<rparr>)"
    using assms(1,2) by (simp add: generateSpeechAttempt_def send_def)
  then show ?thesis
    unfolding generateSpeech_def by (rule withRetry_fatal [of ?fn, OF _ assms(3)])
qed

lemma example_atob4: "atob examplePlatform ''AQIDBA=='' = Inr [CHR 0x01, CHR 0x02, CHR 0x03, CHR 0x04]"
  by (simp add: examplePlatform_def)

lemma example_btoa4:
  "btoa examplePlatform (fromCharCodes (headerBytes 24000 4 @ [1, 2, 3, 4])) = wavBase64"
  by (simp add: examplePlatform_def)

lemma bad_request_not_retryable:
  "\<not> isRetryable \<lparr>status = Some 400, message = Some ''Bad request''\<rparr>"
  by (simp add: isRetryable_def startsWith_def)

lemma speech_he_waits:
  "generateSpeech examplePlatform firstSceneFails ''He waits.'' ''woman'' (Some ''k'') wj =
     Some (Rejected \<lparr>status = Some 400, message = Some ''Bad request''\<rparr>,
           wj\<lparr>calls := Suc (calls wj),
              trace := trace wj @ [Requested (SpeechRequest ''gemini-2.5-flash-preview-tts'' ''He waits.''
                                                 (voiceNameOf ''woman''))]\<rparr>)"
  by (rule generateSpeech_rejected [OF example_key _ bad_request_not_retryable])
     (simp add: firstSceneFails_def)

lemma speech_four_bytes:
  assumes "svc ''k'' (calls wj) (SpeechRequest ''gemini-2.5-flash-preview-tts'' txt (voiceNameOf ''woman'')) =
             Resolved (Some ''AQIDBA=='')"
  shows "generateSpeech examplePlatform svc txt ''woman'' (Some ''k'') wj =
     Some (Resolved wavBase64,
           wj\<lparr>calls := Suc (calls wj),
              trace := trace wj @ [Requested (SpeechRequest ''gemini-2.5-flash-preview-tts'' txt
                                                 (voiceNameOf ''woman''))]\<rparr>)"
  using generateSpeech_eq [of "Some ''k''" examplePlatform "''k''" svc wj "txt" "''woman''" "''AQIDBA==''"
          "[CHR 0x01, CHR 0x02, CHR 0x03, CHR 0x04]"] example_key assms example_atob4 example_btoa4
  by simp

lemma exampleState_output:
  "projectOutput (project exampleState) =
     Some \<lparr>title = ''T'', summary = ''S'', scenes = [vossScene, linaScene]\<rparr>"
  by (simp add: exampleState_def exampleProject_def)

subsection \<open>The batch handlers\<close>

lemma sceneList_updateScene:
  "sceneList (project (updateScene i f st)) =
     (sceneList (project st))[i := f (sceneList (project st) ! i)]"
  by (cases "projectOutput (project st)") (simp_all add: updateScene_def sceneList_def)

lemma projectOutput_same: "x = projectOutput p \<Longrightarrow> p\<lparr>projectOutput := x\<rparr> = p"
  by simp

lemma project_same: "x = project st \<Longrightarrow> st\<lparr>project := x\<rparr> = st"
  by simp

lemma updateScene_rejected:
  "updateScene i (withAudio (Rejected e)) st = st" "updateScene i (withImage (Rejected e)) st = st"
proof -
  have a: "map_option (\<lambda>out. out\<lparr>scenes := (scenes out)[i := withAudio (Rejected e) (scenes out ! i)]\<rparr>)
             (projectOutput (project st)) = projectOutput (project st)"
    by (cases "projectOutput (project st)") simp_all
  have b: "map_option (\<lambda>out. out\<lparr>scenes := (scenes out)[i := withImage (Rejected e) (scenes out ! i)]\<rparr>)
             (projectOutput (project st)) = projectOutput (project st)"
    by (cases "projectOutput (project st)") simp_all
  show "updateScene i (withAudio (Rejected e)) st = st"
    unfolding updateScene_def a by (rule project_same) (rule projectOutput_same, rule refl)
  show "updateScene i (withImage (Rejected e)) st = st"
    unfolding updateScene_def b by (rule project_same) (rule projectOutput_same, rule refl)
qed

lemma batch_chain:
  fixes L :: "nat \<Rightarrow> app_state \<Rightarrow> world \<Rightarrow> (app_state \<times> world) run"
  assumes stop: "\<And>st w. L n st w = Done (st, w)"
    and step: "\<And>i st w. i < n \<Longrightarrow> Inv st \<Longrightarrow>
       \<exists>r w2. J i w r w2 \<and> Inv (nxt i r st) \<and>
              L i st w = L (Suc i) (nxt i r st) (emit [settled i r] w2)"
  shows "i \<le> n \<Longrightarrow> Inv st \<Longrightarrow>
         \<exists>outs ws sts. ws i = w \<and> sts i = st \<and>
           (\<forall>j. i \<le> j \<and> j < n \<longrightarrow>
              (\<exists>w2. J j (ws j) (outs j) w2 \<and> ws (Suc j) = emit [settled j (outs j)] w2) \<and>
              sts (Suc j) = nxt j (outs j) (sts j)) \<and>
           L i st w = Done (sts n, ws n)"
proof (induction "n - i" arbitrary: i st w)
  case 0
  then have i: "i = n" by simp
  show ?case
    apply (rule exI [of _ "\<lambda>j. Resolved []"], rule exI [of _ "\<lambda>j. w"], rule exI [of _ "\<lambda>j. st"])
    using stop by (auto simp add: i)
next
  case (Suc k)
  then have i: "i < n" by simp
  from step [OF i Suc.prems(2), of w] obtain r w2 where
    s: "J i w r w2" "Inv (nxt i r st)"
       "L i st w = L (Suc i) (nxt i r st) (emit [settled i r] w2)"
    by blast
  have k: "k = n - Suc i" using Suc.hyps(2) by simp
  have le: "Suc i \<le> n" using i by simp
  from Suc.hyps(1) [OF k le s(2), of "emit [settled i r] w2"] obtain outs ws sts where
    ih: "ws (Suc i) = emit [settled i r] w2" "sts (Suc i) = nxt i r st"
        "\<forall>j. Suc i \<le> j \<and> j < n \<longrightarrow>
              (\<exists>w2. J j (ws j) (outs j) w2 \<and> ws (Suc j) = emit [settled j (outs j)] w2) \<and>
              sts (Suc j) = nxt j (outs j) (sts j)"
        "L (Suc i) (nxt i r st) (emit [settled i r] w2) = Done (sts n, ws n)"
    by blast
  let ?outs = "outs(i := r)" and ?ws = "ws(i := w)" and ?sts = "sts(i := st)"
  have chain: "\<forall>j. i \<le> j \<and> j < n \<longrightarrow>
              (\<exists>w2. J j (?ws j) (?outs j) w2 \<and> ?ws (Suc j) = emit [settled j (?outs j)] w2) \<and>
              ?sts (Suc j) = nxt j (?outs j) (?sts j)"
  proof (intro allI impI)
    fix j assume j: "i \<le> j \<and> j < n"
    show "(\<exists>w2. J j (?ws j) (?outs j) w2 \<and> ?ws (Suc j) = emit [settled j (?outs j)] w2) \<and>
          ?sts (Suc j) = nxt j (?outs j) (?sts j)"
    proof (cases "j = i")
      case True
      then show ?thesis using s(1) ih(1,2) by auto
    next
      case False
      with j have "Suc i \<le> j \<and> j < n" by simp
      with ih(3) have "(\<exists>w2. J j (ws j) (outs j) w2 \<and> ws (Suc j) = emit [settled j (outs j)] w2) \<and>
              sts (Suc j) = nxt j (outs j) (sts j)" by blast
      moreover have "Suc j \<noteq> i" using j by simp
      ultimately show ?thesis using False by simp
    qed
  qed
  have fin: "L i st w = Done (?sts n, ?ws n)" using s(3) ih(4) i by simp
  show ?case
    apply (rule exI [of _ ?outs], rule exI [of _ ?ws], rule exI [of _ ?sts])
    using chain fin by simp
qed

lemma slots_chain:
  fixes g :: "Scene \<Rightarrow> 'a"
  assumes chain: "\<forall>j<n. sts (Suc j) = updateScene j (f (outs j)) (during j (pre j (sts j)))"
    and pre: "\<And>j s. project (pre j s) = project s"
    and keep: "\<And>j s. map g (sceneList (project (during j s))) = map g (sceneList (project s))"
    and f: "\<And>r x y. g x = g y \<Longrightarrow> g (f r x) = g (f r y)"
    and start: "sceneList (project (sts 0)) = xs" and n: "length xs = n"
  shows "map g (sceneList (project (sts n))) = map (\<lambda>j. g (f (outs j) (xs ! j))) [0 ..< n]"
proof -
  have "m \<le> n \<Longrightarrow> map g (sceneList (project (sts m))) =
          map (\<lambda>j. if j < m then g (f (outs j) (xs ! j)) else g (xs ! j)) [0 ..< n]" for m
  proof (induction m)
    case 0
    have "map g xs = map (\<lambda>j. g (xs ! j)) [0 ..< n]"
      using n by (intro nth_equalityI) simp_all
    then show ?case unfolding start by simp
  next
    case (Suc m)
    then have m: "m < n" and ih: "map g (sceneList (project (sts m))) =
          map (\<lambda>j. if j < m then g (f (outs j) (xs ! j)) else g (xs ! j)) [0 ..< n]" by simp_all
    let ?s = "during m (pre m (sts m))"
    let ?h = "\<lambda>j. if j < m then g (f (outs j) (xs ! j)) else g (xs ! j)"
    have k: "map g (sceneList (project ?s)) = map ?h [0 ..< n]"
      using keep [of m "pre m (sts m)"] pre [of m "sts m"] ih by simp
    have len: "length (sceneList (project ?s)) = n"
      using arg_cong [OF k, of length] by simp
    have "map g (sceneList (project ?s)) ! m = g (xs ! m)"
      unfolding k using m by simp
    then have gm: "g (sceneList (project ?s) ! m) = g (xs ! m)"
      using len m by simp
    have "sceneList (project (sts (Suc m))) =
            (sceneList (project ?s))[m := f (outs m) (sceneList (project ?s) ! m)]"
      using chain m by (simp add: sceneList_updateScene)
    then have "map g (sceneList (project (sts (Suc m)))) =
            (map g (sceneList (project ?s)))[m := g (f (outs m) (xs ! m))]"
      using f [OF gm] by (simp add: map_update)
    also have "\<dots> = map (\<lambda>j. if j < Suc m then g (f (outs j) (xs ! j)) else g (xs ! j)) [0 ..< n]"
      unfolding k
    proof (rule nth_equalityI)
      show "length ((map ?h [0 ..< n])[m := g (f (outs m) (xs ! m))]) =
            length (map (\<lambda>j. if j < Suc m then g (f (outs j) (xs ! j)) else g (xs ! j)) [0 ..< n])"
        by simp
    next
      fix i assume "i < length ((map ?h [0 ..< n])[m := g (f (outs m) (xs ! m))])"
      then have i: "i < n" by simp
      show "(map ?h [0 ..< n])[m := g (f (outs m) (xs ! m))] ! i =
            map (\<lambda>j. if j < Suc m then g (f (outs j) (xs ! j)) else g (xs ! j)) [0 ..< n] ! i"
      proof (cases "i = m")
        case True
        then show ?thesis using m by simp
      next
        case False
        then have "i < Suc m \<longleftrightarrow> i < m" by auto
        then show ?thesis using False i by (simp add: nth_list_update)
      qed
    qed
    finally show ?case .
  qed
  from this [of n] show ?thesis by simp
qed

lemma audioLoop_chain:
  assumes keep: "\<forall>j s. length (sceneList (project (during j s))) = length (sceneList (project s))"
    and len: "length (sceneList (project st)) = length scs"
  shows "\<exists>outs ws sts. ws 0 = w \<and> sts 0 = st \<and>
           (\<forall>j<length scs.
              (\<exists>w2 es.
                 generateSpeech plat svc (narrative (scs ! j)) (voiceType (voiceConfig captured))
                   (apiKey captured) (emit [AudioLoadingIndexSet (Some j)] (ws j)) = Some (outs j, w2) \<and>
                 trace w2 = trace (ws j) @ AudioLoadingIndexSet (Some j) # es \<and>
                 (\<forall>e\<in>set es. \<not> handlerEvent e) \<and>
                 ws (Suc j) = emit [settled j (outs j)] w2) \<and>
              sts (Suc j) =
                updateScene j (withAudio (outs j)) (during j ((sts j)\<lparr>audioLoadingIndex := Some j\<rparr>))) \<and>
           audioLoop plat svc during captured scs 0 st w = Done (sts (length scs), ws (length scs))"
proof -
  let ?L = "audioLoop plat svc during captured scs"
  let ?Inv = "\<lambda>s. length (sceneList (project s)) = length scs"
  let ?nxt = "\<lambda>i r s. updateScene i (withAudio r) (during i (s\<lparr>audioLoadingIndex := Some i\<rparr>))"
  let ?J = "\<lambda>i w r w2. \<exists>es.
     generateSpeech plat svc (narrative (scs ! i)) (voiceType (voiceConfig captured))
       (apiKey captured) (emit [AudioLoadingIndexSet (Some i)] w) = Some (r, w2) \<and>
     trace w2 = trace w @ AudioLoadingIndexSet (Some i) # es \<and>
     (\<forall>e\<in>set es. \<not> handlerEvent e)"
  have stop: "\<And>st w. ?L (length scs) st w = Done (st, w)"
    by (subst audioLoop.simps) simp
  have step: "\<exists>r w2. ?J i w r w2 \<and> ?Inv (?nxt i r st) \<and>
              ?L i st w = ?L (Suc i) (?nxt i r st) (emit [settled i r] w2)"
    if i: "i < length scs" and inv: "?Inv st" for i st w
  proof -
    let ?st1 = "st\<lparr>audioLoadingIndex := Some i\<rparr>"
    let ?w1 = "emit [AudioLoadingIndexSet (Some i)] w"
    let ?st2 = "during i ?st1"
    obtain r w2 where g: "generateSpeech plat svc (narrative (scs ! i)) (voiceType (voiceConfig captured))
        (apiKey captured) ?w1 = Some (r, w2)"
      using generateSpeech_settles by blast
    from generateSpeech_events [OF g] obtain es where
      es: "trace w2 = trace ?w1 @ es" "\<forall>e\<in>set es. \<not> handlerEvent e" by blast
    have j: "?J i w r w2"
      using g es by (auto simp add: emit_def)
    have l2: "length (sceneList (project ?st2)) = length scs"
      using keep inv by simp
    then obtain cur where cur: "projectOutput (project ?st2) = Some cur" "length (scenes cur) = length scs"
      using i by (cases "projectOutput (project ?st2)") (auto simp add: sceneList_def)
    have inv': "?Inv (?nxt i r st)"
      using l2 by (simp add: sceneList_updateScene)
    have "?L i st w = ?L (Suc i) (?nxt i r st) (emit [settled i r] w2)"
    proof (cases r)
      case (Resolved wav)
      have m: "mergeBatchAudio i wav (project ?st2) =
                 Some (project (updateScene i (withAudio (Resolved wav)) ?st2))"
        using cur i by (simp add: mergeBatchAudio_def updateScene_def)
      have u: "?st2\<lparr>project := project (updateScene i (withAudio (Resolved wav)) ?st2)\<rparr> =
                 updateScene i (withAudio (Resolved wav)) ?st2"
        by (simp add: updateScene_def)
      show ?thesis
        using i g Resolved m u by (subst audioLoop.simps) (simp add: Let_def)
    next
      case (Rejected err)
      show ?thesis
        using i g Rejected by (subst audioLoop.simps) (simp add: Let_def updateScene_rejected)
    qed
    with j inv' show ?thesis by blast
  qed
  have z: "(0 :: nat) \<le> length scs" by simp
  from batch_chain [of ?L "length scs" ?Inv ?J ?nxt 0 st w, OF stop step z len]
  obtain outs ws sts where
    c: "ws 0 = w" "sts 0 = st"
       "\<forall>j. 0 \<le> j \<and> j < length scs \<longrightarrow>
              (\<exists>w2. ?J j (ws j) (outs j) w2 \<and> ws (Suc j) = emit [settled j (outs j)] w2) \<and>
              sts (Suc j) = ?nxt j (outs j) (sts j)"
       "?L 0 st w = Done (sts (length scs), ws (length scs))"
    by blast
  show ?thesis
    apply (rule exI [of _ outs], rule exI [of _ ws], rule exI [of _ sts])
    using c by auto
qed

lemma imageLoop_chain:
  assumes keep: "\<forall>j s. length (sceneList (project (during j s))) = length (sceneList (project s))"
    and len: "length (sceneList (project st)) = length scs"
  shows "\<exists>outs ws sts. ws 0 = w \<and> sts 0 = st \<and>
           (\<forall>j<length scs.
              (\<exists>w2 es.
                 generateImage plat svc (imagePrompt (scs ! j)) (mediaSettings captured)
                   (imageStyle captured) (apiKey captured)
                   (activeChars (characters (config captured)) (scs ! j)) (emit [ImageLoadingIndexSet (Some j)] (ws j)) = Some (outs j, w2) \<and>
                 trace w2 = trace (ws j) @ ImageLoadingIndexSet (Some j) # es \<and>
                 (\<forall>e\<in>set es. \<not> handlerEvent e) \<and>
                 ws (Suc j) = emit [settled j (outs j)] w2) \<and>
              sts (Suc j) =
                updateScene j (withImage (outs j)) (during j ((sts j)\<lparr>imageLoadingIndex := Some j\<rparr>))) \<and>
           imageLoop plat svc during captured scs 0 st w = Done (sts (length scs), ws (length scs))"
proof -
  let ?L = "imageLoop plat svc during captured scs"
  let ?Inv = "\<lambda>s. length (sceneList (project s)) = length scs"
  let ?nxt = "\<lambda>i r s. updateScene i (withImage r) (during i (s\<lparr>imageLoadingIndex := Some i\<rparr>))"
  let ?J = "\<lambda>i w r w2. \<exists>es.
     generateImage plat svc (imagePrompt (scs ! i)) (mediaSettings captured)
       (imageStyle captured) (apiKey captured)
       (activeChars (characters (config captured)) (scs ! i)) (emit [ImageLoadingIndexSet (Some i)] w) = Some (r, w2) \<and>
     trace w2 = trace w @ ImageLoadingIndexSet (Some i) # es \<and>
     (\<forall>e\<in>set es. \<not> handlerEvent e)"
  have stop: "\<And>st w. ?L (length scs) st w = Done (st, w)"
    by (subst imageLoop.simps) simp
  have step: "\<exists>r w2. ?J i w r w2 \<and> ?Inv (?nxt i r st) \<and>
              ?L i st w = ?L (Suc i) (?nxt i r st) (emit [settled i r] w2)"
    if i: "i < length scs" and inv: "?Inv st" for i st w
  proof -
    let ?st1 = "st\<lparr>imageLoadingIndex := Some i\<rparr>"
    let ?w1 = "emit [ImageLoadingIndexSet (Some i)] w"
    let ?st2 = "during i ?st1"
    obtain r w2 where g: "generateImage plat svc (imagePrompt (scs ! i)) (mediaSettings captured)
        (imageStyle captured) (apiKey captured)
        (activeChars (characters (config captured)) (scs ! i)) ?w1 = Some (r, w2)"
      using generateImage_settles by blast
    from generateImage_events [OF g] obtain es where
      es: "trace w2 = trace ?w1 @ es" "\<forall>e\<in>set es. \<not> handlerEvent e" by blast
    have j: "?J i w r w2"
      using g es by (auto simp add: emit_def)
    have l2: "length (sceneList (project ?st2)) = length scs"
      using keep inv by simp
    then obtain cur where cur: "projectOutput (project ?st2) = Some cur" "length (scenes cur) = length scs"
      using i by (cases "projectOutput (project ?st2)") (auto simp add: sceneList_def)
    have inv': "?Inv (?nxt i r st)"
      using l2 by (simp add: sceneList_updateScene)
    have "?L i st w = ?L (Suc i) (?nxt i r st) (emit [settled i r] w2)"
    proof (cases r)
      case (Resolved img)
      have m: "mergeBatchImage i img (project ?st2) =
                 Some (project (updateScene i (withImage (Resolved img)) ?st2))"
        using cur i by (simp add: mergeBatchImage_def updateScene_def)
      have u: "?st2\<lparr>project := project (updateScene i (withImage (Resolved img)) ?st2)\<rparr> =
                 updateScene i (withImage (Resolved img)) ?st2"
        by (simp add: updateScene_def)
      show ?thesis
        using i g Resolved m u by (subst imageLoop.simps) (simp add: Let_def)
    next
      case (Rejected err)
      show ?thesis
        using i g Rejected by (subst imageLoop.simps) (simp add: Let_def updateScene_rejected)
    qed
    with j inv' show ?thesis by blast
  qed
  have z: "(0 :: nat) \<le> length scs" by simp
  from batch_chain [of ?L "length scs" ?Inv ?J ?nxt 0 st w, OF stop step z len]
  obtain outs ws sts where
    c: "ws 0 = w" "sts 0 = st"
       "\<forall>j. 0 \<le> j \<and> j < length scs \<longrightarrow>
              (\<exists>w2. ?J j (ws j) (outs j) w2 \<and> ws (Suc j) = emit [settled j (outs j)] w2) \<and>
              sts (Suc j) = ?nxt j (outs j) (sts j)"
       "?L 0 st w = Done (sts (length scs), ws (length scs))"
    by blast
  show ?thesis
    apply (rule exI [of _ outs], rule exI [of _ ws], rule exI [of _ sts])
    using c by auto
qed

lemma withAudio_slot: "audioData x = audioData y \<Longrightarrow> audioData (withAudio r x) = audioData (withAudio r y)"
  by (cases r) simp_all

lemma withImage_slot: "imageUrl x = imageUrl y \<Longrightarrow> imageUrl (withImage r x) = imageUrl (withImage r y)"
  by (cases r) simp_all

text \<open>
  C6, as amended. Let the other handlers keep the number of scenes while a batch
  runs. Then a batch over the scenes of a story, audio or images, finishes, whatever the
  outcomes of the jobs. It takes the scenes one after the other in ascending order:
  the job of a scene is started in the world that the turn of the scene before it left,
  after the loading index is set; the events of the job follow; then comes the update
  that commits its result, or the logged error, and only then the next scene. A commit
  is applied to the state the other handlers have left, and replaces in it the slot of
  its scene only; a failure changes nothing and does not end the batch. If moreover the
  other handlers leave the slots of the batch's kind alone, then at the end every scene
  whose job succeeded holds its result and every other scene its slot as it was.
\<close>

theorem batch_isolates_failures:
  assumes "projectOutput (project st) = Some out"
    and "\<forall>j s. length (sceneList (project (during j s))) = length (sceneList (project s))"
  shows "(\<exists>outs ws sts.
            handleGenerateAllAudio plat speech during st w =
              Done ((sts (length (scenes out)))\<lparr>audioLoadingIndex := None, generatingAllAudio := False\<rparr>,
                    emit [AudioLoadingIndexSet None] (ws (length (scenes out)))) \<and>
            ws 0 = w \<and> sts 0 = st\<lparr>generatingAllAudio := True, error := None\<rparr> \<and>
            (\<forall>j<length (scenes out).
               (\<exists>w2 es.
                  generateSpeech plat speech (narrative (scenes out ! j))
                    (voiceType (voiceConfig (project st))) (apiKey (project st))
                    (emit [AudioLoadingIndexSet (Some j)] (ws j)) = Some (outs j, w2) \<and>
                  trace w2 = trace (ws j) @ AudioLoadingIndexSet (Some j) # es \<and>
                  (\<forall>e\<in>set es. \<not> handlerEvent e) \<and>
                  ws (Suc j) = emit [settled j (outs j)] w2) \<and>
               sts (Suc j) =
                 updateScene j (withAudio (outs j)) (during j ((sts j)\<lparr>audioLoadingIndex := Some j\<rparr>))) \<and>
            ((\<forall>j s. map audioData (sceneList (project (during j s))) =
                     map audioData (sceneList (project s))) \<longrightarrow>
             map audioData (sceneList (project (sts (length (scenes out))))) =
               map (\<lambda>j. audioData (withAudio (outs j) (scenes out ! j))) [0 ..< length (scenes out)])) \<and>
         (\<exists>outs ws sts.
            handleGenerateAllImages plat images during st w =
              Done ((sts (length (scenes out)))\<lparr>imageLoadingIndex := None, generatingAllImages := False\<rparr>,
                    emit [ImageLoadingIndexSet None] (ws (length (scenes out)))) \<and>
            ws 0 = w \<and> sts 0 = st\<lparr>generatingAllImages := True, error := None\<rparr> \<and>
            (\<forall>j<length (scenes out).
               (\<exists>w2 es.
                  generateImage plat images (imagePrompt (scenes out ! j)) (mediaSettings (project st))
                    (imageStyle (project st)) (apiKey (project st))
                    (activeChars (characters (config (project st))) (scenes out ! j))
                    (emit [ImageLoadingIndexSet (Some j)] (ws j)) = Some (outs j, w2) \<and>
                  trace w2 = trace (ws j) @ ImageLoadingIndexSet (Some j) # es \<and>
                  (\<forall>e\<in>set es. \<not> handlerEvent e) \<and>
                  ws (Suc j) = emit [settled j (outs j)] w2) \<and>
               sts (Suc j) =
                 updateScene j (withImage (outs j)) (during j ((sts j)\<lparr>imageLoadingIndex := Some j\<rparr>))) \<and>
            ((\<forall>j s. map imageUrl (sceneList (project (during j s))) =
                     map imageUrl (sceneList (project s))) \<longrightarrow>
             map imageUrl (sceneList (project (sts (length (scenes out))))) =
               map (\<lambda>j. imageUrl (withImage (outs j) (scenes out ! j))) [0 ..< length (scenes out)]))"
proof
  let ?n = "length (scenes out)"
  let ?st0 = "st\<lparr>generatingAllAudio := True, error := None\<rparr>"
  have len: "length (sceneList (project ?st0)) = ?n"
    using assms(1) by (simp add: sceneList_def)
  from audioLoop_chain [OF assms(2) len, of w plat speech "project st"]
  obtain outs ws sts where
    c: "ws 0 = w" "sts 0 = ?st0"
       "\<forall>j<?n.
          (\<exists>w2 es.
             generateSpeech plat speech (narrative (scenes out ! j))
               (voiceType (voiceConfig (project st))) (apiKey (project st))
               (emit [AudioLoadingIndexSet (Some j)] (ws j)) = Some (outs j, w2) \<and>
             trace w2 = trace (ws j) @ AudioLoadingIndexSet (Some j) # es \<and>
             (\<forall>e\<in>set es. \<not> handlerEvent e) \<and>
             ws (Suc j) = emit [settled j (outs j)] w2) \<and>
          sts (Suc j) =
            updateScene j (withAudio (outs j)) (during j ((sts j)\<lparr>audioLoadingIndex := Some j\<rparr>))"
       "audioLoop plat speech during (project st) (scenes out) 0 ?st0 w = Done (sts ?n, ws ?n)"
    by blast
  have h: "handleGenerateAllAudio plat speech during st w =
              Done ((sts ?n)\<lparr>audioLoadingIndex := None, generatingAllAudio := False\<rparr>,
                    emit [AudioLoadingIndexSet None] (ws ?n))"
    using assms(1) c(4) by (simp add: handleGenerateAllAudio_def Let_def)
  have sl: "map audioData (sceneList (project (sts ?n))) =
               map (\<lambda>j. audioData (withAudio (outs j) (scenes out ! j))) [0 ..< ?n]"
    if k: "\<forall>j s. map audioData (sceneList (project (during j s))) =
                   map audioData (sceneList (project s))"
  proof (rule slots_chain [where g = audioData and f = withAudio and outs = outs and xs = "scenes out"
        and n = "length (scenes out)" and sts = sts
        and pre = "\<lambda>j s. s\<lparr>audioLoadingIndex := Some j\<rparr>" and during = during])
    show "\<forall>j<?n. sts (Suc j) =
            updateScene j (withAudio (outs j)) (during j ((sts j)\<lparr>audioLoadingIndex := Some j\<rparr>))"
      using c(3) by blast
    show "\<And>j s. project (s\<lparr>audioLoadingIndex := Some j\<rparr>) = project s" by simp
    show "\<And>j s. map audioData (sceneList (project (during j s))) = map audioData (sceneList (project s))"
      using k by blast
    show "\<And>r x y. audioData x = audioData y \<Longrightarrow> audioData (withAudio r x) = audioData (withAudio r y)"
      by (rule withAudio_slot)
    show "sceneList (project (sts 0)) = scenes out"
      using c(2) assms(1) by (simp add: sceneList_def)
    show "length (scenes out) = ?n" by simp
  qed
  show "\<exists>outs ws sts.
            handleGenerateAllAudio plat speech during st w =
              Done ((sts ?n)\<lparr>audioLoadingIndex := None, generatingAllAudio := False\<rparr>,
                    emit [AudioLoadingIndexSet None] (ws ?n)) \<and>
            ws 0 = w \<and> sts 0 = ?st0 \<and>
            (\<forall>j<?n.
               (\<exists>w2 es.
                  generateSpeech plat speech (narrative (scenes out ! j))
                    (voiceType (voiceConfig (project st))) (apiKey (project st))
                    (emit [AudioLoadingIndexSet (Some j)] (ws j)) = Some (outs j, w2) \<and>
                  trace w2 = trace (ws j) @ AudioLoadingIndexSet (Some j) # es \<and>
                  (\<forall>e\<in>set es. \<not> handlerEvent e) \<and>
                  ws (Suc j) = emit [settled j (outs j)] w2) \<and>
               sts (Suc j) =
                 updateScene j (withAudio (outs j)) (during j ((sts j)\<lparr>audioLoadingIndex := Some j\<rparr>))) \<and>
            ((\<forall>j s. map audioData (sceneList (project (during j s))) =
                     map audioData (sceneList (project s))) \<longrightarrow>
             map audioData (sceneList (project (sts ?n))) =
               map (\<lambda>j. audioData (withAudio (outs j) (scenes out ! j))) [0 ..< ?n])"
    apply (rule exI [of _ outs], rule exI [of _ ws], rule exI [of _ sts])
    using h c(1,2,3) sl by blast
next
  let ?n = "length (scenes out)"
  let ?st0 = "st\<lparr>generatingAllImages := True, error := None\<rparr>"
  have len: "length (sceneList (project ?st0)) = ?n"
    using assms(1) by (simp add: sceneList_def)
  from imageLoop_chain [OF assms(2) len, of w plat images "project st"]
  obtain outs ws sts where
    c: "ws 0 = w" "sts 0 = ?st0"
       "\<forall>j<?n.
          (\<exists>w2 es.
             generateImage plat images (imagePrompt (scenes out ! j)) (mediaSettings (project st))
               (imageStyle (project st)) (apiKey (project st))
               (activeChars (characters (config (project st))) (scenes out ! j))
               (emit [ImageLoadingIndexSet (Some j)] (ws j)) = Some (outs j, w2) \<and>
             trace w2 = trace (ws j) @ ImageLoadingIndexSet (Some j) # es \<and>
             (\<forall>e\<in>set es. \<not> handlerEvent e) \<and>
             ws (Suc j) = emit [settled j (outs j)] w2) \<and>
          sts (Suc j) =
            updateScene j (withImage (outs j)) (during j ((sts j)\<lparr>imageLoadingIndex := Some j\<rparr>))"
       "imageLoop plat images during (project st) (scenes out) 0 ?st0 w = Done (sts ?n, ws ?n)"
    by blast
  have h: "handleGenerateAllImages plat images during st w =
              Done ((sts ?n)\<lparr>imageLoadingIndex := None, generatingAllImages := False\<rparr>,
                    emit [ImageLoadingIndexSet None] (ws ?n))"
    using assms(1) c(4) by (simp add: handleGenerateAllImages_def Let_def)
  have sl: "map imageUrl (sceneList (project (sts ?n))) =
               map (\<lambda>j. imageUrl (withImage (outs j) (scenes out ! j))) [0 ..< ?n]"
    if k: "\<forall>j s. map imageUrl (sceneList (project (during j s))) =
                   map imageUrl (sceneList (project s))"
  proof (rule slots_chain [where g = imageUrl and f = withImage and outs = outs and xs = "scenes out"
        and n = "length (scenes out)" and sts = sts
        and pre = "\<lambda>j s. s\<lparr>imageLoadingIndex := Some j\<rparr>" and during = during])
    show "\<forall>j<?n. sts (Suc j) =
            updateScene j (withImage (outs j)) (during j ((sts j)\<lparr>imageLoadingIndex := Some j\<rparr>))"
      using c(3) by blast
    show "\<And>j s. project (s\<lparr>imageLoadingIndex := Some j\<rparr>) = project s" by simp
    show "\<And>j s. map imageUrl (sceneList (project (during j s))) = map imageUrl (sceneList (project s))"
      using k by blast
    show "\<And>r x y. imageUrl x = imageUrl y \<Longrightarrow> imageUrl (withImage r x) = imageUrl (withImage r y)"
      by (rule withImage_slot)
    show "sceneList (project (sts 0)) = scenes out"
      using c(2) assms(1) by (simp add: sceneList_def)
    show "length (scenes out) = ?n" by simp
  qed
  show "\<exists>outs ws sts.
            handleGenerateAllImages plat images during st w =
              Done ((sts ?n)\<lparr>imageLoadingIndex := None, generatingAllImages := False\<rparr>,
                    emit [ImageLoadingIndexSet None] (ws ?n)) \<and>
            ws 0 = w \<and> sts 0 = ?st0 \<and>
            (\<forall>j<?n.
               (\<exists>w2 es.
                  generateImage plat images (imagePrompt (scenes out ! j)) (mediaSettings (project st))
                    (imageStyle (project st)) (apiKey (project st))
                    (activeChars (characters (config (project st))) (scenes out ! j))
                    (emit [ImageLoadingIndexSet (Some j)] (ws j)) = Some (outs j, w2) \<and>
                  trace w2 = trace (ws j) @ ImageLoadingIndexSet (Some j) # es \<and>
                  (\<forall>e\<in>set es. \<not> handlerEvent e) \<and>
                  ws (Suc j) = emit [settled j (outs j)] w2) \<and>
               sts (Suc j) =
                 updateScene j (withImage (outs j)) (during j ((sts j)\<lparr>imageLoadingIndex := Some j\<rparr>))) \<and>
            ((\<forall>j s. map imageUrl (sceneList (project (during j s))) =
                     map imageUrl (sceneList (project s))) \<longrightarrow>
             map imageUrl (sceneList (project (sts ?n))) =
               map (\<lambda>j. imageUrl (withImage (outs j) (scenes out ! j))) [0 ..< ?n])"
    apply (rule exI [of _ outs], rule exI [of _ ws], rule exI [of _ sts])
    using h c(1,2,3) sl by blast
qed

lemma onlyFirstAnswered_first:
  assumes "calls w = 0"
  shows "generateImage examplePlatform onlyFirstAnswered basePrompt settings style (Some ''k'') active w =
     Some (Resolved ''data:image/png;base64,AAAA'',
           w\<lparr>calls := calls w + 1,
             trace := trace w @ [Requested (proRequest (finalPrompt basePrompt style active) settings)]\<rparr>)"
proof -
  let ?fn = "generateImageAttempt examplePlatform onlyFirstAnswered basePrompt settings style (Some ''k'') active"
  have "tierOutcome onlyFirstAnswered ''k'' (calls w) (proRequest (finalPrompt basePrompt style active) settings) =
          Resolved ''data:image/png;base64,AAAA''"
    using assms by (simp add: tierOutcome_def onlyFirstAnswered_def pngAnswer_scan)
  then have "?fn w = (Resolved ''data:image/png;base64,AAAA'',
           w\<lparr>calls := calls w + 1,
             trace := trace w @ [Requested (proRequest (finalPrompt basePrompt style active) settings)]\<rparr>)"
    by (simp add: generateImageAttempt_eq [OF example_key] Let_def)
  then show ?thesis
    unfolding generateImage_def by (rule withRetry_resolved [of ?fn])
qed

lemma onlyFirstAnswered_later:
  assumes "0 < calls w"
  shows "generateImage examplePlatform onlyFirstAnswered basePrompt settings style (Some ''k'') active w =
     Some (Rejected \<lparr>status = Some 400, message = Some ''Bad request''\<rparr>,
           w\<lparr>calls := calls w + 2,
             trace := trace w @
               [Requested (proRequest (finalPrompt basePrompt style active) settings),
                FallbackWarned (Some ''Bad request''),
                Requested (flashRequest (finalPrompt basePrompt style active) settings)]\<rparr>)"
proof -
  let ?fn = "generateImageAttempt examplePlatform onlyFirstAnswered basePrompt settings style (Some ''k'') active"
  have "tierOutcome onlyFirstAnswered ''k'' (calls w) (proRequest (finalPrompt basePrompt style active) settings) =
          Rejected \<lparr>status = Some 400, message = Some ''Bad request''\<rparr>"
       "tierOutcome onlyFirstAnswered ''k'' (Suc (calls w)) (flashRequest (finalPrompt basePrompt style active) settings) =
          Rejected \<lparr>status = Some 400, message = Some ''Bad request''\<rparr>"
    using assms by (simp_all add: tierOutcome_def onlyFirstAnswered_def)
  then have a: "?fn w = (Rejected \<lparr>status = Some 400, message = Some ''Bad request''\<rparr>,
           w\<lparr>calls := calls w + 2,
             trace := trace w @
               [Requested (proRequest (finalPrompt basePrompt style active) settings),
                FallbackWarned (Some ''Bad request''),
                Requested (flashRequest (finalPrompt basePrompt style active) settings)]\<rparr>)"
    by (simp add: generateImageAttempt_eq [OF example_key] Let_def)
  show ?thesis
    unfolding generateImage_def by (rule withRetry_fatal [of ?fn, OF a bad_request_not_retryable])
qed

lemma imageUploaded_keeps:
  "length (sceneList (project (imageUploaded i b s))) = length (sceneList (project s))"
  by (simp add: imageUploaded_def mergeBatchImage_def sceneList_def split: option.splits)

lemma uploadForSecond_keeps:
  "\<forall>j s. length (sceneList (project (uploadForSecond j s))) = length (sceneList (project s))"
  by (simp add: uploadForSecond_def imageUploaded_keeps)

theorem batch_isolates_failures_witness:
  "finalSlots (handleGenerateAllAudio examplePlatform firstSceneFails uploadForSecond exampleState
                 emptyWorld) =
     [(None, None), (Some wavBase64, Some ''data:image/jpeg;base64,BBBB'')] \<and>
   finalSlots (handleGenerateAllImages examplePlatform onlyFirstAnswered uploadForSecond exampleState
                  emptyWorld) =
      [(None, Some ''data:image/png;base64,AAAA''), (None, Some ''data:image/jpeg;base64,BBBB'')]"
proof
  show "finalSlots (handleGenerateAllAudio examplePlatform firstSceneFails uploadForSecond exampleState
                   emptyWorld) =
       [(None, None), (Some wavBase64, Some ''data:image/jpeg;base64,BBBB'')]"
  proof -
    let ?out = "\<lparr>title = ''T'', summary = ''S'', scenes = [vossScene, linaScene]\<rparr>"
    have v: "voiceType (voiceConfig (project exampleState)) = ''woman''"
            "apiKey (project exampleState) = Some ''k''"
      by (simp_all add: exampleState_def exampleProject_def exampleVoice_def)
    from batch_isolates_failures [OF exampleState_output uploadForSecond_keeps,
        of examplePlatform firstSceneFails emptyWorld imageReady]
    obtain outs ws sts where
      h: "handleGenerateAllAudio examplePlatform firstSceneFails uploadForSecond exampleState emptyWorld =
            Done ((sts (length (scenes ?out)))\<lparr>audioLoadingIndex := None, generatingAllAudio := False\<rparr>,
                  emit [AudioLoadingIndexSet None] (ws (length (scenes ?out))))"
      and s0: "sts 0 = exampleState\<lparr>generatingAllAudio := True, error := None\<rparr>"
      and chain: "\<forall>j<length (scenes ?out).
                 (\<exists>w2 es.
                    generateSpeech examplePlatform firstSceneFails (narrative (scenes ?out ! j))
                      (voiceType (voiceConfig (project exampleState))) (apiKey (project exampleState))
                      (emit [AudioLoadingIndexSet (Some j)] (ws j)) = Some (outs j, w2) \<and>
                    trace w2 = trace (ws j) @ AudioLoadingIndexSet (Some j) # es \<and>
                    (\<forall>e\<in>set es. \<not> handlerEvent e) \<and>
                    ws (Suc j) = emit [settled j (outs j)] w2) \<and>
                 sts (Suc j) =
                   updateScene j (withAudio (outs j))
                     (uploadForSecond j ((sts j)\<lparr>audioLoadingIndex := Some j\<rparr>))"
      by blast
    have "(0 :: nat) < length (scenes ?out)" by simp
    with chain have c0: "\<exists>w2. generateSpeech examplePlatform firstSceneFails (narrative (scenes ?out ! 0))
                      (voiceType (voiceConfig (project exampleState))) (apiKey (project exampleState))
                      (emit [AudioLoadingIndexSet (Some 0)] (ws 0)) = Some (outs 0, w2)"
      and s1: "sts (Suc 0) = updateScene 0 (withAudio (outs 0))
                     (uploadForSecond 0 ((sts 0)\<lparr>audioLoadingIndex := Some 0\<rparr>))"
      by blast+
    have "Suc 0 < length (scenes ?out)" by simp
    with chain have c1: "\<exists>w2. generateSpeech examplePlatform firstSceneFails (narrative (scenes ?out ! Suc 0))
                      (voiceType (voiceConfig (project exampleState))) (apiKey (project exampleState))
                      (emit [AudioLoadingIndexSet (Some (Suc 0))] (ws (Suc 0))) = Some (outs (Suc 0), w2)"
      and s2: "sts (Suc (Suc 0)) = updateScene (Suc 0) (withAudio (outs (Suc 0)))
                     (uploadForSecond (Suc 0) ((sts (Suc 0))\<lparr>audioLoadingIndex := Some (Suc 0)\<rparr>))"
      by blast+
    from c0 have a: "outs 0 = Rejected \<lparr>status = Some 400, message = Some ''Bad request''\<rparr>"
      by (auto simp add: v vossScene_def speech_he_waits)
    have four: "\<And>wj. generateSpeech examplePlatform firstSceneFails ''She runs.'' ''woman'' (Some ''k'') wj =
       Some (Resolved wavBase64,
             wj\<lparr>calls := Suc (calls wj),
                trace := trace wj @ [Requested (SpeechRequest ''gemini-2.5-flash-preview-tts'' ''She runs.''
                                                   (voiceNameOf ''woman''))]\<rparr>)"
      by (rule speech_four_bytes) (simp add: firstSceneFails_def)
    from c1 have b: "outs (Suc 0) = Resolved wavBase64"
      by (auto simp add: v linaScene_def four)
    have t1: "sts (Suc 0) = uploadForSecond 0 (exampleState\<lparr>generatingAllAudio := True, error := None,
                                                     audioLoadingIndex := Some 0\<rparr>)"
      using s1 by (simp add: a s0 updateScene_rejected)
    have t2: "sts 2 = updateScene (Suc 0) (withAudio (Resolved wavBase64))
                       ((sts (Suc 0))\<lparr>audioLoadingIndex := Some (Suc 0)\<rparr>)"
      using s2 by (simp add: b uploadForSecond_def numeral_2_eq_2)
    have n: "length (scenes ?out) = 2" by simp
    show ?thesis
      unfolding h n
      by (simp add: finalSlots_def projectSlots_def updateScene_def t2 t1 uploadForSecond_def
          imageUploaded_def mergeBatchImage_def exampleState_def exampleProject_def sceneList_def
          slots_def vossScene_def linaScene_def)
  qed
  show "finalSlots (handleGenerateAllImages examplePlatform onlyFirstAnswered uploadForSecond exampleState
                   emptyWorld) =
       [(None, Some ''data:image/png;base64,AAAA''), (None, Some ''data:image/jpeg;base64,BBBB'')]"
  proof -
    let ?out = "\<lparr>title = ''T'', summary = ''S'', scenes = [vossScene, linaScene]\<rparr>"
    have v: "mediaSettings (project exampleState) = exampleSettings"
            "imageStyle (project exampleState) = exampleStyle"
            "apiKey (project exampleState) = Some ''k''"
      by (simp_all add: exampleState_def exampleProject_def)
    from batch_isolates_failures [OF exampleState_output uploadForSecond_keeps,
        of examplePlatform fourByteSpeech emptyWorld onlyFirstAnswered]
    obtain outs ws sts where
      h: "handleGenerateAllImages examplePlatform onlyFirstAnswered uploadForSecond exampleState emptyWorld =
            Done ((sts (length (scenes ?out)))\<lparr>imageLoadingIndex := None, generatingAllImages := False\<rparr>,
                  emit [ImageLoadingIndexSet None] (ws (length (scenes ?out))))"
      and w0: "ws 0 = emptyWorld"
      and s0: "sts 0 = exampleState\<lparr>generatingAllImages := True, error := None\<rparr>"
      and chain: "\<forall>j<length (scenes ?out).
                 (\<exists>w2 es.
                    generateImage examplePlatform onlyFirstAnswered (imagePrompt (scenes ?out ! j))
                      (mediaSettings (project exampleState)) (imageStyle (project exampleState))
                      (apiKey (project exampleState))
                      (activeChars (characters (config (project exampleState))) (scenes ?out ! j))
                      (emit [ImageLoadingIndexSet (Some j)] (ws j)) = Some (outs j, w2) \<and>
                    trace w2 = trace (ws j) @ ImageLoadingIndexSet (Some j) # es \<and>
                    (\<forall>e\<in>set es. \<not> handlerEvent e) \<and>
                    ws (Suc j) = emit [settled j (outs j)] w2) \<and>
                 sts (Suc j) =
                   updateScene j (withImage (outs j))
                     (uploadForSecond j ((sts j)\<lparr>imageLoadingIndex := Some j\<rparr>))"
      by blast
    have "(0 :: nat) < length (scenes ?out)" by simp
    with chain obtain w2 where
      c0: "generateImage examplePlatform onlyFirstAnswered (imagePrompt (scenes ?out ! 0))
                      (mediaSettings (project exampleState)) (imageStyle (project exampleState))
                      (apiKey (project exampleState))
                      (activeChars (characters (config (project exampleState))) (scenes ?out ! 0))
                      (emit [ImageLoadingIndexSet (Some 0)] (ws 0)) = Some (outs 0, w2)"
      and w1: "ws (Suc 0) = emit [settled 0 (outs 0)] w2"
      and s1: "sts (Suc 0) = updateScene 0 (withImage (outs 0))
                     (uploadForSecond 0 ((sts 0)\<lparr>imageLoadingIndex := Some 0\<rparr>))"
      by blast
    have z: "calls (emit [ImageLoadingIndexSet (Some 0)] (ws 0)) = 0"
      by (simp add: w0 emit_def emptyWorld_def)
    from c0 have a: "outs 0 = Resolved ''data:image/png;base64,AAAA''" and cw: "calls w2 = 1"
      by (auto simp add: v onlyFirstAnswered_first [OF z] z)
    have "Suc 0 < length (scenes ?out)" by simp
    with chain obtain w3 where
      c1: "generateImage examplePlatform onlyFirstAnswered (imagePrompt (scenes ?out ! Suc 0))
                      (mediaSettings (project exampleState)) (imageStyle (project exampleState))
                      (apiKey (project exampleState))
                      (activeChars (characters (config (project exampleState))) (scenes ?out ! Suc 0))
                      (emit [ImageLoadingIndexSet (Some (Suc 0))] (ws (Suc 0))) = Some (outs (Suc 0), w3)"
      and s2: "sts (Suc (Suc 0)) = updateScene (Suc 0) (withImage (outs (Suc 0)))
                     (uploadForSecond (Suc 0) ((sts (Suc 0))\<lparr>imageLoadingIndex := Some (Suc 0)\<rparr>))"
      by blast
    have p: "0 < calls (emit [ImageLoadingIndexSet (Some (Suc 0))] (ws (Suc 0)))"
      by (simp add: w1 emit_def cw)
    from c1 have b: "outs (Suc 0) = Rejected \<lparr>status = Some 400, message = Some ''Bad request''\<rparr>"
      by (simp add: v onlyFirstAnswered_later [OF p])
    have t1: "sts (Suc 0) = updateScene 0 (withImage (Resolved ''data:image/png;base64,AAAA''))
                (uploadForSecond 0 (exampleState\<lparr>generatingAllImages := True, error := None,
                                                     imageLoadingIndex := Some 0\<rparr>))"
      using s1 by (simp add: a s0)
    have t2: "sts 2 = (sts (Suc 0))\<lparr>imageLoadingIndex := Some (Suc 0)\<rparr>"
      using s2 by (simp add: b uploadForSecond_def numeral_2_eq_2 updateScene_rejected)
    have n: "length (scenes ?out) = 2" by simp
    show ?thesis
      unfolding h n
      by (simp add: finalSlots_def projectSlots_def updateScene_def t2 t1 uploadForSecond_def
          imageUploaded_def mergeBatchImage_def exampleState_def exampleProject_def sceneList_def
          slots_def vossScene_def linaScene_def)
  qed
qed

lemma imageReady_generates:
  "generateImage examplePlatform imageReady basePrompt settings style (Some ''k'') active w =
     Some (Resolved ''data:image/png;base64,AAAA'',
           w\<lparr>calls := calls w + 1,
             trace := trace w @ [Requested (proRequest (finalPrompt basePrompt style active) settings)]\<rparr>)"
proof -
  let ?fn = "generateImageAttempt examplePlatform imageReady basePrompt settings style (Some ''k'') active"
  have "tierOutcome imageReady ''k'' (calls w) (proRequest (finalPrompt basePrompt style active) settings) =
          Resolved ''data:image/png;base64,AAAA''"
    by (simp add: tierOutcome_def imageReady_def pngAnswer_scan)
  then have "?fn w = (Resolved ''data:image/png;base64,AAAA'',
           w\<lparr>calls := calls w + 1,
             trace := trace w @ [Requested (proRequest (finalPrompt basePrompt style active) settings)]\<rparr>)"
    by (simp add: generateImageAttempt_eq [OF example_key] Let_def)
  then show ?thesis
    unfolding generateImage_def by (rule withRetry_resolved [of ?fn])
qed

text \<open>
  C6 as stated fails when another handler writes a slot the batch has filled. The image
  batch runs over the two scenes; the job of the first scene succeeds and its image is
  committed; the job of the second scene fails, and while it is awaited an image is
  uploaded for the first scene. At the end the first scene, whose job succeeded, holds
  the uploaded image, not the generated one.
\<close>

theorem batch_result_overwritten_counterexample:
  "generateImage examplePlatform onlyFirstAnswered (imagePrompt vossScene) exampleSettings exampleStyle
       (Some ''k'') (activeChars [lina, voss] vossScene)
       (emit [ImageLoadingIndexSet (Some 0)] emptyWorld) =
     Some (Resolved ''data:image/png;base64,AAAA'',
           \<lparr>calls = 1,
            trace = [ImageLoadingIndexSet (Some 0),
                     Requested (proRequest (scenePrompt exampleProject vossScene) exampleSettings)]\<rparr>) \<and>
   generateImage examplePlatform onlyFirstAnswered (imagePrompt linaScene) exampleSettings exampleStyle
       (Some ''k'') (activeChars [lina, voss] linaScene)
       \<lparr>calls = 1,
        trace = [ImageLoadingIndexSet (Some 0),
                 Requested (proRequest (scenePrompt exampleProject vossScene) exampleSettings),
                 ProjectUpdated 0, ImageLoadingIndexSet (Some 1)]\<rparr> =
     Some (Rejected \<lparr>status = Some 400, message = Some ''Bad request''\<rparr>,
           \<lparr>calls = 3,
            trace = [ImageLoadingIndexSet (Some 0),
                     Requested (proRequest (scenePrompt exampleProject vossScene) exampleSettings),
                     ProjectUpdated 0, ImageLoadingIndexSet (Some 1),
                     Requested (proRequest (scenePrompt exampleProject linaScene) exampleSettings),
                     FallbackWarned (Some ''Bad request''),
                     Requested (flashRequest (scenePrompt exampleProject linaScene) exampleSettings)]\<rparr>) \<and>
   finalSlots (handleGenerateAllImages examplePlatform onlyFirstAnswered uploadForFirst exampleState
                 emptyWorld) =
     [(None, Some ''data:image/jpeg;base64,BBBB''), (None, None)]"
proof (intro conjI)
  show "generateImage examplePlatform onlyFirstAnswered (imagePrompt vossScene) exampleSettings exampleStyle
       (Some ''k'') (activeChars [lina, voss] vossScene)
       (emit [ImageLoadingIndexSet (Some 0)] emptyWorld) =
     Some (Resolved ''data:image/png;base64,AAAA'',
           \<lparr>calls = 1,
            trace = [ImageLoadingIndexSet (Some 0),
                     Requested (proRequest (scenePrompt exampleProject vossScene) exampleSettings)]\<rparr>)"
    by (subst onlyFirstAnswered_first)
       (simp_all add: emit_def emptyWorld_def scenePrompt_def exampleProject_def exampleConfig_def)
  show "generateImage examplePlatform onlyFirstAnswered (imagePrompt linaScene) exampleSettings exampleStyle
       (Some ''k'') (activeChars [lina, voss] linaScene)
       \<lparr>calls = 1,
        trace = [ImageLoadingIndexSet (Some 0),
                 Requested (proRequest (scenePrompt exampleProject vossScene) exampleSettings),
                 ProjectUpdated 0, ImageLoadingIndexSet (Some 1)]\<rparr> =
     Some (Rejected \<lparr>status = Some 400, message = Some ''Bad request''\<rparr>,
           \<lparr>calls = 3,
            trace = [ImageLoadingIndexSet (Some 0),
                     Requested (proRequest (scenePrompt exampleProject vossScene) exampleSettings),
                     ProjectUpdated 0, ImageLoadingIndexSet (Some 1),
                     Requested (proRequest (scenePrompt exampleProject linaScene) exampleSettings),
                     FallbackWarned (Some ''Bad request''),
                     Requested (flashRequest (scenePrompt exampleProject linaScene) exampleSettings)]\<rparr>)"
    by (subst onlyFirstAnswered_later)
       (simp_all add: scenePrompt_def exampleProject_def exampleConfig_def)
  have p: "mediaSettings (project exampleState) = exampleSettings"
          "imageStyle (project exampleState) = exampleStyle"
          "apiKey (project exampleState) = Some ''k''"
    by (simp_all add: exampleState_def exampleProject_def)
  show "finalSlots (handleGenerateAllImages examplePlatform onlyFirstAnswered uploadForFirst exampleState
                 emptyWorld) =
     [(None, Some ''data:image/jpeg;base64,BBBB''), (None, None)]"
    apply (simp add: handleGenerateAllImages_def exampleState_output Let_def)
    apply (subst imageLoop.simps)
    apply (simp add: Let_def p onlyFirstAnswered_first onlyFirstAnswered_later emit_def emptyWorld_def
        uploadForFirst_def mergeBatchImage_def exampleState_output)
    apply (subst imageLoop.simps)
    apply (simp add: Let_def p onlyFirstAnswered_first onlyFirstAnswered_later emit_def)
    apply (subst imageLoop.simps)
    apply (simp add: uploadForFirst_def imageUploaded_def mergeBatchImage_def
        finalSlots_def projectSlots_def sceneList_def slots_def vossScene_def linaScene_def)
    done
qed

subsection \<open>The prompt that the image jobs send\<close>













subsection \<open>The single-scene handlers\<close>

text \<open>
  C7 fails on the single-scene handlers when the targeted scene has changed while the
  job was in flight. The image job of the first scene is started; before it completes
  a new script arrives, so that the first scene of the story is another one; the update
  of the handler then writes the scene it read before the call, and the narrative and
  the image prompt of the first scene are those of the old scene again. Likewise, when
  the audio of the first scene is committed while the image job is in flight, the
  update of the image handler empties the audio slot. The update of the image batch,
  applied to the same states, replaces the image slot only.
\<close>

theorem stale_scene_overwrites_text:
  "map narrative (sceneList (project (scriptArrived exampleStory
       (exampleState\<lparr>imageLoadingIndex := Some 0\<rparr>)))) = [''Lina walks.''] \<and>
   map narrative (finalScenes (handleGenerateImage examplePlatform imageReady
       (scriptArrived exampleStory) 0 exampleState emptyWorld)) = [''He waits.''] \<and>
   map imagePrompt (finalScenes (handleGenerateImage examplePlatform imageReady
       (scriptArrived exampleStory) 0 exampleState emptyWorld)) = [''Voss on the pier''] \<and>
   map_option (\<lambda>p. map narrative (sceneList p))
     (mergeBatchImage 0 ''data:image/png;base64,AAAA''
        (project (scriptArrived exampleStory (exampleState\<lparr>imageLoadingIndex := Some 0\<rparr>)))) =
     Some [''Lina walks.''] \<and>
   map slots (sceneList (project (audioCommitted (exampleState\<lparr>imageLoadingIndex := Some 0\<rparr>)))) =
     [(Some wavBase64, None), (None, None)] \<and>
   finalSlots (handleGenerateImage examplePlatform imageReady audioCommitted 0 exampleState emptyWorld) =
     [(None, Some ''data:image/png;base64,AAAA''), (None, None)] \<and>
   map_option projectSlots
     (mergeBatchImage 0 ''data:image/png;base64,AAAA''
        (project (audioCommitted (exampleState\<lparr>imageLoadingIndex := Some 0\<rparr>)))) =
     Some [(Some wavBase64, Some ''data:image/png;base64,AAAA''), (None, None)]"
proof (intro conjI)
  let ?st1 = "exampleState\<lparr>imageLoadingIndex := Some 0\<rparr>"
  have p: "mediaSettings (project exampleState) = exampleSettings"
          "imageStyle (project exampleState) = exampleStyle"
          "apiKey (project exampleState) = Some ''k''"
    by (simp_all add: exampleState_def exampleProject_def)
  have q: "project (scriptArrived exampleStory ?st1) = exampleProject\<lparr>projectOutput := Some exampleStory\<rparr>"
    by (simp add: scriptArrived_def exampleState_def)
  have a: "project (audioCommitted ?st1) =
      exampleProject\<lparr>projectOutput := Some \<lparr>title = ''T'', summary = ''S'',
         scenes = [vossScene\<lparr>audioData := Some wavBase64\<rparr>, linaScene]\<rparr>\<rparr>"
    by (simp add: audioCommitted_def mergeBatchAudio_def exampleState_def exampleProject_def)
  show "map narrative (sceneList (project (scriptArrived exampleStory ?st1))) = [''Lina walks.'']"
    unfolding q by (simp add: sceneList_def exampleStory_def)
  show "map narrative (finalScenes (handleGenerateImage examplePlatform imageReady
       (scriptArrived exampleStory) 0 exampleState emptyWorld)) = [''He waits.'']"
    by (simp add: handleGenerateImage_def Let_def exampleState_output p imageReady_generates q
        mergeSceneImage_def assignAt_def finalScenes_def sceneList_def)
       (simp add: vossScene_def exampleStory_def)
  show "map imagePrompt (finalScenes (handleGenerateImage examplePlatform imageReady
       (scriptArrived exampleStory) 0 exampleState emptyWorld)) = [''Voss on the pier'']"
    by (simp add: handleGenerateImage_def Let_def exampleState_output p imageReady_generates q
        mergeSceneImage_def assignAt_def finalScenes_def sceneList_def)
       (simp add: vossScene_def exampleStory_def)
  show "map_option (\<lambda>p. map narrative (sceneList p))
     (mergeBatchImage 0 ''data:image/png;base64,AAAA'' (project (scriptArrived exampleStory ?st1))) =
     Some [''Lina walks.'']"
    unfolding q by (simp add: mergeBatchImage_def sceneList_def exampleStory_def)
  show "map slots (sceneList (project (audioCommitted ?st1))) = [(Some wavBase64, None), (None, None)]"
    by (simp add: a sceneList_def slots_def vossScene_def linaScene_def)
  show "finalSlots (handleGenerateImage examplePlatform imageReady audioCommitted 0 exampleState emptyWorld) =
     [(None, Some ''data:image/png;base64,AAAA''), (None, None)]"
    by (simp add: handleGenerateImage_def Let_def exampleState_output p imageReady_generates a
        mergeSceneImage_def assignAt_def finalSlots_def projectSlots_def sceneList_def slots_def)
       (simp add: vossScene_def linaScene_def)
  show "map_option projectSlots
     (mergeBatchImage 0 ''data:image/png;base64,AAAA'' (project (audioCommitted ?st1))) =
     Some [(Some wavBase64, Some ''data:image/png;base64,AAAA''), (None, None)]"
    by (simp add: a mergeBatchImage_def projectSlots_def sceneList_def slots_def vossScene_def
        linaScene_def)
qed

lemma speech_voss_four:
  "generateSpeech examplePlatform fourByteSpeech (narrative vossScene)
      (voiceType (voiceConfig (project exampleState))) (apiKey (project exampleState))
      (emit [AudioLoadingIndexSet (Some 0)] emptyWorld) =
   Some (Resolved wavBase64,
         \<lparr>calls = 1,
          trace = [AudioLoadingIndexSet (Some 0),
                   Requested (SpeechRequest ''gemini-2.5-flash-preview-tts'' ''He waits.'' ''Kore'')]\<rparr>)"
proof -
  have v: "voiceType (voiceConfig (project exampleState)) = ''woman''"
          "apiKey (project exampleState) = Some ''k''" "narrative vossScene = ''He waits.''"
    by (simp_all add: exampleState_def exampleProject_def exampleVoice_def vossScene_def)
  show ?thesis
    unfolding v
    by (subst speech_four_bytes)
       (simp_all add: fourByteSpeech_def emit_def emptyWorld_def voiceNameOf_def)
qed

text \<open>
  C8 fails on the single-scene handlers. The audio job and the image job of the first
  scene start from the same state; the image job completes first and its image is in
  the state; when the audio job completes, its update writes the scene it read before
  the call, and the image is gone. The update of the batch handler, applied to the
  same state, keeps the image.
\<close>

theorem stale_scene_overwrites_image:
  "map slots (sceneList (project (imageArrives (exampleState\<lparr>audioLoadingIndex := Some 0\<rparr>)))) =
     [(None, Some ''data:image/png;base64,AAAA''), (None, None)] \<and>
   finalSlots (handleGenerateAudio examplePlatform fourByteSpeech imageArrives 0 exampleState emptyWorld) =
     [(Some wavBase64, None), (None, None)] \<and>
   map_option projectSlots
     (mergeBatchAudio 0 wavBase64 (project (imageArrives (exampleState\<lparr>audioLoadingIndex := Some 0\<rparr>)))) =
     Some [(Some wavBase64, Some ''data:image/png;base64,AAAA''), (None, None)]"
proof (intro conjI)
  let ?st1 = "exampleState\<lparr>audioLoadingIndex := Some 0\<rparr>"
  have p: "project (imageArrives ?st1) =
      exampleProject\<lparr>projectOutput := Some \<lparr>title = ''T'', summary = ''S'',
         scenes = [vossScene\<lparr>imageUrl := Some ''data:image/png;base64,AAAA''\<rparr>, linaScene]\<rparr>\<rparr>"
    by (simp add: imageArrives_def mergeSceneImage_def assignAt_def exampleState_def exampleProject_def)
  show "map slots (sceneList (project (imageArrives ?st1))) =
     [(None, Some ''data:image/png;base64,AAAA''), (None, None)]"
    by (simp add: p sceneList_def slots_def vossScene_def linaScene_def)
  have s: "scenes \<lparr>title = ''T'', summary = ''S'', scenes = [vossScene, linaScene]\<rparr> ! 0 = vossScene"
    by simp
  show "finalSlots (handleGenerateAudio examplePlatform fourByteSpeech imageArrives 0 exampleState emptyWorld) =
     [(Some wavBase64, None), (None, None)]"
    by (simp add: handleGenerateAudio_def Let_def exampleState_output speech_voss_four p
        mergeSceneAudio_def assignAt_def finalSlots_def projectSlots_def sceneList_def slots_def)
       (simp add: vossScene_def linaScene_def exampleProject_def)
  show "map_option projectSlots (mergeBatchAudio 0 wavBase64 (project (imageArrives ?st1))) =
     Some [(Some wavBase64, Some ''data:image/png;base64,AAAA''), (None, None)]"
    by (simp add: p mergeBatchAudio_def projectSlots_def sceneList_def slots_def vossScene_def
        linaScene_def)
qed

end
